theory Spec2Isabelle
  imports
    Main
    "HOL-Library.Word"
    "HOL-Library.Char_ord"
    "HOL-Library.List_Lexorder"
    "HOL-Library.AList"
begin

unbundle bit_operations_syntax

section \<open>The state diff builder of \<^verbatim>\<open>statediff/builder.go\<close>\<close>

text \<open>
  A shallow embedding of the diff builder: the two passes over the difference iterators of
  two state tries, the reconciliation of the account maps by leaf key, the storage diffs
  and the entry points \<^verbatim>\<open>WriteStateDiffObject\<close> and \<^verbatim>\<open>BuildStateDiffObject\<close>.
  \<^verbatim>\<open>BuildStateTrieObject\<close>, the walk over a single trie, is left out.
\<close>

subsection \<open>Bytes, errors and panics\<close>

type_synonym byte = "8 word"
type_synonym bytes = "byte list"

text \<open>\<^verbatim>\<open>common.Hash\<close> is \<^verbatim>\<open>[32]byte\<close>, \<^verbatim>\<open>common.Address\<close> is \<^verbatim>\<open>[20]byte\<close>; both are
  kept as byte lists, a nil slice and an empty slice are both \<open>[]\<close> (\<^verbatim>\<open>bytes.Equal\<close>
  does not tell them apart).\<close>

type_synonym hash = bytes
type_synonym address = bytes

text \<open>A Go \<^verbatim>\<open>error\<close> value: either an error made elsewhere (by the store, a codec, the
  sink, or \<^verbatim>\<open>fmt.Errorf\<close> without an inner error), known by its message, or the result of
  \<^verbatim>\<open>fmt.Errorf(prefix + "%v", err)\<close>, a new error value around the text of \<open>err\<close>.\<close>

datatype error = Error string | Errorf string error

fun error_message :: "error \<Rightarrow> string" where
  "error_message (Error m) = m"
| "error_message (Errorf p e) = p @ error_message e"

text \<open>A call fails by returning an error or by panicking (a failed type assertion, an
  index out of range, a nil dereference). A panic unwinds through every caller, so no
  caller wraps it.\<close>

datatype failure = Err error | Panic string

fun wrapf :: "string \<Rightarrow> failure \<Rightarrow> failure" where
  "wrapf p (Err e) = Err (Errorf p e)"
| "wrapf p (Panic m) = Panic m"

definition crlf :: string where
  "crlf = [CHR 0x0D, CHR 0x0A]"

subsection \<open>Records of the package\<close>

text \<open>\<^verbatim>\<open>sdtypes.NodeType\<close> is a string type; \<open>NoNodeType\<close> is its zero value, the type of
  a record read from a map under a key the map does not hold.\<close>

datatype NodeType = Unknown | Leaf | Extension | Branch | Removed | NoNodeType

fun NodeType_String :: "NodeType \<Rightarrow> string" where
  "NodeType_String Unknown = ''Unknown''"
| "NodeType_String Leaf = ''Leaf''"
| "NodeType_String Extension = ''Extension''"
| "NodeType_String Branch = ''Branch''"
| "NodeType_String Removed = ''Removed''"
| "NodeType_String NoNodeType = ''''"

record Account =
  Nonce :: "64 word"
  Balance :: int
  Root :: hash
  CodeHash :: bytes

record accountWrapper =
  NodeType :: NodeType
  Path :: bytes
  NodeValue :: bytes
  LeafKey :: bytes
  Account :: "Account option"

record StorageNode =
  NodeType :: NodeType
  Path :: bytes
  NodeValue :: bytes
  LeafKey :: bytes

record StateNode =
  NodeType :: NodeType
  Path :: bytes
  NodeValue :: bytes
  LeafKey :: bytes
  StorageNodes :: "StorageNode list"

record CodeAndCodeHash =
  Hash :: hash
  Code :: bytes

record Params =
  IntermediateStateNodes :: bool
  IntermediateStorageNodes :: bool
  WatchedAddresses :: "address list"
  WatchedStorageSlots :: "hash list"

record StateRoots =
  OldStateRoot :: hash
  NewStateRoot :: hash

record Args =
  OldStateRoot :: hash
  NewStateRoot :: hash
  BlockHash :: hash
  BlockNumber :: "int option"

record StateObject =
  BlockNumber :: "int option"
  BlockHash :: hash
  Nodes :: "StateNode list"
  CodeAndCodeHashes :: "CodeAndCodeHash list"

text \<open>\<^verbatim>\<open>AccountMap\<close> is \<^verbatim>\<open>map[string]accountWrapper\<close>: an association list with one entry
  per key. Reading a key that is absent gives the zero \<^verbatim>\<open>accountWrapper\<close>.\<close>

type_synonym AccountMap = "(string \<times> accountWrapper) list"

text \<open>\<^verbatim>\<open>diffPathsAtB\<close> is a \<^verbatim>\<open>map[string]bool\<close>, kept the same way; the builder stores
  \<^verbatim>\<open>true\<close> under a path and later asks whether the path is a key.\<close>

type_synonym PathMap = "(string \<times> bool) list"

definition zero_accountWrapper :: accountWrapper where
  "zero_accountWrapper =
     \<lparr>accountWrapper.NodeType = NoNodeType, Path = [], NodeValue = [], LeafKey = [],
      Account = None\<rparr>"

definition am_get :: "AccountMap \<Rightarrow> string \<Rightarrow> accountWrapper" where
  "am_get m k = (case map_of m k of None \<Rightarrow> zero_accountWrapper | Some v \<Rightarrow> v)"

text \<open>The zero \<^verbatim>\<open>common.Hash\<close> and the zero \<^verbatim>\<open>StateObject\<close>.\<close>

definition zero_Hash :: hash where
  "zero_Hash = replicate 32 0"

definition zero_StateObject :: StateObject where
  "zero_StateObject =
     \<lparr>StateObject.BlockNumber = None, BlockHash = zero_Hash, Nodes = [],
      CodeAndCodeHashes = []\<rparr>"

subsection \<open>What the builder calls outside the source files\<close>

text \<open>One step of a \<^verbatim>\<open>trie.NodeIterator\<close>: what \<^verbatim>\<open>Leaf()\<close>, \<^verbatim>\<open>Hash()\<close> and \<^verbatim>\<open>Path()\<close>
  return after a \<^verbatim>\<open>Next(true)\<close> that returned true, and the encoded bytes of the node or
  value the step stands on. An iterator is the list of its steps and the value of
  \<^verbatim>\<open>Error()\<close> once \<^verbatim>\<open>Next\<close> has returned false.\<close>

record IterStep =
  it_Leaf :: bool
  it_Hash :: hash
  it_Path :: bytes
  it_Blob :: bytes

record NodeIterator =
  it_steps :: "IterStep list"
  it_Error :: "error option"

text \<open>An element of the \<^verbatim>\<open>[]interface{}\<close> that \<^verbatim>\<open>rlp.DecodeBytes\<close> fills: a byte string
  or a nested list.\<close>

datatype rlp_item = RBytes bytes | RList "rlp_item list"

text \<open>
  The state database and the functions of the packages \<^verbatim>\<open>trie\<close>, \<^verbatim>\<open>rlp\<close> and
  \<^verbatim>\<open>crypto\<close> are parameters of the model.
  \<^item> \<open>OpenTrie sdb root\<close> is \<^verbatim>\<open>sdb.stateCache.OpenTrie(root)\<close> followed by
    \<^verbatim>\<open>NodeIterator([]byte{})\<close>, the only way the builder uses a trie;
  \<^item> \<open>TrieDB_Node\<close> is \<^verbatim>\<open>sdb.stateCache.TrieDB().Node\<close>, \<open>ContractCode\<close> is
    \<^verbatim>\<open>sdb.stateCache.ContractCode\<close>;
  \<^item> \<open>rlp_DecodeBytes\<close> decodes into a \<^verbatim>\<open>[]interface{}\<close>, \<open>rlp_DecodeAccount\<close> into a
    \<^verbatim>\<open>state.Account\<close>, \<open>rlp_EncodeToBytes\<close> encodes a byte string;
  \<^item> \<open>CheckKeyType\<close> classifies the decoded elements of a node (it may panic on them);
  \<^item> \<open>range_rank\<close> fixes the order in which a \<^verbatim>\<open>range\<close> over an \<^verbatim>\<open>AccountMap\<close> visits the
    keys: Go leaves that order unspecified, so every order is possible, and every
    ranking of the keys gives one.
\<close>

record env =
  OpenTrie :: "hash \<Rightarrow> error + NodeIterator"
  TrieDB_Node :: "hash \<Rightarrow> error + bytes"
  ContractCode :: "hash \<Rightarrow> hash \<Rightarrow> error + bytes"
  rlp_DecodeBytes :: "bytes \<Rightarrow> error + rlp_item list"
  rlp_DecodeAccount :: "bytes \<Rightarrow> error + Account"
  rlp_EncodeToBytes :: "bytes \<Rightarrow> bytes"
  CheckKeyType :: "rlp_item list \<Rightarrow> failure + NodeType"
  CompactToHex :: "bytes \<Rightarrow> bytes"
  HexToCompact :: "bytes \<Rightarrow> bytes"
  Keccak256 :: "bytes \<Rightarrow> bytes"
  range_rank :: "string \<Rightarrow> nat"

definition map_range :: "env \<Rightarrow> AccountMap \<Rightarrow> AccountMap" where
  "map_range sdb m = sort_key (\<lambda>kv. range_rank sdb (fst kv)) m"

text \<open>Modelled from the spec: \<open>hex(...)\<close>. \<^verbatim>\<open>common.Bytes2Hex\<close> is outside the source
  files; two lower-case hexadecimal digits for each byte.\<close>

definition hex_digit :: "nat \<Rightarrow> char" where
  "hex_digit n = ''0123456789abcdef'' ! (n mod 16)"

definition Bytes2Hex :: "bytes \<Rightarrow> string" where
  "Bytes2Hex bs = concat (map (\<lambda>b. [hex_digit (unat b div 16), hex_digit (unat b mod 16)]) bs)"

text \<open>Modelled from the spec: a code hash is a 32-byte hash. \<^verbatim>\<open>common.BytesToHash\<close> is
  outside the source files; it keeps the last 32 bytes and pads with zeros on the left.\<close>

definition BytesToHash :: "bytes \<Rightarrow> hash" where
  "BytesToHash b =
     (let b' = drop (length b - 32) b in replicate (32 - length b') 0 @ b')"

definition Hash_String :: "hash \<Rightarrow> string" where
  "Hash_String h = ''0x'' @ Bytes2Hex h"

text \<open>Modelled from the spec: the difference iterator \<open>diff_iter(a, b)\<close> "yields exactly the
  nodes visited by \<open>b\<close> whose (path, hash) pair does not also appear at the same path in
  \<open>a\<close>", hashless nodes being "compared by encoded bytes". \<^verbatim>\<open>trie.NewDifferenceIterator\<close>
  is outside the source files. Its \<^verbatim>\<open>Error()\<close> is the error of either side.\<close>

definition same_node :: "IterStep \<Rightarrow> IterStep \<Rightarrow> bool" where
  "same_node m n \<longleftrightarrow>
     it_Path m = it_Path n \<and> it_Hash m = it_Hash n \<and>
     (it_Hash n = zero_Hash \<longrightarrow> it_Blob m = it_Blob n)"

definition NewDifferenceIterator :: "NodeIterator \<Rightarrow> NodeIterator \<Rightarrow> NodeIterator" where
  "NewDifferenceIterator a b =
     \<lparr>it_steps = filter (\<lambda>n. \<not> list_ex (\<lambda>m. same_node m n) (it_steps a)) (it_steps b),
      it_Error = (case it_Error a of Some e \<Rightarrow> Some e | None \<Rightarrow> it_Error b)\<rparr>"

text \<open>Modelled from the spec: "Compute \<open>updated = keys(diffA) \<inter> keys(diffB)\<close>", "sorted
  lexicographically". \<^verbatim>\<open>sortKeys\<close> and \<^verbatim>\<open>findIntersection\<close> are functions of the package
  outside the source files: the first gives the keys of a map in ascending order, the
  second the keys of its first argument that are in the second, in the same order.\<close>

definition sortKeys :: "AccountMap \<Rightarrow> string list" where
  "sortKeys m = sort (map fst m)"

definition findIntersection :: "string list \<Rightarrow> string list \<Rightarrow> string list" where
  "findIntersection a b = filter (\<lambda>k. k \<in> set b) a"

subsection \<open>Package variables\<close>

definition nullHashBytes :: bytes where
  "nullHashBytes = replicate 32 0"

definition emptyNode :: "env \<Rightarrow> bytes" where
  "emptyNode sdb = rlp_EncodeToBytes sdb []"

definition emptyContractRoot :: "env \<Rightarrow> hash" where
  "emptyContractRoot sdb = Keccak256 sdb (emptyNode sdb)"

definition nullCodeHash :: "env \<Rightarrow> bytes" where
  "nullCodeHash sdb = Keccak256 sdb []"

subsection \<open>Sinks and loops\<close>

text \<open>
  A sink is a callback that may keep state; its answer to a record is a function of the
  records it has been given before. A function that writes to a sink takes the list of
  the records given so far and returns that list extended, with its result. The record a
  sink rejects is in the list: it was given to the sink.
\<close>

type_synonym 'n sink = "'n list \<Rightarrow> 'n \<Rightarrow> error option"

definition emit :: "'n sink \<Rightarrow> 'n \<Rightarrow> 'n list \<Rightarrow> 'n list \<times> (failure + unit)" where
  "emit output n tr =
     (tr @ [n], case output tr n of Some e \<Rightarrow> Inl (Err e) | None \<Rightarrow> Inr ())"

text \<open>\<^verbatim>\<open>stateNodeAppender\<close> and \<^verbatim>\<open>storageNodeAppender\<close> append to a slice and return nil:
  the slice is the list of the records given.\<close>

definition stateNodeAppender :: "StateNode sink" where
  "stateNodeAppender tr n = None"

definition storageNodeAppender :: "StorageNode sink" where
  "storageNodeAppender tr n = None"

text \<open>A \<^verbatim>\<open>for\<close> loop over the steps of an iterator, the keys of a slice or the entries of a
  map, whose body may return from the function: the body takes the loop's variables and
  gives them back, or fails, and a failure ends the loop.\<close>

fun for_each :: "('a \<Rightarrow> 's \<Rightarrow> failure + 's) \<Rightarrow> 'a list \<Rightarrow> 's \<Rightarrow> failure + 's" where
  "for_each body [] s = Inr s"
| "for_each body (x # xs) s =
     (case body x s of Inl f \<Rightarrow> Inl f | Inr s' \<Rightarrow> for_each body xs s')"

fun for_each_out ::
  "('a \<Rightarrow> 's \<Rightarrow> 'n list \<Rightarrow> 'n list \<times> (failure + 's)) \<Rightarrow> 'a list \<Rightarrow> 's \<Rightarrow> 'n list
     \<Rightarrow> 'n list \<times> (failure + 's)" where
  "for_each_out body [] s tr = (tr, Inr s)"
| "for_each_out body (x # xs) s tr =
     (case body x s tr of
        (tr', Inl f) \<Rightarrow> (tr', Inl f)
      | (tr', Inr s') \<Rightarrow> for_each_out body xs s' tr')"

text \<open>The value of \<^verbatim>\<open>it.Error()\<close> returned after a loop.\<close>

definition iterator_error :: "NodeIterator \<Rightarrow> 'a \<Rightarrow> failure + 'a" where
  "iterator_error it r = (case it_Error it of Some e \<Rightarrow> Inl (Err e) | None \<Rightarrow> Inr r)"

subsection \<open>Reading a node\<close>

text \<open>Every loop reads the node of a step in the same three lines:
  \<^verbatim>\<open>TrieDB().Node(it.Hash())\<close>, \<^verbatim>\<open>rlp.DecodeBytes(node, &nodeElements)\<close>,
  \<^verbatim>\<open>CheckKeyType(nodeElements)\<close>, each error returned as it is.\<close>

definition read_node :: "env \<Rightarrow> hash \<Rightarrow> failure + (bytes \<times> rlp_item list \<times> NodeType)" where
  "read_node sdb h =
     (case TrieDB_Node sdb h of
        Inl e \<Rightarrow> Inl (Err e)
      | Inr node \<Rightarrow>
          (case rlp_DecodeBytes sdb node of
             Inl e \<Rightarrow> Inl (Err e)
           | Inr nodeElements \<Rightarrow>
               (case CheckKeyType sdb nodeElements of
                  Inl f \<Rightarrow> Inl f
                | Inr ty \<Rightarrow> Inr (node, nodeElements, ty))))"

text \<open>\<^verbatim>\<open>nodeElements[i].([]byte)\<close>: the index and the type assertion panic.\<close>

definition element_bytes :: "rlp_item list \<Rightarrow> nat \<Rightarrow> failure + bytes" where
  "element_bytes nodeElements i =
     (if length nodeElements \<le> i then Inl (Panic ''index out of range'')
      else (case nodeElements ! i of
              RBytes b \<Rightarrow> Inr b
            | RList l \<Rightarrow> Inl (Panic ''interface conversion'')))"

text \<open>The leaf key of a leaf at \<open>nodePath\<close>:
  \<^verbatim>\<open>partialPath := trie.CompactToHex(nodeElements[0].([]byte))\<close>,
  \<^verbatim>\<open>valueNodePath := append(nodePath, partialPath...)\<close>,
  \<^verbatim>\<open>encodedPath := trie.HexToCompact(valueNodePath)\<close>, \<^verbatim>\<open>leafKey := encodedPath[1:]\<close>.\<close>

definition leaf_key :: "env \<Rightarrow> bytes \<Rightarrow> rlp_item list \<Rightarrow> failure + bytes" where
  "leaf_key sdb nodePath nodeElements =
     (case element_bytes nodeElements 0 of
        Inl f \<Rightarrow> Inl f
      | Inr compact \<Rightarrow>
          (let partialPath = CompactToHex sdb compact;
               valueNodePath = nodePath @ partialPath;
               encodedPath = HexToCompact sdb valueNodePath
           in if encodedPath = [] then Inl (Panic ''slice bounds out of range'')
              else Inr (tl encodedPath)))"

text \<open>\<^verbatim>\<open>rlp.DecodeBytes(nodeElements[1].([]byte), &account)\<close> with its error message.\<close>

definition decode_account :: "env \<Rightarrow> bytes \<Rightarrow> rlp_item list \<Rightarrow> failure + Account" where
  "decode_account sdb nodePath nodeElements =
     (case element_bytes nodeElements 1 of
        Inl f \<Rightarrow> Inl f
      | Inr b \<Rightarrow>
          (case rlp_DecodeAccount sdb b of
             Inl e \<Rightarrow>
               Inl (Err (Errorf (''error decoding account for leaf node at path ''
                                   @ Bytes2Hex nodePath @ '' nerror: '') e))
           | Inr account \<Rightarrow> Inr account))"

definition unexpected_node_type :: "NodeType \<Rightarrow> failure" where
  "unexpected_node_type ty = Err (Error (''unexpected node type '' @ NodeType_String ty))"

subsection \<open>Watch filters\<close>

fun isWatchedAddress_loop :: "env \<Rightarrow> address list \<Rightarrow> bytes \<Rightarrow> bool" where
  "isWatchedAddress_loop sdb [] stateLeafKey = False"
| "isWatchedAddress_loop sdb (addr # rest) stateLeafKey =
     (if Keccak256 sdb addr = stateLeafKey then True
      else isWatchedAddress_loop sdb rest stateLeafKey)"

definition isWatchedAddress :: "env \<Rightarrow> address list \<Rightarrow> bytes \<Rightarrow> bool" where
  "isWatchedAddress sdb watchedAddresses stateLeafKey =
     (if length watchedAddresses = 0 then True
      else isWatchedAddress_loop sdb watchedAddresses stateLeafKey)"

fun isWatchedStorageKey_loop :: "hash list \<Rightarrow> bytes \<Rightarrow> bool" where
  "isWatchedStorageKey_loop [] storageLeafKey = False"
| "isWatchedStorageKey_loop (hashKey # rest) storageLeafKey =
     (if hashKey = storageLeafKey then True
      else isWatchedStorageKey_loop rest storageLeafKey)"

definition isWatchedStorageKey :: "hash list \<Rightarrow> bytes \<Rightarrow> bool" where
  "isWatchedStorageKey watchedKeys storageLeafKey =
     (if length watchedKeys = 0 then True
      else isWatchedStorageKey_loop watchedKeys storageLeafKey)"

subsection \<open>Storage diffs\<close>

text \<open>The body of the loop of \<^verbatim>\<open>buildStorageNodesFromTrie\<close>; the loop has no variables of
  its own.\<close>

definition buildStorageNodesFromTrie_body ::
  "env \<Rightarrow> hash list \<Rightarrow> bool \<Rightarrow> StorageNode sink \<Rightarrow> IterStep \<Rightarrow> unit \<Rightarrow> StorageNode list
     \<Rightarrow> StorageNode list \<times> (failure + unit)" where
  "buildStorageNodesFromTrie_body sdb watchedStorageKeys intermediateNodes output it u tr =
     (if it_Leaf it then (tr, Inr ())
      else if nullHashBytes = it_Hash it then (tr, Inr ())
      else
        (let nodePath = it_Path it in
         case read_node sdb (it_Hash it) of
           Inl f \<Rightarrow> (tr, Inl f)
         | Inr (node, nodeElements, ty) \<Rightarrow>
             if ty = Leaf then
               (case leaf_key sdb nodePath nodeElements of
                  Inl f \<Rightarrow> (tr, Inl f)
                | Inr leafKey \<Rightarrow>
                    if isWatchedStorageKey watchedStorageKeys leafKey then
                      emit output
                        \<lparr>StorageNode.NodeType = ty, Path = nodePath, NodeValue = node,
                         LeafKey = leafKey\<rparr> tr
                    else (tr, Inr ()))
             else if ty = Extension \<or> ty = Branch then
               (if intermediateNodes then
                  emit output
                    \<lparr>StorageNode.NodeType = ty, Path = nodePath, NodeValue = node,
                     LeafKey = []\<rparr> tr
                else (tr, Inr ()))
             else (tr, Inl (unexpected_node_type ty))))"

definition buildStorageNodesFromTrie ::
  "env \<Rightarrow> NodeIterator \<Rightarrow> hash list \<Rightarrow> bool \<Rightarrow> StorageNode sink \<Rightarrow> StorageNode list
     \<Rightarrow> StorageNode list \<times> (failure + unit)" where
  "buildStorageNodesFromTrie sdb it watchedStorageKeys intermediateNodes output tr =
     (case for_each_out
             (buildStorageNodesFromTrie_body sdb watchedStorageKeys intermediateNodes output)
             (it_steps it) () tr of
        (tr', Inl f) \<Rightarrow> (tr', Inl f)
      | (tr', Inr u) \<Rightarrow> (tr', iterator_error it ()))"

definition buildStorageNodesEventual ::
  "env \<Rightarrow> hash \<Rightarrow> hash list \<Rightarrow> bool \<Rightarrow> StorageNode sink \<Rightarrow> StorageNode list
     \<Rightarrow> StorageNode list \<times> (failure + unit)" where
  "buildStorageNodesEventual sdb sr watchedStorageKeys intermediateNodes output tr =
     (if sr = emptyContractRoot sdb then (tr, Inr ())
      else
        (case OpenTrie sdb sr of
           Inl e \<Rightarrow> (tr, Inl (Err e))
         | Inr it \<Rightarrow>
             buildStorageNodesFromTrie sdb it watchedStorageKeys intermediateNodes output tr))"

text \<open>The body of the loop of \<^verbatim>\<open>createdAndUpdatedStorage\<close>; the loop's variable is
  \<^verbatim>\<open>diffPathsAtB\<close>, a \<^verbatim>\<open>map[string]bool\<close>.\<close>

definition createdAndUpdatedStorage_body ::
  "env \<Rightarrow> hash list \<Rightarrow> bool \<Rightarrow> StorageNode sink \<Rightarrow> IterStep \<Rightarrow> PathMap
     \<Rightarrow> StorageNode list \<Rightarrow> StorageNode list \<times> (failure + PathMap)" where
  "createdAndUpdatedStorage_body sdb watchedKeys intermediateNodes output it diffPathsAtB tr =
     (if it_Leaf it then (tr, Inr diffPathsAtB)
      else if nullHashBytes = it_Hash it then (tr, Inr diffPathsAtB)
      else
        (let nodePath = it_Path it in
         case read_node sdb (it_Hash it) of
           Inl f \<Rightarrow> (tr, Inl f)
         | Inr (node, nodeElements, ty) \<Rightarrow>
             (case
                (if ty = Leaf then
                   (case leaf_key sdb nodePath nodeElements of
                      Inl f \<Rightarrow> (tr, Inl f)
                    | Inr leafKey \<Rightarrow>
                        if isWatchedStorageKey watchedKeys leafKey then
                          emit output
                            \<lparr>StorageNode.NodeType = ty, Path = nodePath, NodeValue = node,
                             LeafKey = leafKey\<rparr> tr
                        else (tr, Inr ()))
                 else if ty = Extension \<or> ty = Branch then
                   (if intermediateNodes then
                      emit output
                        \<lparr>StorageNode.NodeType = ty, Path = nodePath, NodeValue = node,
                         LeafKey = []\<rparr> tr
                    else (tr, Inr ()))
                 else (tr, Inl (unexpected_node_type ty))) of
                (tr', Inl f) \<Rightarrow> (tr', Inl f)
              | (tr', Inr u) \<Rightarrow> (tr', Inr (AList.update (Bytes2Hex nodePath) True diffPathsAtB)))))"

definition createdAndUpdatedStorage ::
  "env \<Rightarrow> NodeIterator \<Rightarrow> NodeIterator \<Rightarrow> hash list \<Rightarrow> bool \<Rightarrow> StorageNode sink
     \<Rightarrow> StorageNode list \<Rightarrow> StorageNode list \<times> (failure + PathMap)" where
  "createdAndUpdatedStorage sdb a b watchedKeys intermediateNodes output tr =
     (let it = NewDifferenceIterator a b in
      case for_each_out
             (createdAndUpdatedStorage_body sdb watchedKeys intermediateNodes output)
             (it_steps it) [] tr of
        (tr', Inl f) \<Rightarrow> (tr', Inl f)
      | (tr', Inr diffPathsAtB) \<Rightarrow> (tr', iterator_error it diffPathsAtB))"

text \<open>The body of the loop of \<^verbatim>\<open>deletedOrUpdatedStorage\<close>.\<close>

definition deletedOrUpdatedStorage_body ::
  "env \<Rightarrow> PathMap \<Rightarrow> hash list \<Rightarrow> bool \<Rightarrow> StorageNode sink \<Rightarrow> IterStep \<Rightarrow> unit
     \<Rightarrow> StorageNode list \<Rightarrow> StorageNode list \<times> (failure + unit)" where
  "deletedOrUpdatedStorage_body sdb diffPathsAtB watchedKeys intermediateNodes output it u tr =
     (if it_Leaf it then (tr, Inr ())
      else if nullHashBytes = it_Hash it then (tr, Inr ())
      else
        (let nodePath = it_Path it in
         if map_of diffPathsAtB (Bytes2Hex nodePath) \<noteq> None then (tr, Inr ())
         else
           (case read_node sdb (it_Hash it) of
              Inl f \<Rightarrow> (tr, Inl f)
            | Inr (node, nodeElements, ty) \<Rightarrow>
                if ty = Leaf then
                  (case leaf_key sdb nodePath nodeElements of
                     Inl f \<Rightarrow> (tr, Inl f)
                   | Inr leafKey \<Rightarrow>
                       if isWatchedStorageKey watchedKeys leafKey then
                         emit output
                           \<lparr>StorageNode.NodeType = Removed, Path = nodePath, NodeValue = [],
                            LeafKey = []\<rparr> tr
                       else (tr, Inr ()))
                else if ty = Extension \<or> ty = Branch then
                  (if intermediateNodes then
                     emit output
                       \<lparr>StorageNode.NodeType = Removed, Path = nodePath, NodeValue = [],
                        LeafKey = []\<rparr> tr
                   else (tr, Inr ()))
                else (tr, Inl (unexpected_node_type ty)))))"

definition deletedOrUpdatedStorage ::
  "env \<Rightarrow> NodeIterator \<Rightarrow> NodeIterator \<Rightarrow> PathMap \<Rightarrow> hash list \<Rightarrow> bool
     \<Rightarrow> StorageNode sink \<Rightarrow> StorageNode list \<Rightarrow> StorageNode list \<times> (failure + unit)" where
  "deletedOrUpdatedStorage sdb a b diffPathsAtB watchedKeys intermediateNodes output tr =
     (let it = NewDifferenceIterator b a in
      case for_each_out
             (deletedOrUpdatedStorage_body sdb diffPathsAtB watchedKeys intermediateNodes output)
             (it_steps it) () tr of
        (tr', Inl f) \<Rightarrow> (tr', Inl f)
      | (tr', Inr u) \<Rightarrow> (tr', iterator_error it ()))"

definition buildStorageNodesIncremental ::
  "env \<Rightarrow> hash \<Rightarrow> hash \<Rightarrow> hash list \<Rightarrow> bool \<Rightarrow> StorageNode sink \<Rightarrow> StorageNode list
     \<Rightarrow> StorageNode list \<times> (failure + unit)" where
  "buildStorageNodesIncremental sdb oldSR newSR watchedStorageKeys intermediateNodes output tr =
     (if newSR = oldSR then (tr, Inr ())
      else
        (case OpenTrie sdb oldSR of
           Inl e \<Rightarrow> (tr, Inl (Err e))
         | Inr oldTrie \<Rightarrow>
             (case OpenTrie sdb newSR of
                Inl e \<Rightarrow> (tr, Inl (Err e))
              | Inr newTrie \<Rightarrow>
                  (case createdAndUpdatedStorage sdb oldTrie newTrie watchedStorageKeys
                          intermediateNodes output tr of
                     (tr', Inl f) \<Rightarrow> (tr', Inl f)
                   | (tr', Inr diffPathsAtB) \<Rightarrow>
                       deletedOrUpdatedStorage sdb oldTrie newTrie diffPathsAtB
                         watchedStorageKeys intermediateNodes output tr'))))"

subsection \<open>The passes over the state tries\<close>

definition leaf_wrapper :: "bytes \<Rightarrow> bytes \<Rightarrow> bytes \<Rightarrow> Account \<Rightarrow> accountWrapper" where
  "leaf_wrapper nodePath node leafKey account =
     \<lparr>accountWrapper.NodeType = Leaf, Path = nodePath, NodeValue = node, LeafKey = leafKey,
      Account = Some account\<rparr>"

text \<open>The body of the loop of \<^verbatim>\<open>createdAndUpdatedState\<close>; the loop's variables are
  \<^verbatim>\<open>diffAcountsAtB\<close> and \<^verbatim>\<open>diffPathsAtB\<close>. A node type other than \<^verbatim>\<open>Leaf\<close> is not looked at.\<close>

definition createdAndUpdatedState_body ::
  "env \<Rightarrow> address list \<Rightarrow> IterStep \<Rightarrow> AccountMap \<times> PathMap
     \<Rightarrow> failure + (AccountMap \<times> PathMap)" where
  "createdAndUpdatedState_body sdb watchedAddresses it s =
     (let diffAcountsAtB = fst s; diffPathsAtB = snd s in
      if it_Leaf it then Inr s
      else if nullHashBytes = it_Hash it then Inr s
      else
        (let nodePath = it_Path it in
         case read_node sdb (it_Hash it) of
           Inl f \<Rightarrow> Inl f
         | Inr (node, nodeElements, ty) \<Rightarrow>
             if ty = Leaf then
               (case decode_account sdb nodePath nodeElements of
                  Inl f \<Rightarrow> Inl f
                | Inr account \<Rightarrow>
                    (case leaf_key sdb nodePath nodeElements of
                       Inl f \<Rightarrow> Inl f
                     | Inr leafKey \<Rightarrow>
                         Inr (if isWatchedAddress sdb watchedAddresses leafKey
                              then AList.update (Bytes2Hex leafKey)
                                     (leaf_wrapper nodePath node leafKey account) diffAcountsAtB
                              else diffAcountsAtB,
                              AList.update (Bytes2Hex nodePath) True diffPathsAtB)))
             else Inr (diffAcountsAtB, AList.update (Bytes2Hex nodePath) True diffPathsAtB)))"

definition createdAndUpdatedState ::
  "env \<Rightarrow> NodeIterator \<Rightarrow> NodeIterator \<Rightarrow> address list
     \<Rightarrow> failure + (AccountMap \<times> PathMap)" where
  "createdAndUpdatedState sdb a b watchedAddresses =
     (let it = NewDifferenceIterator a b in
      case for_each (createdAndUpdatedState_body sdb watchedAddresses) (it_steps it)
             ([], []) of
        Inl f \<Rightarrow> Inl f
      | Inr s \<Rightarrow> iterator_error it s)"

text \<open>The body of the loop of \<^verbatim>\<open>createdAndUpdatedStateWithIntermediateNodes\<close>.\<close>

definition createdAndUpdatedStateWithIntermediateNodes_body ::
  "env \<Rightarrow> StateNode sink \<Rightarrow> IterStep \<Rightarrow> AccountMap \<times> PathMap \<Rightarrow> StateNode list
     \<Rightarrow> StateNode list \<times> (failure + (AccountMap \<times> PathMap))" where
  "createdAndUpdatedStateWithIntermediateNodes_body sdb output it s tr =
     (let diffAcountsAtB = fst s; diffPathsAtB = snd s in
      if it_Leaf it then (tr, Inr s)
      else if nullHashBytes = it_Hash it then (tr, Inr s)
      else
        (let nodePath = it_Path it in
         case read_node sdb (it_Hash it) of
           Inl f \<Rightarrow> (tr, Inl f)
         | Inr (node, nodeElements, ty) \<Rightarrow>
             if ty = Leaf then
               (case decode_account sdb nodePath nodeElements of
                  Inl f \<Rightarrow> (tr, Inl f)
                | Inr account \<Rightarrow>
                    (case leaf_key sdb nodePath nodeElements of
                       Inl f \<Rightarrow> (tr, Inl f)
                     | Inr leafKey \<Rightarrow>
                         (tr, Inr (AList.update (Bytes2Hex leafKey)
                                     (leaf_wrapper nodePath node leafKey account) diffAcountsAtB,
                                   AList.update (Bytes2Hex nodePath) True diffPathsAtB))))
             else if ty = Extension \<or> ty = Branch then
               (case emit output
                       \<lparr>StateNode.NodeType = ty, Path = nodePath, NodeValue = node,
                        LeafKey = [], StorageNodes = []\<rparr> tr of
                  (tr', Inl f) \<Rightarrow> (tr', Inl f)
                | (tr', Inr u) \<Rightarrow>
                    (tr', Inr (diffAcountsAtB, AList.update (Bytes2Hex nodePath) True diffPathsAtB)))
             else (tr, Inl (unexpected_node_type ty))))"

definition createdAndUpdatedStateWithIntermediateNodes ::
  "env \<Rightarrow> NodeIterator \<Rightarrow> NodeIterator \<Rightarrow> StateNode sink \<Rightarrow> StateNode list
     \<Rightarrow> StateNode list \<times> (failure + (AccountMap \<times> PathMap))" where
  "createdAndUpdatedStateWithIntermediateNodes sdb a b output tr =
     (let it = NewDifferenceIterator a b in
      case for_each_out (createdAndUpdatedStateWithIntermediateNodes_body sdb output)
             (it_steps it) ([], []) tr of
        (tr', Inl f) \<Rightarrow> (tr', Inl f)
      | (tr', Inr s) \<Rightarrow> (tr', iterator_error it s))"

text \<open>The body of the loop of \<^verbatim>\<open>deletedOrUpdatedState\<close>; the loop's variable is
  \<^verbatim>\<open>diffAccountAtA\<close>. The removed record is written before the node is read.\<close>

definition removed_StateNode :: "bytes \<Rightarrow> StateNode" where
  "removed_StateNode nodePath =
     \<lparr>StateNode.NodeType = Removed, Path = nodePath, NodeValue = [], LeafKey = [],
      StorageNodes = []\<rparr>"

definition deletedOrUpdatedState_body ::
  "env \<Rightarrow> PathMap \<Rightarrow> StateNode sink \<Rightarrow> IterStep \<Rightarrow> AccountMap \<Rightarrow> StateNode list
     \<Rightarrow> StateNode list \<times> (failure + AccountMap)" where
  "deletedOrUpdatedState_body sdb diffPathsAtB output it diffAccountAtA tr =
     (if it_Leaf it then (tr, Inr diffAccountAtA)
      else if nullHashBytes = it_Hash it then (tr, Inr diffAccountAtA)
      else
        (let nodePath = it_Path it in
         case (if map_of diffPathsAtB (Bytes2Hex nodePath) = None
               then emit output (removed_StateNode nodePath) tr
               else (tr, Inr ())) of
           (tr', Inl f) \<Rightarrow> (tr', Inl f)
         | (tr', Inr u) \<Rightarrow>
             (case read_node sdb (it_Hash it) of
                Inl f \<Rightarrow> (tr', Inl f)
              | Inr (node, nodeElements, ty) \<Rightarrow>
                  if ty = Leaf then
                    (case decode_account sdb nodePath nodeElements of
                       Inl f \<Rightarrow> (tr', Inl f)
                     | Inr account \<Rightarrow>
                         (case leaf_key sdb nodePath nodeElements of
                            Inl f \<Rightarrow> (tr', Inl f)
                          | Inr leafKey \<Rightarrow>
                              (tr', Inr (AList.update (Bytes2Hex leafKey)
                                           (leaf_wrapper nodePath node leafKey account)
                                           diffAccountAtA))))
                  else if ty = Extension \<or> ty = Branch then (tr', Inr diffAccountAtA)
                  else (tr', Inl (unexpected_node_type ty)))))"

definition deletedOrUpdatedState ::
  "env \<Rightarrow> NodeIterator \<Rightarrow> NodeIterator \<Rightarrow> PathMap \<Rightarrow> StateNode sink
     \<Rightarrow> StateNode list \<Rightarrow> StateNode list \<times> (failure + AccountMap)" where
  "deletedOrUpdatedState sdb a b diffPathsAtB output tr =
     (let it = NewDifferenceIterator b a in
      case for_each_out (deletedOrUpdatedState_body sdb diffPathsAtB output)
             (it_steps it) [] tr of
        (tr', Inl f) \<Rightarrow> (tr', Inl f)
      | (tr', Inr diffAccountAtA) \<Rightarrow> (tr', iterator_error it diffAccountAtA))"

subsection \<open>Updated and created accounts\<close>

text \<open>The body of the loop of \<^verbatim>\<open>buildAccountUpdates\<close> over \<^verbatim>\<open>updatedKeys\<close>; the loop's
  variables are the two maps, which the function changes for its caller. The storage
  diffs are collected by \<^verbatim>\<open>storageNodeAppender\<close> into a slice of their own.\<close>

definition buildAccountUpdates_body ::
  "env \<Rightarrow> hash list \<Rightarrow> bool \<Rightarrow> StateNode sink \<Rightarrow> string \<Rightarrow> AccountMap \<times> AccountMap
     \<Rightarrow> StateNode list \<Rightarrow> StateNode list \<times> (failure + (AccountMap \<times> AccountMap))" where
  "buildAccountUpdates_body sdb watchedStorageKeys intermediateStorageNodes output key s tr =
     (let creations = fst s; deletions = snd s;
          createdAcc = am_get creations key;
          deletedAcc = am_get deletions key
      in
      case
        (case (accountWrapper.Account deletedAcc, accountWrapper.Account createdAcc) of
           (Some deletedAccount, Some createdAccount) \<Rightarrow>
             (let oldSR = Root deletedAccount; newSR = Root createdAccount in
              case buildStorageNodesIncremental sdb oldSR newSR watchedStorageKeys
                     intermediateStorageNodes storageNodeAppender [] of
                (storageDiffs, Inl f) \<Rightarrow>
                  Inl (wrapf (''failed building incremental storage diffs for account with leafkey ''
                              @ key @ crlf @ ''error: '') f)
              | (storageDiffs, Inr u) \<Rightarrow> Inr storageDiffs)
         | _ \<Rightarrow> Inr []) of
        Inl f \<Rightarrow> (tr, Inl f)
      | Inr storageDiffs \<Rightarrow>
          (case emit output
                  \<lparr>StateNode.NodeType = accountWrapper.NodeType createdAcc,
                   Path = accountWrapper.Path createdAcc,
                   NodeValue = accountWrapper.NodeValue createdAcc,
                   LeafKey = accountWrapper.LeafKey createdAcc,
                   StorageNodes = storageDiffs\<rparr> tr of
             (tr', Inl f) \<Rightarrow> (tr', Inl f)
           | (tr', Inr u) \<Rightarrow> (tr', Inr (AList.delete key creations, AList.delete key deletions))))"

definition buildAccountUpdates ::
  "env \<Rightarrow> AccountMap \<Rightarrow> AccountMap \<Rightarrow> string list \<Rightarrow> hash list \<Rightarrow> bool \<Rightarrow> StateNode sink
     \<Rightarrow> StateNode list \<Rightarrow> StateNode list \<times> (failure + (AccountMap \<times> AccountMap))" where
  "buildAccountUpdates sdb creations deletions updatedKeys watchedStorageKeys
       intermediateStorageNodes output tr =
     for_each_out
       (buildAccountUpdates_body sdb watchedStorageKeys intermediateStorageNodes output)
       updatedKeys (creations, deletions) tr"

text \<open>The body of the loop of \<^verbatim>\<open>buildAccountCreations\<close> over the values of the map; the
  loop's variable is \<^verbatim>\<open>codeAndCodeHashes\<close>. \<^verbatim>\<open>val.Account\<close> is a pointer.\<close>

definition buildAccountCreations_body ::
  "env \<Rightarrow> hash list \<Rightarrow> bool \<Rightarrow> StateNode sink \<Rightarrow> accountWrapper \<Rightarrow> CodeAndCodeHash list
     \<Rightarrow> StateNode list \<Rightarrow> StateNode list \<times> (failure + CodeAndCodeHash list)" where
  "buildAccountCreations_body sdb watchedStorageKeys intermediateStorageNodes output val
       codeAndCodeHashes tr =
     (case accountWrapper.Account val of
        None \<Rightarrow> (tr, Inl (Panic ''nil pointer dereference''))
      | Some account \<Rightarrow>
          (case
             (if CodeHash account \<noteq> nullCodeHash sdb then
                (case buildStorageNodesEventual sdb (Root account) watchedStorageKeys
                        intermediateStorageNodes storageNodeAppender [] of
                   (storageDiffs, Inl f) \<Rightarrow>
                     Inl (wrapf (''failed building eventual storage diffs for node ''
                                 @ Bytes2Hex (accountWrapper.Path val) @ crlf @ ''error: '') f)
                 | (storageDiffs, Inr u) \<Rightarrow>
                     (let codeHash = BytesToHash (CodeHash account) in
                      case ContractCode sdb zero_Hash codeHash of
                        Inl e \<Rightarrow>
                          Inl (Err (Errorf (''failed to retrieve code for codehash ''
                                            @ Hash_String codeHash @ crlf @ '' error: '') e))
                      | Inr code \<Rightarrow>
                          Inr (storageDiffs,
                               codeAndCodeHashes @ [\<lparr>Hash = codeHash, Code = code\<rparr>])))
              else Inr ([], codeAndCodeHashes)) of
             Inl f \<Rightarrow> (tr, Inl f)
           | Inr (storageDiffs, codeAndCodeHashes') \<Rightarrow>
               (case emit output
                       \<lparr>StateNode.NodeType = accountWrapper.NodeType val,
                        Path = accountWrapper.Path val,
                        NodeValue = accountWrapper.NodeValue val,
                        LeafKey = accountWrapper.LeafKey val,
                        StorageNodes = storageDiffs\<rparr> tr of
                  (tr', Inl f) \<Rightarrow> (tr', Inl f)
                | (tr', Inr u) \<Rightarrow> (tr', Inr codeAndCodeHashes'))))"

definition buildAccountCreations ::
  "env \<Rightarrow> AccountMap \<Rightarrow> hash list \<Rightarrow> bool \<Rightarrow> StateNode sink \<Rightarrow> StateNode list
     \<Rightarrow> StateNode list \<times> (failure + CodeAndCodeHash list)" where
  "buildAccountCreations sdb accounts watchedStorageKeys intermediateStorageNodes output tr =
     for_each_out
       (buildAccountCreations_body sdb watchedStorageKeys intermediateStorageNodes output)
       (map snd (map_range sdb accounts)) [] tr"

subsection \<open>The entry points\<close>

text \<open>What both \<^verbatim>\<open>buildStateDiff...\<close> functions do once the two passes have returned
  their maps: sort the keys, intersect them, build the updates, then the creations.\<close>

definition reconcile ::
  "env \<Rightarrow> Params \<Rightarrow> AccountMap \<Rightarrow> AccountMap \<Rightarrow> StateNode sink \<Rightarrow> StateNode list
     \<Rightarrow> StateNode list \<times> (failure + CodeAndCodeHash list)" where
  "reconcile sdb params diffAccountsAtB diffAccountsAtA output tr =
     (let createKeys = sortKeys diffAccountsAtB;
          deleteKeys = sortKeys diffAccountsAtA;
          updatedKeys = findIntersection createKeys deleteKeys
      in
      case buildAccountUpdates sdb diffAccountsAtB diffAccountsAtA updatedKeys
             (WatchedStorageSlots params) (IntermediateStorageNodes params) output tr of
        (tr', Inl f) \<Rightarrow> (tr', Inl (wrapf ''error building diff for updated accounts: '' f))
      | (tr', Inr (creations, deletions)) \<Rightarrow>
          (case buildAccountCreations sdb creations (WatchedStorageSlots params)
                  (IntermediateStorageNodes params) output tr' of
             (tr'', Inl f) \<Rightarrow>
               (tr'', Inl (wrapf ''error building diff for created accounts: '' f))
           | (tr'', Inr codeAndCodeHashes) \<Rightarrow> (tr'', Inr codeAndCodeHashes)))"

definition buildStateDiffWithIntermediateStateNodes ::
  "env \<Rightarrow> StateRoots \<Rightarrow> Params \<Rightarrow> StateNode sink \<Rightarrow> StateNode list
     \<Rightarrow> StateNode list \<times> (failure + CodeAndCodeHash list)" where
  "buildStateDiffWithIntermediateStateNodes sdb args params output tr =
     (case OpenTrie sdb (StateRoots.OldStateRoot args) of
        Inl e \<Rightarrow> (tr, Inl (Err (Errorf ''error creating trie for oldStateRoot: '' e)))
      | Inr oldTrie \<Rightarrow>
          (case OpenTrie sdb (StateRoots.NewStateRoot args) of
             Inl e \<Rightarrow> (tr, Inl (Err (Errorf ''error creating trie for newStateRoot: '' e)))
           | Inr newTrie \<Rightarrow>
               (case createdAndUpdatedStateWithIntermediateNodes sdb oldTrie newTrie output tr of
                  (tr1, Inl f) \<Rightarrow>
                    (tr1, Inl (wrapf ''error collecting createdAndUpdatedNodes: '' f))
                | (tr1, Inr (diffAccountsAtB, diffPathsAtB)) \<Rightarrow>
                    (case deletedOrUpdatedState sdb oldTrie newTrie diffPathsAtB output tr1 of
                       (tr2, Inl f) \<Rightarrow>
                         (tr2, Inl (wrapf ''error collecting deletedOrUpdatedNodes: '' f))
                     | (tr2, Inr diffAccountsAtA) \<Rightarrow>
                         reconcile sdb params diffAccountsAtB diffAccountsAtA output tr2))))"

definition buildStateDiffWithoutIntermediateStateNodes ::
  "env \<Rightarrow> StateRoots \<Rightarrow> Params \<Rightarrow> StateNode sink \<Rightarrow> StateNode list
     \<Rightarrow> StateNode list \<times> (failure + CodeAndCodeHash list)" where
  "buildStateDiffWithoutIntermediateStateNodes sdb args params output tr =
     (case OpenTrie sdb (StateRoots.OldStateRoot args) of
        Inl e \<Rightarrow> (tr, Inl (Err (Errorf ''error creating trie for oldStateRoot: '' e)))
      | Inr oldTrie \<Rightarrow>
          (case OpenTrie sdb (StateRoots.NewStateRoot args) of
             Inl e \<Rightarrow> (tr, Inl (Err (Errorf ''error creating trie for newStateRoot: '' e)))
           | Inr newTrie \<Rightarrow>
               (case createdAndUpdatedState sdb oldTrie newTrie (WatchedAddresses params) of
                  Inl f \<Rightarrow> (tr, Inl (wrapf ''error collecting createdAndUpdatedNodes: '' f))
                | Inr (diffAccountsAtB, diffPathsAtB) \<Rightarrow>
                    (case deletedOrUpdatedState sdb oldTrie newTrie diffPathsAtB output tr of
                       (tr2, Inl f) \<Rightarrow>
                         (tr2, Inl (wrapf ''error collecting deletedOrUpdatedNodes: '' f))
                     | (tr2, Inr diffAccountsAtA) \<Rightarrow>
                         reconcile sdb params diffAccountsAtB diffAccountsAtA output tr2))))"

text \<open>\<^verbatim>\<open>WriteStateDiffObject\<close> starts with a sink that has been given nothing. On a failure
  Go returns a nil slice with the error.\<close>

definition WriteStateDiffObject ::
  "env \<Rightarrow> StateRoots \<Rightarrow> Params \<Rightarrow> StateNode sink
     \<Rightarrow> StateNode list \<times> (failure + CodeAndCodeHash list)" where
  "WriteStateDiffObject sdb args params output =
     (if \<not> IntermediateStateNodes params \<or> length (WatchedAddresses params) > 0
      then buildStateDiffWithoutIntermediateStateNodes sdb args params output []
      else buildStateDiffWithIntermediateStateNodes sdb args params output [])"

text \<open>\<^verbatim>\<open>BuildStateDiffObject\<close> returns a \<^verbatim>\<open>StateObject\<close> and an error, or panics (\<open>Inl\<close>).
  \<^verbatim>\<open>stateNodes\<close> is the slice \<^verbatim>\<open>stateNodeAppender\<close> appends to.\<close>

definition BuildStateDiffObject ::
  "env \<Rightarrow> Args \<Rightarrow> Params \<Rightarrow> string + (StateObject \<times> error option)" where
  "BuildStateDiffObject sdb args params =
     (case WriteStateDiffObject sdb
             \<lparr>StateRoots.OldStateRoot = Args.OldStateRoot args,
              NewStateRoot = Args.NewStateRoot args\<rparr>
             params stateNodeAppender of
        (stateNodes, Inl (Panic m)) \<Rightarrow> Inl m
      | (stateNodes, Inl (Err err)) \<Rightarrow> Inr (zero_StateObject, Some err)
      | (stateNodes, Inr codeAndCodeHashes) \<Rightarrow>
          Inr (\<lparr>StateObject.BlockNumber = Args.BlockNumber args,
                BlockHash = Args.BlockHash args,
                Nodes = stateNodes,
                CodeAndCodeHashes = codeAndCodeHashes\<rparr>, None))"

subsection \<open>An example state\<close>

text \<open>Three versions of a small state, their storage tries and the steps of their
  iterators: nodes in RLP, hashes by Keccak-256.\<close>

definition root_stateA :: hash where
  "root_stateA =
     [0xab, 0xb6, 0xc1, 0xd7, 0x83, 0xd0, 0x80, 0xba, 0xd0, 0x04, 0xfb, 0xb6, 0xeb, 0x00, 0xc7,
     0x62, 0x55, 0x62, 0x2e, 0x8e, 0xb7, 0x08, 0x7f, 0x0d, 0x39, 0x94, 0x13, 0x4d, 0x47, 0x27,
     0xb2, 0xeb]"

definition root_stateB :: hash where
  "root_stateB =
     [0x9c, 0xec, 0x31, 0xd3, 0x3b, 0xe7, 0x9c, 0xa6, 0xe0, 0xf6, 0x5a, 0x47, 0x57, 0xfd, 0xb0,
     0xca, 0xb0, 0xb9, 0xa1, 0x01, 0x8d, 0xfc, 0xcf, 0xbd, 0xcb, 0x82, 0x50, 0xcf, 0x4b, 0x83,
     0x0f, 0xf7]"

definition root_stateC :: hash where
  "root_stateC =
     [0x84, 0xea, 0xd6, 0x1c, 0xf2, 0x3e, 0x1c, 0x18, 0x2b, 0xbf, 0x9f, 0x22, 0x1d, 0x2a, 0x86,
     0x4f, 0xaa, 0xbe, 0xf0, 0xd7, 0x7d, 0xdf, 0x49, 0x8e, 0xfa, 0x53, 0xca, 0x19, 0x46, 0x12,
     0x4e, 0x7a]"

definition root_storageA1 :: hash where
  "root_storageA1 =
     [0xa7, 0x9f, 0x14, 0xad, 0x65, 0x2f, 0xc5, 0x78, 0x97, 0xea, 0x2e, 0x59, 0xeb, 0x78, 0x1b,
     0x83, 0x3f, 0x6f, 0xfa, 0x79, 0x59, 0x42, 0xda, 0x00, 0xd5, 0x2e, 0x96, 0x50, 0xe7, 0x03,
     0x9e, 0xec]"

definition root_storageB1 :: hash where
  "root_storageB1 =
     [0x70, 0xb6, 0x0b, 0x86, 0xe1, 0x49, 0xbd, 0x18, 0xc3, 0xeb, 0xd5, 0xfc, 0x95, 0x48, 0x78,
     0xb3, 0xc2, 0xa7, 0xd0, 0x3c, 0x20, 0x5e, 0xa0, 0xd8, 0x31, 0x53, 0xa1, 0xc4, 0x8d, 0xf3,
     0x27, 0x8d]"

definition root_storage4 :: hash where
  "root_storage4 =
     [0xf2, 0x58, 0xb1, 0xc6, 0xd5, 0xee, 0x7f, 0x6f, 0x35, 0x49, 0x11, 0x7f, 0xb0, 0xac, 0x79,
     0x11, 0x8d, 0x5a, 0xd1, 0x9b, 0x9c, 0x02, 0x7f, 0x9b, 0x8e, 0x14, 0x71, 0xca, 0x51, 0x9b,
     0x3b, 0x6c]"

definition emptyRoot :: hash where
  "emptyRoot =
     [0x56, 0xe8, 0x1f, 0x17, 0x1b, 0xcc, 0x55, 0xa6, 0xff, 0x83, 0x45, 0xe6, 0x92, 0xc0, 0xf8,
     0x6e, 0x5b, 0x48, 0xe0, 0x1b, 0x99, 0x6c, 0xad, 0xc0, 0x01, 0x62, 0x2f, 0xb5, 0xe3, 0x63,
     0xb4, 0x21]"

definition emptyCodeHash :: bytes where
  "emptyCodeHash =
     [0xc5, 0xd2, 0x46, 0x01, 0x86, 0xf7, 0x23, 0x3c, 0x92, 0x7e, 0x7d, 0xb2, 0xdc, 0xc7, 0x03,
     0xc0, 0xe5, 0x00, 0xb6, 0x53, 0xca, 0x82, 0x27, 0x3b, 0x7b, 0xfa, 0xd8, 0x04, 0x5d, 0x85,
     0xa4, 0x70]"

definition address1 :: address where
  "address1 =
     [0x00, 0x00, 0x00, 0x00, 0x00, 0x00, 0x00, 0x00, 0x00, 0x00, 0x00, 0x00, 0x00, 0x00, 0x00,
     0x00, 0x00, 0x00, 0x00, 0x01]"

definition leafKey1 :: bytes where
  "leafKey1 =
     [0x14, 0x68, 0x28, 0x80, 0x56, 0x31, 0x0c, 0x82, 0xaa, 0x4c, 0x01, 0xa7, 0xe1, 0x2a, 0x10,
     0xf8, 0x11, 0x1a, 0x05, 0x60, 0xe7, 0x2b, 0x70, 0x05, 0x55, 0x47, 0x90, 0x31, 0xb8, 0x6c,
     0x35, 0x7d]"

definition address2 :: address where
  "address2 =
     [0x00, 0x00, 0x00, 0x00, 0x00, 0x00, 0x00, 0x00, 0x00, 0x00, 0x00, 0x00, 0x00, 0x00, 0x00,
     0x00, 0x00, 0x00, 0x00, 0x02]"

definition leafKey2 :: bytes where
  "leafKey2 =
     [0xd5, 0x26, 0x88, 0xa8, 0xf9, 0x26, 0xc8, 0x16, 0xca, 0x1e, 0x07, 0x90, 0x67, 0xca, 0xba,
     0x94, 0x4f, 0x15, 0x8e, 0x76, 0x48, 0x17, 0xb8, 0x3f, 0xc4, 0x35, 0x94, 0x37, 0x0c, 0xa9,
     0xcf, 0x62]"

definition address3 :: address where
  "address3 =
     [0x00, 0x00, 0x00, 0x00, 0x00, 0x00, 0x00, 0x00, 0x00, 0x00, 0x00, 0x00, 0x00, 0x00, 0x00,
     0x00, 0x00, 0x00, 0x00, 0x03]"

definition leafKey3 :: bytes where
  "leafKey3 =
     [0x5b, 0x70, 0xe8, 0x05, 0x38, 0xac, 0xda, 0xbd, 0x61, 0x37, 0x35, 0x3b, 0x0f, 0x9d, 0x8d,
     0x14, 0x9f, 0x4d, 0xba, 0x91, 0xe8, 0xbe, 0x2e, 0x79, 0x46, 0xe4, 0x09, 0xbf, 0xdb, 0xe6,
     0x85, 0xb9]"

definition address4 :: address where
  "address4 =
     [0x00, 0x00, 0x00, 0x00, 0x00, 0x00, 0x00, 0x00, 0x00, 0x00, 0x00, 0x00, 0x00, 0x00, 0x00,
     0x00, 0x00, 0x00, 0x00, 0x04]"

definition leafKey4 :: bytes where
  "leafKey4 =
     [0xa8, 0x76, 0xda, 0x51, 0x8a, 0x39, 0x3d, 0xbd, 0x06, 0x7d, 0xc7, 0x2a, 0xbf, 0xa0, 0x8d,
     0x47, 0x5e, 0xd6, 0x44, 0x7f, 0xca, 0x96, 0xd9, 0x2e, 0xc3, 0xf9, 0xe7, 0xeb, 0xa5, 0x03,
     0xca, 0x61]"

definition address5 :: address where
  "address5 =
     [0x00, 0x00, 0x00, 0x00, 0x00, 0x00, 0x00, 0x00, 0x00, 0x00, 0x00, 0x00, 0x00, 0x00, 0x00,
     0x00, 0x00, 0x00, 0x00, 0x05]"

definition leafKey5 :: bytes where
  "leafKey5 =
     [0x42, 0x1d, 0xf1, 0xfa, 0x25, 0x92, 0x21, 0xd0, 0x2a, 0xa4, 0x95, 0x6e, 0xb0, 0xd3, 0x5a,
     0xce, 0x31, 0x8c, 0xa2, 0x4c, 0x0a, 0x33, 0xa6, 0x4c, 0x1a, 0xf9, 0x6c, 0xf6, 0x7c, 0xf2,
     0x45, 0xb6]"

definition address6 :: address where
  "address6 =
     [0x00, 0x00, 0x00, 0x00, 0x00, 0x00, 0x00, 0x00, 0x00, 0x00, 0x00, 0x00, 0x00, 0x00, 0x00,
     0x00, 0x00, 0x00, 0x00, 0x06]"

definition leafKey6 :: bytes where
  "leafKey6 =
     [0x68, 0x98, 0x02, 0xd6, 0xed, 0x1a, 0x28, 0xb0, 0x49, 0xe9, 0xd4, 0xfe, 0x53, 0x34, 0xc5,
     0x90, 0x2f, 0xd9, 0xbc, 0x00, 0xc4, 0x28, 0x21, 0xc8, 0x2f, 0x82, 0xee, 0x2d, 0xa1, 0x0b,
     0xe9, 0x08]"

definition slotKey0 :: bytes where
  "slotKey0 =
     [0x29, 0x0d, 0xec, 0xd9, 0x54, 0x8b, 0x62, 0xa8, 0xd6, 0x03, 0x45, 0xa9, 0x88, 0x38, 0x6f,
     0xc8, 0x4b, 0xa6, 0xbc, 0x95, 0x48, 0x40, 0x08, 0xf6, 0x36, 0x2f, 0x93, 0x16, 0x0e, 0xf3,
     0xe5, 0x63]"

definition slotKey1 :: bytes where
  "slotKey1 =
     [0xb1, 0x0e, 0x2d, 0x52, 0x76, 0x12, 0x07, 0x3b, 0x26, 0xee, 0xcd, 0xfd, 0x71, 0x7e, 0x6a,
     0x32, 0x0c, 0xf4, 0x4b, 0x4a, 0xfa, 0xc2, 0xb0, 0x73, 0x2d, 0x9f, 0xcb, 0xe2, 0xb7, 0xfa,
     0x0c, 0xf6]"

definition slotKey14 :: bytes where
  "slotKey14 =
     [0xbb, 0x7b, 0x4a, 0x45, 0x4d, 0xc3, 0x49, 0x39, 0x23, 0x48, 0x2f, 0x07, 0x82, 0x23, 0x29,
     0xed, 0x19, 0xe8, 0x24, 0x4e, 0xff, 0x58, 0x2c, 0xc2, 0x04, 0xf8, 0x55, 0x4c, 0x36, 0x20,
     0xc3, 0xfd]"

definition code1 :: bytes where
  "code1 =
     [0x60, 0x2a, 0x60, 0x00, 0x55]"

definition code4 :: bytes where
  "code4 =
     [0x60, 0x07, 0x60, 0x00, 0x55]"

definition codeHash1 :: bytes where
  "codeHash1 =
     [0x13, 0xb2, 0xf4, 0x0b, 0x18, 0xe8, 0x98, 0x69, 0x44, 0x3d, 0x96, 0xb7, 0xad, 0x22, 0x43,
     0x4a, 0x28, 0xd3, 0xfa, 0x65, 0xee, 0x6e, 0xc9, 0x9a, 0xcf, 0xb9, 0xa1, 0xd6, 0xb2, 0x6f,
     0xb1, 0xf6]"

definition codeHash4 :: bytes where
  "codeHash4 =
     [0x79, 0xa9, 0x79, 0xad, 0x07, 0x89, 0xcb, 0xd7, 0xf9, 0xed, 0xbf, 0xf1, 0x07, 0xd3, 0x90,
     0xc5, 0x4e, 0x0b, 0x89, 0x0e, 0xb8, 0x81, 0x8c, 0x64, 0x26, 0x8c, 0xfb, 0x04, 0xcd, 0xee,
     0x79, 0x2e]"

definition accountRLP_1A :: bytes where
  "accountRLP_1A =
     [0xf8, 0x44, 0x01, 0x64, 0xa0, 0xa7, 0x9f, 0x14, 0xad, 0x65, 0x2f, 0xc5, 0x78, 0x97, 0xea,
     0x2e, 0x59, 0xeb, 0x78, 0x1b, 0x83, 0x3f, 0x6f, 0xfa, 0x79, 0x59, 0x42, 0xda, 0x00, 0xd5,
     0x2e, 0x96, 0x50, 0xe7, 0x03, 0x9e, 0xec, 0xa0, 0x13, 0xb2, 0xf4, 0x0b, 0x18, 0xe8, 0x98,
     0x69, 0x44, 0x3d, 0x96, 0xb7, 0xad, 0x22, 0x43, 0x4a, 0x28, 0xd3, 0xfa, 0x65, 0xee, 0x6e,
     0xc9, 0x9a, 0xcf, 0xb9, 0xa1, 0xd6, 0xb2, 0x6f, 0xb1, 0xf6]"

definition accountRLP_1B :: bytes where
  "accountRLP_1B =
     [0xf8, 0x45, 0x01, 0x81, 0xc8, 0xa0, 0x70, 0xb6, 0x0b, 0x86, 0xe1, 0x49, 0xbd, 0x18, 0xc3,
     0xeb, 0xd5, 0xfc, 0x95, 0x48, 0x78, 0xb3, 0xc2, 0xa7, 0xd0, 0x3c, 0x20, 0x5e, 0xa0, 0xd8,
     0x31, 0x53, 0xa1, 0xc4, 0x8d, 0xf3, 0x27, 0x8d, 0xa0, 0x13, 0xb2, 0xf4, 0x0b, 0x18, 0xe8,
     0x98, 0x69, 0x44, 0x3d, 0x96, 0xb7, 0xad, 0x22, 0x43, 0x4a, 0x28, 0xd3, 0xfa, 0x65, 0xee,
     0x6e, 0xc9, 0x9a, 0xcf, 0xb9, 0xa1, 0xd6, 0xb2, 0x6f, 0xb1, 0xf6]"

definition accountRLP_2 :: bytes where
  "accountRLP_2 =
     [0xf8, 0x44, 0x80, 0x32, 0xa0, 0x56, 0xe8, 0x1f, 0x17, 0x1b, 0xcc, 0x55, 0xa6, 0xff, 0x83,
     0x45, 0xe6, 0x92, 0xc0, 0xf8, 0x6e, 0x5b, 0x48, 0xe0, 0x1b, 0x99, 0x6c, 0xad, 0xc0, 0x01,
     0x62, 0x2f, 0xb5, 0xe3, 0x63, 0xb4, 0x21, 0xa0, 0xc5, 0xd2, 0x46, 0x01, 0x86, 0xf7, 0x23,
     0x3c, 0x92, 0x7e, 0x7d, 0xb2, 0xdc, 0xc7, 0x03, 0xc0, 0xe5, 0x00, 0xb6, 0x53, 0xca, 0x82,
     0x27, 0x3b, 0x7b, 0xfa, 0xd8, 0x04, 0x5d, 0x85, 0xa4, 0x70]"

definition accountRLP_3 :: bytes where
  "accountRLP_3 =
     [0xf8, 0x44, 0x80, 0x07, 0xa0, 0x56, 0xe8, 0x1f, 0x17, 0x1b, 0xcc, 0x55, 0xa6, 0xff, 0x83,
     0x45, 0xe6, 0x92, 0xc0, 0xf8, 0x6e, 0x5b, 0x48, 0xe0, 0x1b, 0x99, 0x6c, 0xad, 0xc0, 0x01,
     0x62, 0x2f, 0xb5, 0xe3, 0x63, 0xb4, 0x21, 0xa0, 0xc5, 0xd2, 0x46, 0x01, 0x86, 0xf7, 0x23,
     0x3c, 0x92, 0x7e, 0x7d, 0xb2, 0xdc, 0xc7, 0x03, 0xc0, 0xe5, 0x00, 0xb6, 0x53, 0xca, 0x82,
     0x27, 0x3b, 0x7b, 0xfa, 0xd8, 0x04, 0x5d, 0x85, 0xa4, 0x70]"

definition accountRLP_4 :: bytes where
  "accountRLP_4 =
     [0xf8, 0x44, 0x01, 0x80, 0xa0, 0xf2, 0x58, 0xb1, 0xc6, 0xd5, 0xee, 0x7f, 0x6f, 0x35, 0x49,
     0x11, 0x7f, 0xb0, 0xac, 0x79, 0x11, 0x8d, 0x5a, 0xd1, 0x9b, 0x9c, 0x02, 0x7f, 0x9b, 0x8e,
     0x14, 0x71, 0xca, 0x51, 0x9b, 0x3b, 0x6c, 0xa0, 0x79, 0xa9, 0x79, 0xad, 0x07, 0x89, 0xcb,
     0xd7, 0xf9, 0xed, 0xbf, 0xf1, 0x07, 0xd3, 0x90, 0xc5, 0x4e, 0x0b, 0x89, 0x0e, 0xb8, 0x81,
     0x8c, 0x64, 0x26, 0x8c, 0xfb, 0x04, 0xcd, 0xee, 0x79, 0x2e]"

definition accountRLP_5 :: bytes where
  "accountRLP_5 =
     [0xf8, 0x46, 0x03, 0x82, 0x03, 0xe8, 0xa0, 0x56, 0xe8, 0x1f, 0x17, 0x1b, 0xcc, 0x55, 0xa6,
     0xff, 0x83, 0x45, 0xe6, 0x92, 0xc0, 0xf8, 0x6e, 0x5b, 0x48, 0xe0, 0x1b, 0x99, 0x6c, 0xad,
     0xc0, 0x01, 0x62, 0x2f, 0xb5, 0xe3, 0x63, 0xb4, 0x21, 0xa0, 0xc5, 0xd2, 0x46, 0x01, 0x86,
     0xf7, 0x23, 0x3c, 0x92, 0x7e, 0x7d, 0xb2, 0xdc, 0xc7, 0x03, 0xc0, 0xe5, 0x00, 0xb6, 0x53,
     0xca, 0x82, 0x27, 0x3b, 0x7b, 0xfa, 0xd8, 0x04, 0x5d, 0x85, 0xa4, 0x70]"

definition accountRLP_6 :: bytes where
  "accountRLP_6 =
     [0xf8, 0x44, 0x80, 0x01, 0xa0, 0xf2, 0x58, 0xb1, 0xc6, 0xd5, 0xee, 0x7f, 0x6f, 0x35, 0x49,
     0x11, 0x7f, 0xb0, 0xac, 0x79, 0x11, 0x8d, 0x5a, 0xd1, 0x9b, 0x9c, 0x02, 0x7f, 0x9b, 0x8e,
     0x14, 0x71, 0xca, 0x51, 0x9b, 0x3b, 0x6c, 0xa0, 0xc5, 0xd2, 0x46, 0x01, 0x86, 0xf7, 0x23,
     0x3c, 0x92, 0x7e, 0x7d, 0xb2, 0xdc, 0xc7, 0x03, 0xc0, 0xe5, 0x00, 0xb6, 0x53, 0xca, 0x82,
     0x27, 0x3b, 0x7b, 0xfa, 0xd8, 0x04, 0x5d, 0x85, 0xa4, 0x70]"

definition node_stateA_root :: bytes where
  "node_stateA_root =
     [0xf8, 0x71, 0x80, 0xa0, 0x28, 0xa1, 0x68, 0xfa, 0x02, 0x59, 0x90, 0xf2, 0x15, 0xad, 0x9e,
     0x90, 0x2b, 0xa4, 0xb3, 0x33, 0x02, 0x7a, 0xb5, 0x80, 0x86, 0xe1, 0x66, 0xae, 0x68, 0x0c,
     0x23, 0xd8, 0x97, 0x0b, 0x84, 0xb5, 0x80, 0x80, 0xa0, 0x47, 0x58, 0x3c, 0x62, 0x8a, 0xc6,
     0xc7, 0xe5, 0x30, 0xa6, 0x76, 0xec, 0xb1, 0x50, 0xbe, 0x77, 0xba, 0x87, 0xa8, 0x6d, 0x10,
     0xdf, 0x72, 0x9f, 0xd6, 0xfd, 0x27, 0x2a, 0x27, 0xbe, 0xce, 0x32, 0x80, 0x80, 0x80, 0x80,
     0x80, 0x80, 0x80, 0x80, 0xa0, 0x77, 0x9d, 0xa6, 0xe5, 0xb6, 0x65, 0x71, 0xdb, 0x1b, 0xf1,
     0xd7, 0x0a, 0x81, 0xdd, 0xe1, 0xfe, 0xba, 0xfc, 0x20, 0x25, 0x79, 0xa7, 0xd7, 0x49, 0xf2,
     0x93, 0x9f, 0xcc, 0x05, 0xc7, 0xe8, 0x73, 0x80, 0x80, 0x80]"

definition node_stateA_1 :: bytes where
  "node_stateA_1 =
     [0xf8, 0x69, 0xa0, 0x34, 0x68, 0x28, 0x80, 0x56, 0x31, 0x0c, 0x82, 0xaa, 0x4c, 0x01, 0xa7,
     0xe1, 0x2a, 0x10, 0xf8, 0x11, 0x1a, 0x05, 0x60, 0xe7, 0x2b, 0x70, 0x05, 0x55, 0x47, 0x90,
     0x31, 0xb8, 0x6c, 0x35, 0x7d, 0xb8, 0x46, 0xf8, 0x44, 0x01, 0x64, 0xa0, 0xa7, 0x9f, 0x14,
     0xad, 0x65, 0x2f, 0xc5, 0x78, 0x97, 0xea, 0x2e, 0x59, 0xeb, 0x78, 0x1b, 0x83, 0x3f, 0x6f,
     0xfa, 0x79, 0x59, 0x42, 0xda, 0x00, 0xd5, 0x2e, 0x96, 0x50, 0xe7, 0x03, 0x9e, 0xec, 0xa0,
     0x13, 0xb2, 0xf4, 0x0b, 0x18, 0xe8, 0x98, 0x69, 0x44, 0x3d, 0x96, 0xb7, 0xad, 0x22, 0x43,
     0x4a, 0x28, 0xd3, 0xfa, 0x65, 0xee, 0x6e, 0xc9, 0x9a, 0xcf, 0xb9, 0xa1, 0xd6, 0xb2, 0x6f,
     0xb1, 0xf6]"

definition hash_stateA_1 :: hash where
  "hash_stateA_1 =
     [0x28, 0xa1, 0x68, 0xfa, 0x02, 0x59, 0x90, 0xf2, 0x15, 0xad, 0x9e, 0x90, 0x2b, 0xa4, 0xb3,
     0x33, 0x02, 0x7a, 0xb5, 0x80, 0x86, 0xe1, 0x66, 0xae, 0x68, 0x0c, 0x23, 0xd8, 0x97, 0x0b,
     0x84, 0xb5]"

definition node_stateA_4 :: bytes where
  "node_stateA_4 =
     [0xf8, 0x6b, 0xa0, 0x32, 0x1d, 0xf1, 0xfa, 0x25, 0x92, 0x21, 0xd0, 0x2a, 0xa4, 0x95, 0x6e,
     0xb0, 0xd3, 0x5a, 0xce, 0x31, 0x8c, 0xa2, 0x4c, 0x0a, 0x33, 0xa6, 0x4c, 0x1a, 0xf9, 0x6c,
     0xf6, 0x7c, 0xf2, 0x45, 0xb6, 0xb8, 0x48, 0xf8, 0x46, 0x03, 0x82, 0x03, 0xe8, 0xa0, 0x56,
     0xe8, 0x1f, 0x17, 0x1b, 0xcc, 0x55, 0xa6, 0xff, 0x83, 0x45, 0xe6, 0x92, 0xc0, 0xf8, 0x6e,
     0x5b, 0x48, 0xe0, 0x1b, 0x99, 0x6c, 0xad, 0xc0, 0x01, 0x62, 0x2f, 0xb5, 0xe3, 0x63, 0xb4,
     0x21, 0xa0, 0xc5, 0xd2, 0x46, 0x01, 0x86, 0xf7, 0x23, 0x3c, 0x92, 0x7e, 0x7d, 0xb2, 0xdc,
     0xc7, 0x03, 0xc0, 0xe5, 0x00, 0xb6, 0x53, 0xca, 0x82, 0x27, 0x3b, 0x7b, 0xfa, 0xd8, 0x04,
     0x5d, 0x85, 0xa4, 0x70]"

definition hash_stateA_4 :: hash where
  "hash_stateA_4 =
     [0x47, 0x58, 0x3c, 0x62, 0x8a, 0xc6, 0xc7, 0xe5, 0x30, 0xa6, 0x76, 0xec, 0xb1, 0x50, 0xbe,
     0x77, 0xba, 0x87, 0xa8, 0x6d, 0x10, 0xdf, 0x72, 0x9f, 0xd6, 0xfd, 0x27, 0x2a, 0x27, 0xbe,
     0xce, 0x32]"

definition node_stateA_d :: bytes where
  "node_stateA_d =
     [0xf8, 0x69, 0xa0, 0x35, 0x26, 0x88, 0xa8, 0xf9, 0x26, 0xc8, 0x16, 0xca, 0x1e, 0x07, 0x90,
     0x67, 0xca, 0xba, 0x94, 0x4f, 0x15, 0x8e, 0x76, 0x48, 0x17, 0xb8, 0x3f, 0xc4, 0x35, 0x94,
     0x37, 0x0c, 0xa9, 0xcf, 0x62, 0xb8, 0x46, 0xf8, 0x44, 0x80, 0x32, 0xa0, 0x56, 0xe8, 0x1f,
     0x17, 0x1b, 0xcc, 0x55, 0xa6, 0xff, 0x83, 0x45, 0xe6, 0x92, 0xc0, 0xf8, 0x6e, 0x5b, 0x48,
     0xe0, 0x1b, 0x99, 0x6c, 0xad, 0xc0, 0x01, 0x62, 0x2f, 0xb5, 0xe3, 0x63, 0xb4, 0x21, 0xa0,
     0xc5, 0xd2, 0x46, 0x01, 0x86, 0xf7, 0x23, 0x3c, 0x92, 0x7e, 0x7d, 0xb2, 0xdc, 0xc7, 0x03,
     0xc0, 0xe5, 0x00, 0xb6, 0x53, 0xca, 0x82, 0x27, 0x3b, 0x7b, 0xfa, 0xd8, 0x04, 0x5d, 0x85,
     0xa4, 0x70]"

definition hash_stateA_d :: hash where
  "hash_stateA_d =
     [0x77, 0x9d, 0xa6, 0xe5, 0xb6, 0x65, 0x71, 0xdb, 0x1b, 0xf1, 0xd7, 0x0a, 0x81, 0xdd, 0xe1,
     0xfe, 0xba, 0xfc, 0x20, 0x25, 0x79, 0xa7, 0xd7, 0x49, 0xf2, 0x93, 0x9f, 0xcc, 0x05, 0xc7,
     0xe8, 0x73]"

definition node_stateB_root :: bytes where
  "node_stateB_root =
     [0xf8, 0x91, 0x80, 0xa0, 0xb8, 0x37, 0x7e, 0xe3, 0xc6, 0x0f, 0x75, 0x62, 0x35, 0x7f, 0x43,
     0xe9, 0x29, 0x3c, 0xca, 0xf3, 0xc3, 0xb8, 0x92, 0x39, 0x8c, 0xdb, 0x03, 0x53, 0x45, 0xee,
     0x6b, 0x51, 0x23, 0x15, 0xa9, 0x02, 0x80, 0x80, 0xa0, 0x47, 0x58, 0x3c, 0x62, 0x8a, 0xc6,
     0xc7, 0xe5, 0x30, 0xa6, 0x76, 0xec, 0xb1, 0x50, 0xbe, 0x77, 0xba, 0x87, 0xa8, 0x6d, 0x10,
     0xdf, 0x72, 0x9f, 0xd6, 0xfd, 0x27, 0x2a, 0x27, 0xbe, 0xce, 0x32, 0xa0, 0xfc, 0x5d, 0xea,
     0xfa, 0x2d, 0xd3, 0xb9, 0x7a, 0xc7, 0x9b, 0x09, 0xb1, 0xd8, 0xf7, 0x70, 0x63, 0xd7, 0x14,
     0x2e, 0x22, 0xe9, 0x1c, 0x28, 0xf4, 0xaa, 0xce, 0x8b, 0x01, 0xb2, 0xf8, 0xd9, 0x4a, 0x80,
     0x80, 0x80, 0x80, 0xa0, 0xfe, 0x1a, 0x70, 0xbb, 0x3e, 0x42, 0xfe, 0x7b, 0x63, 0x75, 0xd9,
     0x8e, 0x81, 0x4a, 0x93, 0x3b, 0x5c, 0x25, 0x8d, 0x8f, 0x4a, 0x16, 0x2f, 0x3f, 0xc4, 0xbf,
     0x86, 0x8c, 0x33, 0x27, 0x76, 0xad, 0x80, 0x80, 0x80, 0x80, 0x80, 0x80]"

definition node_stateB_1 :: bytes where
  "node_stateB_1 =
     [0xf8, 0x6a, 0xa0, 0x34, 0x68, 0x28, 0x80, 0x56, 0x31, 0x0c, 0x82, 0xaa, 0x4c, 0x01, 0xa7,
     0xe1, 0x2a, 0x10, 0xf8, 0x11, 0x1a, 0x05, 0x60, 0xe7, 0x2b, 0x70, 0x05, 0x55, 0x47, 0x90,
     0x31, 0xb8, 0x6c, 0x35, 0x7d, 0xb8, 0x47, 0xf8, 0x45, 0x01, 0x81, 0xc8, 0xa0, 0x70, 0xb6,
     0x0b, 0x86, 0xe1, 0x49, 0xbd, 0x18, 0xc3, 0xeb, 0xd5, 0xfc, 0x95, 0x48, 0x78, 0xb3, 0xc2,
     0xa7, 0xd0, 0x3c, 0x20, 0x5e, 0xa0, 0xd8, 0x31, 0x53, 0xa1, 0xc4, 0x8d, 0xf3, 0x27, 0x8d,
     0xa0, 0x13, 0xb2, 0xf4, 0x0b, 0x18, 0xe8, 0x98, 0x69, 0x44, 0x3d, 0x96, 0xb7, 0xad, 0x22,
     0x43, 0x4a, 0x28, 0xd3, 0xfa, 0x65, 0xee, 0x6e, 0xc9, 0x9a, 0xcf, 0xb9, 0xa1, 0xd6, 0xb2,
     0x6f, 0xb1, 0xf6]"

definition hash_stateB_1 :: hash where
  "hash_stateB_1 =
     [0xb8, 0x37, 0x7e, 0xe3, 0xc6, 0x0f, 0x75, 0x62, 0x35, 0x7f, 0x43, 0xe9, 0x29, 0x3c, 0xca,
     0xf3, 0xc3, 0xb8, 0x92, 0x39, 0x8c, 0xdb, 0x03, 0x53, 0x45, 0xee, 0x6b, 0x51, 0x23, 0x15,
     0xa9, 0x02]"

definition node_stateB_5 :: bytes where
  "node_stateB_5 =
     [0xf8, 0x69, 0xa0, 0x3b, 0x70, 0xe8, 0x05, 0x38, 0xac, 0xda, 0xbd, 0x61, 0x37, 0x35, 0x3b,
     0x0f, 0x9d, 0x8d, 0x14, 0x9f, 0x4d, 0xba, 0x91, 0xe8, 0xbe, 0x2e, 0x79, 0x46, 0xe4, 0x09,
     0xbf, 0xdb, 0xe6, 0x85, 0xb9, 0xb8, 0x46, 0xf8, 0x44, 0x80, 0x07, 0xa0, 0x56, 0xe8, 0x1f,
     0x17, 0x1b, 0xcc, 0x55, 0xa6, 0xff, 0x83, 0x45, 0xe6, 0x92, 0xc0, 0xf8, 0x6e, 0x5b, 0x48,
     0xe0, 0x1b, 0x99, 0x6c, 0xad, 0xc0, 0x01, 0x62, 0x2f, 0xb5, 0xe3, 0x63, 0xb4, 0x21, 0xa0,
     0xc5, 0xd2, 0x46, 0x01, 0x86, 0xf7, 0x23, 0x3c, 0x92, 0x7e, 0x7d, 0xb2, 0xdc, 0xc7, 0x03,
     0xc0, 0xe5, 0x00, 0xb6, 0x53, 0xca, 0x82, 0x27, 0x3b, 0x7b, 0xfa, 0xd8, 0x04, 0x5d, 0x85,
     0xa4, 0x70]"

definition hash_stateB_5 :: hash where
  "hash_stateB_5 =
     [0xfc, 0x5d, 0xea, 0xfa, 0x2d, 0xd3, 0xb9, 0x7a, 0xc7, 0x9b, 0x09, 0xb1, 0xd8, 0xf7, 0x70,
     0x63, 0xd7, 0x14, 0x2e, 0x22, 0xe9, 0x1c, 0x28, 0xf4, 0xaa, 0xce, 0x8b, 0x01, 0xb2, 0xf8,
     0xd9, 0x4a]"

definition node_stateB_a :: bytes where
  "node_stateB_a =
     [0xf8, 0x69, 0xa0, 0x38, 0x76, 0xda, 0x51, 0x8a, 0x39, 0x3d, 0xbd, 0x06, 0x7d, 0xc7, 0x2a,
     0xbf, 0xa0, 0x8d, 0x47, 0x5e, 0xd6, 0x44, 0x7f, 0xca, 0x96, 0xd9, 0x2e, 0xc3, 0xf9, 0xe7,
     0xeb, 0xa5, 0x03, 0xca, 0x61, 0xb8, 0x46, 0xf8, 0x44, 0x01, 0x80, 0xa0, 0xf2, 0x58, 0xb1,
     0xc6, 0xd5, 0xee, 0x7f, 0x6f, 0x35, 0x49, 0x11, 0x7f, 0xb0, 0xac, 0x79, 0x11, 0x8d, 0x5a,
     0xd1, 0x9b, 0x9c, 0x02, 0x7f, 0x9b, 0x8e, 0x14, 0x71, 0xca, 0x51, 0x9b, 0x3b, 0x6c, 0xa0,
     0x79, 0xa9, 0x79, 0xad, 0x07, 0x89, 0xcb, 0xd7, 0xf9, 0xed, 0xbf, 0xf1, 0x07, 0xd3, 0x90,
     0xc5, 0x4e, 0x0b, 0x89, 0x0e, 0xb8, 0x81, 0x8c, 0x64, 0x26, 0x8c, 0xfb, 0x04, 0xcd, 0xee,
     0x79, 0x2e]"

definition hash_stateB_a :: hash where
  "hash_stateB_a =
     [0xfe, 0x1a, 0x70, 0xbb, 0x3e, 0x42, 0xfe, 0x7b, 0x63, 0x75, 0xd9, 0x8e, 0x81, 0x4a, 0x93,
     0x3b, 0x5c, 0x25, 0x8d, 0x8f, 0x4a, 0x16, 0x2f, 0x3f, 0xc4, 0xbf, 0x86, 0x8c, 0x33, 0x27,
     0x76, 0xad]"

definition node_stateC_root :: bytes where
  "node_stateC_root =
     [0xf8, 0xb1, 0x80, 0xa0, 0xb8, 0x37, 0x7e, 0xe3, 0xc6, 0x0f, 0x75, 0x62, 0x35, 0x7f, 0x43,
     0xe9, 0x29, 0x3c, 0xca, 0xf3, 0xc3, 0xb8, 0x92, 0x39, 0x8c, 0xdb, 0x03, 0x53, 0x45, 0xee,
     0x6b, 0x51, 0x23, 0x15, 0xa9, 0x02, 0x80, 0x80, 0xa0, 0x47, 0x58, 0x3c, 0x62, 0x8a, 0xc6,
     0xc7, 0xe5, 0x30, 0xa6, 0x76, 0xec, 0xb1, 0x50, 0xbe, 0x77, 0xba, 0x87, 0xa8, 0x6d, 0x10,
     0xdf, 0x72, 0x9f, 0xd6, 0xfd, 0x27, 0x2a, 0x27, 0xbe, 0xce, 0x32, 0xa0, 0xfc, 0x5d, 0xea,
     0xfa, 0x2d, 0xd3, 0xb9, 0x7a, 0xc7, 0x9b, 0x09, 0xb1, 0xd8, 0xf7, 0x70, 0x63, 0xd7, 0x14,
     0x2e, 0x22, 0xe9, 0x1c, 0x28, 0xf4, 0xaa, 0xce, 0x8b, 0x01, 0xb2, 0xf8, 0xd9, 0x4a, 0xa0,
     0x80, 0x58, 0x2b, 0xed, 0x71, 0x93, 0x0b, 0x99, 0x2f, 0xf6, 0x04, 0xba, 0xc2, 0xad, 0xf5,
     0x64, 0x40, 0xda, 0xda, 0x86, 0xda, 0x2d, 0x47, 0x0a, 0xc6, 0x24, 0xb5, 0x89, 0x6c, 0xc2,
     0xf4, 0x5c, 0x80, 0x80, 0x80, 0xa0, 0xfe, 0x1a, 0x70, 0xbb, 0x3e, 0x42, 0xfe, 0x7b, 0x63,
     0x75, 0xd9, 0x8e, 0x81, 0x4a, 0x93, 0x3b, 0x5c, 0x25, 0x8d, 0x8f, 0x4a, 0x16, 0x2f, 0x3f,
     0xc4, 0xbf, 0x86, 0x8c, 0x33, 0x27, 0x76, 0xad, 0x80, 0x80, 0x80, 0x80, 0x80, 0x80]"

definition node_stateC_6 :: bytes where
  "node_stateC_6 =
     [0xf8, 0x69, 0xa0, 0x38, 0x98, 0x02, 0xd6, 0xed, 0x1a, 0x28, 0xb0, 0x49, 0xe9, 0xd4, 0xfe,
     0x53, 0x34, 0xc5, 0x90, 0x2f, 0xd9, 0xbc, 0x00, 0xc4, 0x28, 0x21, 0xc8, 0x2f, 0x82, 0xee,
     0x2d, 0xa1, 0x0b, 0xe9, 0x08, 0xb8, 0x46, 0xf8, 0x44, 0x80, 0x01, 0xa0, 0xf2, 0x58, 0xb1,
     0xc6, 0xd5, 0xee, 0x7f, 0x6f, 0x35, 0x49, 0x11, 0x7f, 0xb0, 0xac, 0x79, 0x11, 0x8d, 0x5a,
     0xd1, 0x9b, 0x9c, 0x02, 0x7f, 0x9b, 0x8e, 0x14, 0x71, 0xca, 0x51, 0x9b, 0x3b, 0x6c, 0xa0,
     0xc5, 0xd2, 0x46, 0x01, 0x86, 0xf7, 0x23, 0x3c, 0x92, 0x7e, 0x7d, 0xb2, 0xdc, 0xc7, 0x03,
     0xc0, 0xe5, 0x00, 0xb6, 0x53, 0xca, 0x82, 0x27, 0x3b, 0x7b, 0xfa, 0xd8, 0x04, 0x5d, 0x85,
     0xa4, 0x70]"

definition hash_stateC_6 :: hash where
  "hash_stateC_6 =
     [0x80, 0x58, 0x2b, 0xed, 0x71, 0x93, 0x0b, 0x99, 0x2f, 0xf6, 0x04, 0xba, 0xc2, 0xad, 0xf5,
     0x64, 0x40, 0xda, 0xda, 0x86, 0xda, 0x2d, 0x47, 0x0a, 0xc6, 0x24, 0xb5, 0x89, 0x6c, 0xc2,
     0xf4, 0x5c]"

definition node_storageA1_root :: bytes where
  "node_storageA1_root =
     [0xf8, 0x51, 0x80, 0x80, 0xa0, 0xf7, 0x3c, 0xea, 0x67, 0x88, 0x45, 0x80, 0xee, 0xc8, 0xc3,
     0xf6, 0xd0, 0x74, 0x63, 0x60, 0x90, 0x6c, 0xf8, 0x97, 0xbf, 0x81, 0x21, 0x83, 0x52, 0x0e,
     0x51, 0xb8, 0x9a, 0x12, 0x16, 0x6c, 0xfe, 0x80, 0x80, 0x80, 0x80, 0x80, 0x80, 0x80, 0x80,
     0xa0, 0x8c, 0xd7, 0x88, 0xb0, 0x2d, 0xaf, 0xc9, 0x26, 0xce, 0x8e, 0x14, 0xcd, 0x44, 0x88,
     0x5a, 0x10, 0x96, 0x24, 0x63, 0x04, 0xa4, 0x67, 0xd3, 0x73, 0x2a, 0x78, 0xa1, 0xc6, 0x98,
     0x23, 0x57, 0x40, 0x80, 0x80, 0x80, 0x80, 0x80]"

definition node_storageA1_2 :: bytes where
  "node_storageA1_2 =
     [0xe2, 0xa0, 0x39, 0x0d, 0xec, 0xd9, 0x54, 0x8b, 0x62, 0xa8, 0xd6, 0x03, 0x45, 0xa9, 0x88,
     0x38, 0x6f, 0xc8, 0x4b, 0xa6, 0xbc, 0x95, 0x48, 0x40, 0x08, 0xf6, 0x36, 0x2f, 0x93, 0x16,
     0x0e, 0xf3, 0xe5, 0x63, 0x2a]"

definition hash_storageA1_2 :: hash where
  "hash_storageA1_2 =
     [0xf7, 0x3c, 0xea, 0x67, 0x88, 0x45, 0x80, 0xee, 0xc8, 0xc3, 0xf6, 0xd0, 0x74, 0x63, 0x60,
     0x90, 0x6c, 0xf8, 0x97, 0xbf, 0x81, 0x21, 0x83, 0x52, 0x0e, 0x51, 0xb8, 0x9a, 0x12, 0x16,
     0x6c, 0xfe]"

definition value_storageA1_290d :: bytes where
  "value_storageA1_290d =
     [0x2a]"

definition node_storageA1_b :: bytes where
  "node_storageA1_b =
     [0xf8, 0x51, 0x80, 0xa0, 0x2b, 0xd0, 0x31, 0xed, 0xf2, 0x38, 0x6b, 0xec, 0x20, 0x7b, 0xc0,
     0x09, 0xa2, 0xde, 0xf7, 0x95, 0x97, 0x1f, 0xfd, 0x5e, 0x02, 0xa9, 0xec, 0xe8, 0x1b, 0xc3,
     0x4a, 0x00, 0xba, 0x16, 0x63, 0xdc, 0x80, 0x80, 0x80, 0x80, 0x80, 0x80, 0x80, 0x80, 0x80,
     0xa0, 0xf6, 0xfe, 0x42, 0xe1, 0xa0, 0x80, 0x9d, 0xf5, 0x07, 0x93, 0x0a, 0xd2, 0x8a, 0xf0,
     0xe5, 0xb2, 0x18, 0x0a, 0x95, 0xbd, 0x38, 0xb8, 0xa0, 0x72, 0x27, 0x62, 0x3a, 0x8c, 0x7a,
     0x8f, 0x3d, 0x2e, 0x80, 0x80, 0x80, 0x80, 0x80]"

definition hash_storageA1_b :: hash where
  "hash_storageA1_b =
     [0x8c, 0xd7, 0x88, 0xb0, 0x2d, 0xaf, 0xc9, 0x26, 0xce, 0x8e, 0x14, 0xcd, 0x44, 0x88, 0x5a,
     0x10, 0x96, 0x24, 0x63, 0x04, 0xa4, 0x67, 0xd3, 0x73, 0x2a, 0x78, 0xa1, 0xc6, 0x98, 0x23,
     0x57, 0x40]"

definition node_storageA1_b1 :: bytes where
  "node_storageA1_b1 =
     [0xe2, 0xa0, 0x20, 0x0e, 0x2d, 0x52, 0x76, 0x12, 0x07, 0x3b, 0x26, 0xee, 0xcd, 0xfd, 0x71,
     0x7e, 0x6a, 0x32, 0x0c, 0xf4, 0x4b, 0x4a, 0xfa, 0xc2, 0xb0, 0x73, 0x2d, 0x9f, 0xcb, 0xe2,
     0xb7, 0xfa, 0x0c, 0xf6, 0x05]"

definition hash_storageA1_b1 :: hash where
  "hash_storageA1_b1 =
     [0x2b, 0xd0, 0x31, 0xed, 0xf2, 0x38, 0x6b, 0xec, 0x20, 0x7b, 0xc0, 0x09, 0xa2, 0xde, 0xf7,
     0x95, 0x97, 0x1f, 0xfd, 0x5e, 0x02, 0xa9, 0xec, 0xe8, 0x1b, 0xc3, 0x4a, 0x00, 0xba, 0x16,
     0x63, 0xdc]"

definition value_storageA1_b10e :: bytes where
  "value_storageA1_b10e =
     [0x05]"

definition node_storageA1_bb :: bytes where
  "node_storageA1_bb =
     [0xe2, 0xa0, 0x20, 0x7b, 0x4a, 0x45, 0x4d, 0xc3, 0x49, 0x39, 0x23, 0x48, 0x2f, 0x07, 0x82,
     0x23, 0x29, 0xed, 0x19, 0xe8, 0x24, 0x4e, 0xff, 0x58, 0x2c, 0xc2, 0x04, 0xf8, 0x55, 0x4c,
     0x36, 0x20, 0xc3, 0xfd, 0x09]"

definition hash_storageA1_bb :: hash where
  "hash_storageA1_bb =
     [0xf6, 0xfe, 0x42, 0xe1, 0xa0, 0x80, 0x9d, 0xf5, 0x07, 0x93, 0x0a, 0xd2, 0x8a, 0xf0, 0xe5,
     0xb2, 0x18, 0x0a, 0x95, 0xbd, 0x38, 0xb8, 0xa0, 0x72, 0x27, 0x62, 0x3a, 0x8c, 0x7a, 0x8f,
     0x3d, 0x2e]"

definition value_storageA1_bb7b :: bytes where
  "value_storageA1_bb7b =
     [0x09]"

definition node_storageB1_root :: bytes where
  "node_storageB1_root =
     [0xe3, 0xa1, 0x20, 0x29, 0x0d, 0xec, 0xd9, 0x54, 0x8b, 0x62, 0xa8, 0xd6, 0x03, 0x45, 0xa9,
     0x88, 0x38, 0x6f, 0xc8, 0x4b, 0xa6, 0xbc, 0x95, 0x48, 0x40, 0x08, 0xf6, 0x36, 0x2f, 0x93,
     0x16, 0x0e, 0xf3, 0xe5, 0x63, 0x2b]"

definition value_storageB1_290d :: bytes where
  "value_storageB1_290d =
     [0x2b]"

definition node_storage4_root :: bytes where
  "node_storage4_root =
     [0xe3, 0xa1, 0x20, 0x29, 0x0d, 0xec, 0xd9, 0x54, 0x8b, 0x62, 0xa8, 0xd6, 0x03, 0x45, 0xa9,
     0x88, 0x38, 0x6f, 0xc8, 0x4b, 0xa6, 0xbc, 0x95, 0x48, 0x40, 0x08, 0xf6, 0x36, 0x2f, 0x93,
     0x16, 0x0e, 0xf3, 0xe5, 0x63, 0x07]"

definition value_storage4_290d :: bytes where
  "value_storage4_290d =
     [0x07]"

definition steps_stateA :: "IterStep list" where
  "steps_stateA =
     [\<lparr>it_Leaf = False, it_Hash = root_stateA, it_Path = [], it_Blob = node_stateA_root\<rparr>,
      \<lparr>it_Leaf = False, it_Hash = hash_stateA_1, it_Path = [1], it_Blob = node_stateA_1\<rparr>,
      \<lparr>it_Leaf = True, it_Hash = zero_Hash, it_Path = [1, 4, 6, 8, 2, 8, 8, 0, 5, 6, 3, 1, 0, 12, 8, 2, 10, 10, 4, 12, 0, 1, 10, 7, 14, 1, 2, 10, 1, 0, 15, 8, 1, 1, 1, 10, 0, 5, 6, 0, 14, 7, 2, 11, 7, 0, 0, 5, 5, 5, 4, 7, 9, 0, 3, 1, 11, 8, 6, 12, 3, 5, 7, 13, 16], it_Blob = accountRLP_1A\<rparr>,
      \<lparr>it_Leaf = False, it_Hash = hash_stateA_4, it_Path = [4], it_Blob = node_stateA_4\<rparr>,
      \<lparr>it_Leaf = True, it_Hash = zero_Hash, it_Path = [4, 2, 1, 13, 15, 1, 15, 10, 2, 5, 9, 2, 2, 1, 13, 0, 2, 10, 10, 4, 9, 5, 6, 14, 11, 0, 13, 3, 5, 10, 12, 14, 3, 1, 8, 12, 10, 2, 4, 12, 0, 10, 3, 3, 10, 6, 4, 12, 1, 10, 15, 9, 6, 12, 15, 6, 7, 12, 15, 2, 4, 5, 11, 6, 16], it_Blob = accountRLP_5\<rparr>,
      \<lparr>it_Leaf = False, it_Hash = hash_stateA_d, it_Path = [13], it_Blob = node_stateA_d\<rparr>,
      \<lparr>it_Leaf = True, it_Hash = zero_Hash, it_Path = [13, 5, 2, 6, 8, 8, 10, 8, 15, 9, 2, 6, 12, 8, 1, 6, 12, 10, 1, 14, 0, 7, 9, 0, 6, 7, 12, 10, 11, 10, 9, 4, 4, 15, 1, 5, 8, 14, 7, 6, 4, 8, 1, 7, 11, 8, 3, 15, 12, 4, 3, 5, 9, 4, 3, 7, 0, 12, 10, 9, 12, 15, 6, 2, 16], it_Blob = accountRLP_2\<rparr>]"

definition steps_stateB :: "IterStep list" where
  "steps_stateB =
     [\<lparr>it_Leaf = False, it_Hash = root_stateB, it_Path = [], it_Blob = node_stateB_root\<rparr>,
      \<lparr>it_Leaf = False, it_Hash = hash_stateB_1, it_Path = [1], it_Blob = node_stateB_1\<rparr>,
      \<lparr>it_Leaf = True, it_Hash = zero_Hash, it_Path = [1, 4, 6, 8, 2, 8, 8, 0, 5, 6, 3, 1, 0, 12, 8, 2, 10, 10, 4, 12, 0, 1, 10, 7, 14, 1, 2, 10, 1, 0, 15, 8, 1, 1, 1, 10, 0, 5, 6, 0, 14, 7, 2, 11, 7, 0, 0, 5, 5, 5, 4, 7, 9, 0, 3, 1, 11, 8, 6, 12, 3, 5, 7, 13, 16], it_Blob = accountRLP_1B\<rparr>,
      \<lparr>it_Leaf = False, it_Hash = hash_stateA_4, it_Path = [4], it_Blob = node_stateA_4\<rparr>,
      \<lparr>it_Leaf = True, it_Hash = zero_Hash, it_Path = [4, 2, 1, 13, 15, 1, 15, 10, 2, 5, 9, 2, 2, 1, 13, 0, 2, 10, 10, 4, 9, 5, 6, 14, 11, 0, 13, 3, 5, 10, 12, 14, 3, 1, 8, 12, 10, 2, 4, 12, 0, 10, 3, 3, 10, 6, 4, 12, 1, 10, 15, 9, 6, 12, 15, 6, 7, 12, 15, 2, 4, 5, 11, 6, 16], it_Blob = accountRLP_5\<rparr>,
      \<lparr>it_Leaf = False, it_Hash = hash_stateB_5, it_Path = [5], it_Blob = node_stateB_5\<rparr>,
      \<lparr>it_Leaf = True, it_Hash = zero_Hash, it_Path = [5, 11, 7, 0, 14, 8, 0, 5, 3, 8, 10, 12, 13, 10, 11, 13, 6, 1, 3, 7, 3, 5, 3, 11, 0, 15, 9, 13, 8, 13, 1, 4, 9, 15, 4, 13, 11, 10, 9, 1, 14, 8, 11, 14, 2, 14, 7, 9, 4, 6, 14, 4, 0, 9, 11, 15, 13, 11, 14, 6, 8, 5, 11, 9, 16], it_Blob = accountRLP_3\<rparr>,
      \<lparr>it_Leaf = False, it_Hash = hash_stateB_a, it_Path = [10], it_Blob = node_stateB_a\<rparr>,
      \<lparr>it_Leaf = True, it_Hash = zero_Hash, it_Path = [10, 8, 7, 6, 13, 10, 5, 1, 8, 10, 3, 9, 3, 13, 11, 13, 0, 6, 7, 13, 12, 7, 2, 10, 11, 15, 10, 0, 8, 13, 4, 7, 5, 14, 13, 6, 4, 4, 7, 15, 12, 10, 9, 6, 13, 9, 2, 14, 12, 3, 15, 9, 14, 7, 14, 11, 10, 5, 0, 3, 12, 10, 6, 1, 16], it_Blob = accountRLP_4\<rparr>]"

definition steps_stateC :: "IterStep list" where
  "steps_stateC =
     [\<lparr>it_Leaf = False, it_Hash = root_stateC, it_Path = [], it_Blob = node_stateC_root\<rparr>,
      \<lparr>it_Leaf = False, it_Hash = hash_stateB_1, it_Path = [1], it_Blob = node_stateB_1\<rparr>,
      \<lparr>it_Leaf = True, it_Hash = zero_Hash, it_Path = [1, 4, 6, 8, 2, 8, 8, 0, 5, 6, 3, 1, 0, 12, 8, 2, 10, 10, 4, 12, 0, 1, 10, 7, 14, 1, 2, 10, 1, 0, 15, 8, 1, 1, 1, 10, 0, 5, 6, 0, 14, 7, 2, 11, 7, 0, 0, 5, 5, 5, 4, 7, 9, 0, 3, 1, 11, 8, 6, 12, 3, 5, 7, 13, 16], it_Blob = accountRLP_1B\<rparr>,
      \<lparr>it_Leaf = False, it_Hash = hash_stateA_4, it_Path = [4], it_Blob = node_stateA_4\<rparr>,
      \<lparr>it_Leaf = True, it_Hash = zero_Hash, it_Path = [4, 2, 1, 13, 15, 1, 15, 10, 2, 5, 9, 2, 2, 1, 13, 0, 2, 10, 10, 4, 9, 5, 6, 14, 11, 0, 13, 3, 5, 10, 12, 14, 3, 1, 8, 12, 10, 2, 4, 12, 0, 10, 3, 3, 10, 6, 4, 12, 1, 10, 15, 9, 6, 12, 15, 6, 7, 12, 15, 2, 4, 5, 11, 6, 16], it_Blob = accountRLP_5\<rparr>,
      \<lparr>it_Leaf = False, it_Hash = hash_stateB_5, it_Path = [5], it_Blob = node_stateB_5\<rparr>,
      \<lparr>it_Leaf = True, it_Hash = zero_Hash, it_Path = [5, 11, 7, 0, 14, 8, 0, 5, 3, 8, 10, 12, 13, 10, 11, 13, 6, 1, 3, 7, 3, 5, 3, 11, 0, 15, 9, 13, 8, 13, 1, 4, 9, 15, 4, 13, 11, 10, 9, 1, 14, 8, 11, 14, 2, 14, 7, 9, 4, 6, 14, 4, 0, 9, 11, 15, 13, 11, 14, 6, 8, 5, 11, 9, 16], it_Blob = accountRLP_3\<rparr>,
      \<lparr>it_Leaf = False, it_Hash = hash_stateC_6, it_Path = [6], it_Blob = node_stateC_6\<rparr>,
      \<lparr>it_Leaf = True, it_Hash = zero_Hash, it_Path = [6, 8, 9, 8, 0, 2, 13, 6, 14, 13, 1, 10, 2, 8, 11, 0, 4, 9, 14, 9, 13, 4, 15, 14, 5, 3, 3, 4, 12, 5, 9, 0, 2, 15, 13, 9, 11, 12, 0, 0, 12, 4, 2, 8, 2, 1, 12, 8, 2, 15, 8, 2, 14, 14, 2, 13, 10, 1, 0, 11, 14, 9, 0, 8, 16], it_Blob = accountRLP_6\<rparr>,
      \<lparr>it_Leaf = False, it_Hash = hash_stateB_a, it_Path = [10], it_Blob = node_stateB_a\<rparr>,
      \<lparr>it_Leaf = True, it_Hash = zero_Hash, it_Path = [10, 8, 7, 6, 13, 10, 5, 1, 8, 10, 3, 9, 3, 13, 11, 13, 0, 6, 7, 13, 12, 7, 2, 10, 11, 15, 10, 0, 8, 13, 4, 7, 5, 14, 13, 6, 4, 4, 7, 15, 12, 10, 9, 6, 13, 9, 2, 14, 12, 3, 15, 9, 14, 7, 14, 11, 10, 5, 0, 3, 12, 10, 6, 1, 16], it_Blob = accountRLP_4\<rparr>]"

definition steps_storageA1 :: "IterStep list" where
  "steps_storageA1 =
     [\<lparr>it_Leaf = False, it_Hash = root_storageA1, it_Path = [], it_Blob = node_storageA1_root\<rparr>,
      \<lparr>it_Leaf = False, it_Hash = hash_storageA1_2, it_Path = [2], it_Blob = node_storageA1_2\<rparr>,
      \<lparr>it_Leaf = True, it_Hash = zero_Hash, it_Path = [2, 9, 0, 13, 14, 12, 13, 9, 5, 4, 8, 11, 6, 2, 10, 8, 13, 6, 0, 3, 4, 5, 10, 9, 8, 8, 3, 8, 6, 15, 12, 8, 4, 11, 10, 6, 11, 12, 9, 5, 4, 8, 4, 0, 0, 8, 15, 6, 3, 6, 2, 15, 9, 3, 1, 6, 0, 14, 15, 3, 14, 5, 6, 3, 16], it_Blob = value_storageA1_290d\<rparr>,
      \<lparr>it_Leaf = False, it_Hash = hash_storageA1_b, it_Path = [11], it_Blob = node_storageA1_b\<rparr>,
      \<lparr>it_Leaf = False, it_Hash = hash_storageA1_b1, it_Path = [11, 1], it_Blob = node_storageA1_b1\<rparr>,
      \<lparr>it_Leaf = True, it_Hash = zero_Hash, it_Path = [11, 1, 0, 14, 2, 13, 5, 2, 7, 6, 1, 2, 0, 7, 3, 11, 2, 6, 14, 14, 12, 13, 15, 13, 7, 1, 7, 14, 6, 10, 3, 2, 0, 12, 15, 4, 4, 11, 4, 10, 15, 10, 12, 2, 11, 0, 7, 3, 2, 13, 9, 15, 12, 11, 14, 2, 11, 7, 15, 10, 0, 12, 15, 6, 16], it_Blob = value_storageA1_b10e\<rparr>,
      \<lparr>it_Leaf = False, it_Hash = hash_storageA1_bb, it_Path = [11, 11], it_Blob = node_storageA1_bb\<rparr>,
      \<lparr>it_Leaf = True, it_Hash = zero_Hash, it_Path = [11, 11, 7, 11, 4, 10, 4, 5, 4, 13, 12, 3, 4, 9, 3, 9, 2, 3, 4, 8, 2, 15, 0, 7, 8, 2, 2, 3, 2, 9, 14, 13, 1, 9, 14, 8, 2, 4, 4, 14, 15, 15, 5, 8, 2, 12, 12, 2, 0, 4, 15, 8, 5, 5, 4, 12, 3, 6, 2, 0, 12, 3, 15, 13, 16], it_Blob = value_storageA1_bb7b\<rparr>]"

definition steps_storageB1 :: "IterStep list" where
  "steps_storageB1 =
     [\<lparr>it_Leaf = False, it_Hash = root_storageB1, it_Path = [], it_Blob = node_storageB1_root\<rparr>,
      \<lparr>it_Leaf = True, it_Hash = zero_Hash, it_Path = [2, 9, 0, 13, 14, 12, 13, 9, 5, 4, 8, 11, 6, 2, 10, 8, 13, 6, 0, 3, 4, 5, 10, 9, 8, 8, 3, 8, 6, 15, 12, 8, 4, 11, 10, 6, 11, 12, 9, 5, 4, 8, 4, 0, 0, 8, 15, 6, 3, 6, 2, 15, 9, 3, 1, 6, 0, 14, 15, 3, 14, 5, 6, 3, 16], it_Blob = value_storageB1_290d\<rparr>]"

definition steps_storage4 :: "IterStep list" where
  "steps_storage4 =
     [\<lparr>it_Leaf = False, it_Hash = root_storage4, it_Path = [], it_Blob = node_storage4_root\<rparr>,
      \<lparr>it_Leaf = True, it_Hash = zero_Hash, it_Path = [2, 9, 0, 13, 14, 12, 13, 9, 5, 4, 8, 11, 6, 2, 10, 8, 13, 6, 0, 3, 4, 5, 10, 9, 8, 8, 3, 8, 6, 15, 12, 8, 4, 11, 10, 6, 11, 12, 9, 5, 4, 8, 4, 0, 0, 8, 15, 6, 3, 6, 2, 15, 9, 3, 1, 6, 0, 14, 15, 3, 14, 5, 6, 3, 16], it_Blob = value_storage4_290d\<rparr>]"

definition example_nodes :: "(hash \<times> bytes) list" where
  "example_nodes =
     [(root_stateA, node_stateA_root),
      (hash_stateA_1, node_stateA_1),
      (hash_stateA_4, node_stateA_4),
      (hash_stateA_d, node_stateA_d),
      (root_stateB, node_stateB_root),
      (hash_stateB_1, node_stateB_1),
      (hash_stateB_5, node_stateB_5),
      (hash_stateB_a, node_stateB_a),
      (root_stateC, node_stateC_root),
      (hash_stateC_6, node_stateC_6),
      (root_storageA1, node_storageA1_root),
      (hash_storageA1_2, node_storageA1_2),
      (hash_storageA1_b, node_storageA1_b),
      (hash_storageA1_b1, node_storageA1_b1),
      (hash_storageA1_bb, node_storageA1_bb),
      (root_storageB1, node_storageB1_root),
      (root_storage4, node_storage4_root)]"

definition example_rlp :: "(bytes \<times> rlp_item list) list" where
  "example_rlp =
     [(node_stateA_root,
       [RBytes [],
        RBytes hash_stateA_1,
        RBytes [],
        RBytes [],
        RBytes hash_stateA_4,
        RBytes [],
        RBytes [],
        RBytes [],
        RBytes [],
        RBytes [],
        RBytes [],
        RBytes [],
        RBytes [],
        RBytes hash_stateA_d,
        RBytes [],
        RBytes [],
        RBytes []]),
      (node_stateA_1,
       [RBytes [0x34, 0x68, 0x28, 0x80, 0x56, 0x31, 0x0c, 0x82, 0xaa, 0x4c, 0x01, 0xa7, 0xe1, 0x2a, 0x10, 0xf8, 0x11, 0x1a, 0x05, 0x60, 0xe7, 0x2b, 0x70, 0x05, 0x55, 0x47, 0x90, 0x31, 0xb8, 0x6c, 0x35, 0x7d],
        RBytes accountRLP_1A]),
      (node_stateA_4,
       [RBytes [0x32, 0x1d, 0xf1, 0xfa, 0x25, 0x92, 0x21, 0xd0, 0x2a, 0xa4, 0x95, 0x6e, 0xb0, 0xd3, 0x5a, 0xce, 0x31, 0x8c, 0xa2, 0x4c, 0x0a, 0x33, 0xa6, 0x4c, 0x1a, 0xf9, 0x6c, 0xf6, 0x7c, 0xf2, 0x45, 0xb6],
        RBytes accountRLP_5]),
      (node_stateA_d,
       [RBytes [0x35, 0x26, 0x88, 0xa8, 0xf9, 0x26, 0xc8, 0x16, 0xca, 0x1e, 0x07, 0x90, 0x67, 0xca, 0xba, 0x94, 0x4f, 0x15, 0x8e, 0x76, 0x48, 0x17, 0xb8, 0x3f, 0xc4, 0x35, 0x94, 0x37, 0x0c, 0xa9, 0xcf, 0x62],
        RBytes accountRLP_2]),
      (node_stateB_root,
       [RBytes [],
        RBytes hash_stateB_1,
        RBytes [],
        RBytes [],
        RBytes hash_stateA_4,
        RBytes hash_stateB_5,
        RBytes [],
        RBytes [],
        RBytes [],
        RBytes [],
        RBytes hash_stateB_a,
        RBytes [],
        RBytes [],
        RBytes [],
        RBytes [],
        RBytes [],
        RBytes []]),
      (node_stateB_1,
       [RBytes [0x34, 0x68, 0x28, 0x80, 0x56, 0x31, 0x0c, 0x82, 0xaa, 0x4c, 0x01, 0xa7, 0xe1, 0x2a, 0x10, 0xf8, 0x11, 0x1a, 0x05, 0x60, 0xe7, 0x2b, 0x70, 0x05, 0x55, 0x47, 0x90, 0x31, 0xb8, 0x6c, 0x35, 0x7d],
        RBytes accountRLP_1B]),
      (node_stateB_5,
       [RBytes [0x3b, 0x70, 0xe8, 0x05, 0x38, 0xac, 0xda, 0xbd, 0x61, 0x37, 0x35, 0x3b, 0x0f, 0x9d, 0x8d, 0x14, 0x9f, 0x4d, 0xba, 0x91, 0xe8, 0xbe, 0x2e, 0x79, 0x46, 0xe4, 0x09, 0xbf, 0xdb, 0xe6, 0x85, 0xb9],
        RBytes accountRLP_3]),
      (node_stateB_a,
       [RBytes [0x38, 0x76, 0xda, 0x51, 0x8a, 0x39, 0x3d, 0xbd, 0x06, 0x7d, 0xc7, 0x2a, 0xbf, 0xa0, 0x8d, 0x47, 0x5e, 0xd6, 0x44, 0x7f, 0xca, 0x96, 0xd9, 0x2e, 0xc3, 0xf9, 0xe7, 0xeb, 0xa5, 0x03, 0xca, 0x61],
        RBytes accountRLP_4]),
      (node_stateC_root,
       [RBytes [],
        RBytes hash_stateB_1,
        RBytes [],
        RBytes [],
        RBytes hash_stateA_4,
        RBytes hash_stateB_5,
        RBytes hash_stateC_6,
        RBytes [],
        RBytes [],
        RBytes [],
        RBytes hash_stateB_a,
        RBytes [],
        RBytes [],
        RBytes [],
        RBytes [],
        RBytes [],
        RBytes []]),
      (node_stateC_6,
       [RBytes [0x38, 0x98, 0x02, 0xd6, 0xed, 0x1a, 0x28, 0xb0, 0x49, 0xe9, 0xd4, 0xfe, 0x53, 0x34, 0xc5, 0x90, 0x2f, 0xd9, 0xbc, 0x00, 0xc4, 0x28, 0x21, 0xc8, 0x2f, 0x82, 0xee, 0x2d, 0xa1, 0x0b, 0xe9, 0x08],
        RBytes accountRLP_6]),
      (node_storageA1_root,
       [RBytes [],
        RBytes [],
        RBytes hash_storageA1_2,
        RBytes [],
        RBytes [],
        RBytes [],
        RBytes [],
        RBytes [],
        RBytes [],
        RBytes [],
        RBytes [],
        RBytes hash_storageA1_b,
        RBytes [],
        RBytes [],
        RBytes [],
        RBytes [],
        RBytes []]),
      (node_storageA1_2,
       [RBytes [0x39, 0x0d, 0xec, 0xd9, 0x54, 0x8b, 0x62, 0xa8, 0xd6, 0x03, 0x45, 0xa9, 0x88, 0x38, 0x6f, 0xc8, 0x4b, 0xa6, 0xbc, 0x95, 0x48, 0x40, 0x08, 0xf6, 0x36, 0x2f, 0x93, 0x16, 0x0e, 0xf3, 0xe5, 0x63],
        RBytes value_storageA1_290d]),
      (node_storageA1_b,
       [RBytes [],
        RBytes hash_storageA1_b1,
        RBytes [],
        RBytes [],
        RBytes [],
        RBytes [],
        RBytes [],
        RBytes [],
        RBytes [],
        RBytes [],
        RBytes [],
        RBytes hash_storageA1_bb,
        RBytes [],
        RBytes [],
        RBytes [],
        RBytes [],
        RBytes []]),
      (node_storageA1_b1,
       [RBytes [0x20, 0x0e, 0x2d, 0x52, 0x76, 0x12, 0x07, 0x3b, 0x26, 0xee, 0xcd, 0xfd, 0x71, 0x7e, 0x6a, 0x32, 0x0c, 0xf4, 0x4b, 0x4a, 0xfa, 0xc2, 0xb0, 0x73, 0x2d, 0x9f, 0xcb, 0xe2, 0xb7, 0xfa, 0x0c, 0xf6],
        RBytes value_storageA1_b10e]),
      (node_storageA1_bb,
       [RBytes [0x20, 0x7b, 0x4a, 0x45, 0x4d, 0xc3, 0x49, 0x39, 0x23, 0x48, 0x2f, 0x07, 0x82, 0x23, 0x29, 0xed, 0x19, 0xe8, 0x24, 0x4e, 0xff, 0x58, 0x2c, 0xc2, 0x04, 0xf8, 0x55, 0x4c, 0x36, 0x20, 0xc3, 0xfd],
        RBytes value_storageA1_bb7b]),
      (node_storageB1_root,
       [RBytes [0x20, 0x29, 0x0d, 0xec, 0xd9, 0x54, 0x8b, 0x62, 0xa8, 0xd6, 0x03, 0x45, 0xa9, 0x88, 0x38, 0x6f, 0xc8, 0x4b, 0xa6, 0xbc, 0x95, 0x48, 0x40, 0x08, 0xf6, 0x36, 0x2f, 0x93, 0x16, 0x0e, 0xf3, 0xe5, 0x63],
        RBytes value_storageB1_290d]),
      (node_storage4_root,
       [RBytes [0x20, 0x29, 0x0d, 0xec, 0xd9, 0x54, 0x8b, 0x62, 0xa8, 0xd6, 0x03, 0x45, 0xa9, 0x88, 0x38, 0x6f, 0xc8, 0x4b, 0xa6, 0xbc, 0x95, 0x48, 0x40, 0x08, 0xf6, 0x36, 0x2f, 0x93, 0x16, 0x0e, 0xf3, 0xe5, 0x63],
        RBytes value_storage4_290d])]"

definition example_accounts :: "(bytes \<times> Account) list" where
  "example_accounts =
     [(accountRLP_1A, \<lparr>Nonce = 1, Balance = 100, Root = root_storageA1, CodeHash = codeHash1\<rparr>),
      (accountRLP_1B, \<lparr>Nonce = 1, Balance = 200, Root = root_storageB1, CodeHash = codeHash1\<rparr>),
      (accountRLP_2, \<lparr>Nonce = 0, Balance = 50, Root = emptyRoot, CodeHash = emptyCodeHash\<rparr>),
      (accountRLP_3, \<lparr>Nonce = 0, Balance = 7, Root = emptyRoot, CodeHash = emptyCodeHash\<rparr>),
      (accountRLP_4, \<lparr>Nonce = 1, Balance = 0, Root = root_storage4, CodeHash = codeHash4\<rparr>),
      (accountRLP_5, \<lparr>Nonce = 3, Balance = 1000, Root = emptyRoot, CodeHash = emptyCodeHash\<rparr>),
      (accountRLP_6, \<lparr>Nonce = 0, Balance = 1, Root = root_storage4, CodeHash = emptyCodeHash\<rparr>)]"

definition example_tries :: "(hash \<times> IterStep list) list" where
  "example_tries =
     [(emptyRoot, []),
      (root_stateA, steps_stateA),
      (root_stateB, steps_stateB),
      (root_stateC, steps_stateC),
      (root_storageA1, steps_storageA1),
      (root_storageB1, steps_storageB1),
      (root_storage4, steps_storage4)]"

definition example_codes :: "(hash \<times> bytes) list" where
  "example_codes = [(codeHash1, code1), (codeHash4, code4)]"

definition example_digests :: "(bytes \<times> bytes) list" where
  "example_digests =
     [([], emptyCodeHash),
      ([0x80], emptyRoot),
      (address1, leafKey1),
      (address2, leafKey2),
      (address3, leafKey3),
      (address4, leafKey4),
      (address5, leafKey5),
      (address6, leafKey6)]"

text \<open>Modelled from the spec: "classify" of section 4.1. \<^verbatim>\<open>CheckKeyType\<close> is a function of
  the package outside the source files: more than two elements are a branch; of two
  elements, the high nibble of the first byte of the first one tells a leaf (2 or 3) from an
  extension (0 or 1).\<close>

definition classify :: "rlp_item list \<Rightarrow> failure + NodeType" where
  "classify elements =
     (if length elements > 2 then Inr Branch
      else if length elements < 2
        then Inl (Err (Error ''node cannot be less than two elements in length''))
      else (case element_bytes elements 0 of
              Inl f \<Rightarrow> Inl f
            | Inr [] \<Rightarrow> Inl (Panic ''index out of range'')
            | Inr (b # bs) \<Rightarrow>
                if b div 16 = 0 \<or> b div 16 = 1 then Inr Extension
                else if b div 16 = 2 \<or> b div 16 = 3 then Inr Leaf
                else Inl (Err (Error ''unknown hex prefix''))))"

text \<open>Modelled from the spec: "the standard MPT compact (hex-prefix) encoding, preserving the
  even/odd length and leaf/extension flags in the first nibble". \<^verbatim>\<open>trie.CompactToHex\<close> and
  \<^verbatim>\<open>trie.HexToCompact\<close> are outside the source files. A path in hex form has one nibble in
  each byte and ends with the terminator 16 when it is the path of a value.\<close>

definition keybytesToHex :: "bytes \<Rightarrow> bytes" where
  "keybytesToHex str = concat (map (\<lambda>b. [b div 16, b mod 16]) str) @ [16]"

definition compactToHex :: "bytes \<Rightarrow> bytes" where
  "compactToHex compact =
     (if compact = [] then compact
      else
        (let base = keybytesToHex compact;
             base' = (if hd base < 2 then butlast base else base);
             chop = 2 - unat (hd base' AND 1)
         in drop chop base'))"

fun decodeNibbles :: "bytes \<Rightarrow> bytes" where
  "decodeNibbles (n1 # n2 # rest) = (push_bit 4 n1 OR n2) # decodeNibbles rest"
| "decodeNibbles rest = []"

definition hexToCompact :: "bytes \<Rightarrow> bytes" where
  "hexToCompact hex =
     (let hasTerm = (hex \<noteq> [] \<and> last hex = 16);
          terminator = (if hasTerm then 1 else 0 :: byte);
          hex1 = (if hasTerm then butlast hex else hex);
          flag = push_bit 5 terminator
      in if odd (length hex1)
         then (flag OR push_bit 4 1 OR hd hex1) # decodeNibbles (tl hex1)
         else flag # decodeNibbles hex1)"

definition lookup_or :: "string \<Rightarrow> ('k \<times> 'v) list \<Rightarrow> 'k \<Rightarrow> error + 'v" where
  "lookup_or msg table k =
     (case map_of table k of None \<Rightarrow> Inl (Error msg) | Some v \<Rightarrow> Inr v)"

text \<open>The example database. Its hash function is Keccak-256 on the byte strings the example
  hashes; a \<^verbatim>\<open>range\<close> over an account map visits \<open>leafKey4\<close> first.\<close>

definition example_db :: env where
  "example_db =
     \<lparr>OpenTrie = (\<lambda>root. case lookup_or ''missing trie node'' example_tries root of
                             Inl e \<Rightarrow> Inl e
                           | Inr st \<Rightarrow> Inr \<lparr>it_steps = st, it_Error = None\<rparr>),
      TrieDB_Node = lookup_or ''not found'' example_nodes,
      ContractCode = (\<lambda>addrHash codeHash. lookup_or ''not found'' example_codes codeHash),
      rlp_DecodeBytes = lookup_or ''rlp: expected input list'' example_rlp,
      rlp_DecodeAccount = lookup_or ''rlp: expected input list for state.Account'' example_accounts,
      rlp_EncodeToBytes = (\<lambda>b. if b = [] then [0x80] else []),
      CheckKeyType = classify,
      CompactToHex = compactToHex,
      HexToCompact = hexToCompact,
      Keccak256 = (\<lambda>b. case map_of example_digests b of None \<Rightarrow> [] | Some h \<Rightarrow> h),
      range_rank = (\<lambda>k. if k = Bytes2Hex leafKey4 then 0 else 1)\<rparr>"

definition trie_stateA :: NodeIterator where
  "trie_stateA = \<lparr>it_steps = steps_stateA, it_Error = None\<rparr>"

definition trie_stateB :: NodeIterator where
  "trie_stateB = \<lparr>it_steps = steps_stateB, it_Error = None\<rparr>"

definition trie_storageA1 :: NodeIterator where
  "trie_storageA1 = \<lparr>it_steps = steps_storageA1, it_Error = None\<rparr>"

definition trie_storageB1 :: NodeIterator where
  "trie_storageB1 = \<lparr>it_steps = steps_storageB1, it_Error = None\<rparr>"

text \<open>The paths pass 1 records between the states A and B of the example.\<close>

definition example_pathsAtB :: PathMap where
  "example_pathsAtB = [('''', True), (''01'', True), (''05'', True), (''0a'', True)]"

subsection \<open>Notions the properties are stated with\<close>

text \<open>A step the loops look at: not a value, and not the zero hash.\<close>

definition structural :: "IterStep \<Rightarrow> bool" where
  "structural it \<longleftrightarrow> \<not> it_Leaf it \<and> it_Hash it \<noteq> nullHashBytes"

text \<open>A step of the old side whose path pass 1 did not record.\<close>

definition absent_at_B :: "PathMap \<Rightarrow> IterStep \<Rightarrow> bool" where
  "absent_at_B diffPathsAtB it \<longleftrightarrow>
     structural it \<and> map_of diffPathsAtB (Bytes2Hex (it_Path it)) = None"

definition removed_StorageNode :: "bytes \<Rightarrow> StorageNode" where
  "removed_StorageNode nodePath =
     \<lparr>StorageNode.NodeType = Removed, Path = nodePath, NodeValue = [], LeafKey = []\<rparr>"

text \<open>The storage node on which a step stands is one whose removal is reported: a leaf
  whose key passes the filter of the watched storage keys, or an extension or a branch
  when intermediate storage nodes are asked for.\<close>

definition removal_reported :: "env \<Rightarrow> hash list \<Rightarrow> bool \<Rightarrow> IterStep \<Rightarrow> bool" where
  "removal_reported sdb watchedKeys intermediateNodes it \<longleftrightarrow>
     (case read_node sdb (it_Hash it) of
        Inl f \<Rightarrow> False
      | Inr (node, nodeElements, ty) \<Rightarrow>
          if ty = Leaf then
            (case leaf_key sdb (it_Path it) nodeElements of
               Inl f \<Rightarrow> False
             | Inr leafKey \<Rightarrow> isWatchedStorageKey watchedKeys leafKey)
          else (ty = Extension \<or> ty = Branch) \<and> intermediateNodes)"

text \<open>What pass 1 keeps of the example when only \<open>address3\<close> is watched.\<close>

definition example_watched_accounts :: AccountMap where
  "example_watched_accounts =
     [(Bytes2Hex leafKey3,
       leaf_wrapper [5] node_stateB_5 leafKey3
         \<lparr>Nonce = 0, Balance = 7, Root = emptyRoot, CodeHash = emptyCodeHash\<rparr>)]"

text \<open>Parameters that ask for everything, and the same with one watched address.\<close>

definition example_params :: Params where
  "example_params =
     \<lparr>IntermediateStateNodes = True, IntermediateStorageNodes = True,
      WatchedAddresses = [], WatchedStorageSlots = []\<rparr>"

definition example_params_watching :: Params where
  "example_params_watching =
     \<lparr>IntermediateStateNodes = True, IntermediateStorageNodes = True,
      WatchedAddresses = [address3], WatchedStorageSlots = []\<rparr>"

text \<open>The sink accepted each of the records \<open>ns\<close>, given to it one after the other after
  the records \<open>tr\<close>.\<close>

fun accepted :: "'n sink \<Rightarrow> 'n list \<Rightarrow> 'n list \<Rightarrow> bool" where
  "accepted output tr [] = True"
| "accepted output tr (n # ns) = (output tr n = None \<and> accepted output (tr @ [n]) ns)"

text \<open>How a run that starts after the records \<open>tr\<close> and ends with the records \<open>tr'\<close> and the
  result \<open>r\<close> treats the sink: either the sink accepted every record of the run, or it
  accepted all but the last, answered the last with an error \<open>e\<close>, and the result is the one
  that \<open>Q\<close> relates to \<open>e\<close>.\<close>

definition sink_run ::
  "(error \<Rightarrow> failure + 'a \<Rightarrow> bool) \<Rightarrow> 'n sink \<Rightarrow> 'n list \<Rightarrow> 'n list \<Rightarrow> failure + 'a \<Rightarrow> bool"
  where
  "sink_run Q output tr tr' r \<longleftrightarrow>
     (\<exists>ns. tr' = tr @ ns \<and>
        (accepted output tr ns \<or>
         (\<exists>ms n e. ns = ms @ [n] \<and> accepted output tr ms \<and> output (tr @ ms) n = Some e \<and>
            Q e r)))"

text \<open>The result is the sink's error as it is; the result is the sink's error inside one
  \<^verbatim>\<open>fmt.Errorf\<close> with one of the given prefixes.\<close>

definition returned_as_is :: "error \<Rightarrow> failure + 'a \<Rightarrow> bool" where
  "returned_as_is e r \<longleftrightarrow> r = Inl (Err e)"

definition returned_wrapped :: "string set \<Rightarrow> error \<Rightarrow> failure + 'a \<Rightarrow> bool" where
  "returned_wrapped ps e r \<longleftrightarrow> (\<exists>p\<in>ps. r = Inl (Err (Errorf p e)))"

text \<open>The prefixes with which the two \<^verbatim>\<open>buildStateDiff...\<close> functions wrap the errors of the
  passes that write to the sink.\<close>

definition pass_prefixes :: "string set" where
  "pass_prefixes =
     {''error collecting createdAndUpdatedNodes: '',
      ''error collecting deletedOrUpdatedNodes: '',
      ''error building diff for updated accounts: '',
      ''error building diff for created accounts: ''}"

text \<open>The roots of the example, the record of the root branch of state B, and a sink that
  takes one record and answers every later one with an error.\<close>

definition example_roots_AB :: StateRoots where
  "example_roots_AB = \<lparr>StateRoots.OldStateRoot = root_stateA, NewStateRoot = root_stateB\<rparr>"

definition example_roots_BC :: StateRoots where
  "example_roots_BC = \<lparr>StateRoots.OldStateRoot = root_stateB, NewStateRoot = root_stateC\<rparr>"

definition example_branch_B :: StateNode where
  "example_branch_B =
     \<lparr>StateNode.NodeType = Branch, Path = [], NodeValue = node_stateB_root, LeafKey = [],
      StorageNodes = []\<rparr>"

definition full_sink :: "StateNode sink" where
  "full_sink tr n = (if length tr < 1 then None else Some (Error ''sink full''))"

text \<open>An entry of an account map that is a leaf with a watched key.\<close>

definition watched_leaf :: "env \<Rightarrow> address list \<Rightarrow> accountWrapper \<Rightarrow> bool" where
  "watched_leaf sdb w v \<longleftrightarrow>
     accountWrapper.NodeType v = Leaf \<and> isWatchedAddress sdb w (accountWrapper.LeafKey v)"

text \<open>A record the sink may get when addresses are watched: not an extension, not a branch,
  and if a leaf then one with a watched key.\<close>

definition watched_record :: "env \<Rightarrow> address list \<Rightarrow> StateNode \<Rightarrow> bool" where
  "watched_record sdb w n \<longleftrightarrow>
     StateNode.NodeType n \<noteq> Extension \<and> StateNode.NodeType n \<noteq> Branch \<and>
     (StateNode.NodeType n = Leaf \<longrightarrow> isWatchedAddress sdb w (StateNode.LeafKey n))"

text \<open>The record that \<^verbatim>\<open>buildAccountUpdates\<close> and \<^verbatim>\<open>buildAccountCreations\<close> make of an entry of
  an account map and the storage diffs.\<close>

definition leaf_record :: "accountWrapper \<Rightarrow> StorageNode list \<Rightarrow> StateNode" where
  "leaf_record val storageDiffs =
     \<lparr>StateNode.NodeType = accountWrapper.NodeType val,
      Path = accountWrapper.Path val,
      NodeValue = accountWrapper.NodeValue val,
      LeafKey = accountWrapper.LeafKey val,
      StorageNodes = storageDiffs\<rparr>"

text \<open>The key under which the passes store a leaf is \<open>hex(leaf_key)\<close>.\<close>

definition keyed_by_leaf_key :: "AccountMap \<Rightarrow> bool" where
  "keyed_by_leaf_key m \<longleftrightarrow>
     (\<forall>kv\<in>set m. fst kv = Bytes2Hex (accountWrapper.LeafKey (snd kv)))"

definition hex_leaf_key :: "StateNode \<Rightarrow> string" where
  "hex_leaf_key n = Bytes2Hex (StateNode.LeafKey n)"

definition well_keyed :: "AccountMap \<Rightarrow> bool" where
  "well_keyed m \<longleftrightarrow> keyed_by_leaf_key m \<and> distinct (map fst m)"

text \<open>The account maps of the two passes between the states A and B of the example, and what
  \<^verbatim>\<open>buildAccountUpdates\<close> leaves of them.\<close>

definition example_accountsAtB :: AccountMap where
  "example_accountsAtB =
     [(Bytes2Hex leafKey1,
       leaf_wrapper [1] node_stateB_1 leafKey1
         \<lparr>Nonce = 1, Balance = 200, Root = root_storageB1, CodeHash = codeHash1\<rparr>),
      (Bytes2Hex leafKey3,
       leaf_wrapper [5] node_stateB_5 leafKey3
         \<lparr>Nonce = 0, Balance = 7, Root = emptyRoot, CodeHash = emptyCodeHash\<rparr>),
      (Bytes2Hex leafKey4,
       leaf_wrapper [10] node_stateB_a leafKey4
         \<lparr>Nonce = 1, Balance = 0, Root = root_storage4, CodeHash = codeHash4\<rparr>)]"

definition example_accountsAtA :: AccountMap where
  "example_accountsAtA =
     [(Bytes2Hex leafKey1,
       leaf_wrapper [1] node_stateA_1 leafKey1
         \<lparr>Nonce = 1, Balance = 100, Root = root_storageA1, CodeHash = codeHash1\<rparr>),
      (Bytes2Hex leafKey2,
       leaf_wrapper [13] node_stateA_d leafKey2
         \<lparr>Nonce = 0, Balance = 50, Root = emptyRoot, CodeHash = emptyCodeHash\<rparr>)]"

definition example_created :: AccountMap where
  "example_created = tl example_accountsAtB"

definition example_deleted :: AccountMap where
  "example_deleted = tl example_accountsAtA"

text \<open>What \<^verbatim>\<open>buildAccountCreations\<close> makes of one entry of the map: the storage nodes are
  those of the walk over the storage trie only for an account with code, and so is the
  code entry.\<close>

definition created_storage :: "env \<Rightarrow> hash list \<Rightarrow> bool \<Rightarrow> Account \<Rightarrow> StorageNode list" where
  "created_storage sdb watchedStorageKeys intermediateStorageNodes account =
     (if CodeHash account \<noteq> nullCodeHash sdb
      then fst (buildStorageNodesEventual sdb (Root account) watchedStorageKeys
                  intermediateStorageNodes storageNodeAppender [])
      else [])"

definition created_record :: "env \<Rightarrow> hash list \<Rightarrow> bool \<Rightarrow> accountWrapper \<Rightarrow> StateNode" where
  "created_record sdb watchedStorageKeys intermediateStorageNodes val =
     leaf_record val
       (case accountWrapper.Account val of
          None \<Rightarrow> []
        | Some account \<Rightarrow>
            created_storage sdb watchedStorageKeys intermediateStorageNodes account)"

definition created_code :: "env \<Rightarrow> accountWrapper \<Rightarrow> CodeAndCodeHash list" where
  "created_code sdb val =
     (case accountWrapper.Account val of
        None \<Rightarrow> []
      | Some account \<Rightarrow>
          if CodeHash account \<noteq> nullCodeHash sdb then
            (case ContractCode sdb zero_Hash (BytesToHash (CodeHash account)) of
               Inl e \<Rightarrow> []
             | Inr code \<Rightarrow> [\<lparr>Hash = BytesToHash (CodeHash account), Code = code\<rparr>])
          else [])"

text \<open>The records of the example between the states B and C: the root branch of C and the
  leaf of the account created at \<open>address6\<close>, which has no code and a storage trie; and the
  one leaf of that storage trie.\<close>

definition example_branch_C :: StateNode where
  "example_branch_C =
     \<lparr>StateNode.NodeType = Branch, Path = [], NodeValue = node_stateC_root, LeafKey = [],
      StorageNodes = []\<rparr>"

definition example_account6 :: Account where
  "example_account6 =
     \<lparr>Nonce = 0, Balance = 1, Root = root_storage4, CodeHash = emptyCodeHash\<rparr>"

definition example_leaf6 :: StateNode where
  "example_leaf6 =
     \<lparr>StateNode.NodeType = Leaf, Path = [6], NodeValue = node_stateC_6, LeafKey = leafKey6,
      StorageNodes = []\<rparr>"

definition example_storage_leaf :: StorageNode where
  "example_storage_leaf =
     \<lparr>StorageNode.NodeType = Leaf, Path = [], NodeValue = node_storage4_root,
      LeafKey = slotKey0\<rparr>"

text \<open>The step of the iterator of state B on the leaf of \<open>address4\<close>, which is not watched.\<close>

definition example_step_4 :: IterStep where
  "example_step_4 =
     \<lparr>it_Leaf = False, it_Hash = hash_stateB_a, it_Path = [10], it_Blob = node_stateB_a\<rparr>"

section \<open>Properties\<close>

subsection \<open>What a loop writes\<close>

lemma for_each_out_trace:
  assumes body: "\<forall>x s tr. fst (body x s tr) = tr @ g x"
  shows "for_each_out body xs s tr = (tr', r) \<Longrightarrow>
         \<exists>n\<le>length xs. tr' = tr @ concat (map g (take n xs)) \<and> (\<forall>v. r = Inr v \<longrightarrow> n = length xs)"
proof (induction xs arbitrary: s tr)
  case Nil
  then show ?case by auto
next
  case (Cons x xs)
  obtain t1 r1 where b: "body x s tr = (t1, r1)" by (cases "body x s tr")
  have t1: "t1 = tr @ g x" using body b by (metis fst_conv)
  show ?case
  proof (cases r1)
    case (Inl f)
    with Cons.prems b have "tr' = t1" "r = Inl f" by auto
    with t1 have "tr' = tr @ concat (map g (take 1 (x # xs)))" by simp
    with \<open>r = Inl f\<close> show ?thesis
      by (intro exI[of _ 1]) auto
  next
    case (Inr s1)
    with Cons.prems b have "for_each_out body xs s1 t1 = (tr', r)" by simp
    from Cons.IH[OF this] obtain n where n: "n \<le> length xs"
      "tr' = t1 @ concat (map g (take n xs))" "\<forall>v. r = Inr v \<longrightarrow> n = length xs" by blast
    show ?thesis using n t1
      by (intro exI[of _ "Suc n"]) auto
  qed
qed

lemma emit_trace: "fst (emit output n tr) = tr @ [n]"
  by (simp add: emit_def)

lemma deletedOrUpdatedState_body_trace:
  "fst (deletedOrUpdatedState_body sdb P output it accs tr) =
     tr @ (if absent_at_B P it then [removed_StateNode (it_Path it)] else [])"
  unfolding deletedOrUpdatedState_body_def absent_at_B_def structural_def Let_def
  by (auto simp: emit_def split: if_splits prod.splits sum.splits option.splits)

lemma concat_map_if:
  "concat (map (\<lambda>x. if P x then [f x] else []) xs) = map f (filter P xs)"
  by (induction xs) auto

subsection \<open>Pass 2 writes the removed paths\<close>

lemma deletedOrUpdatedState_writes:
  assumes "deletedOrUpdatedState sdb a b diffPathsAtB output tr = (tr', r)"
  shows "\<exists>n\<le>length (it_steps (NewDifferenceIterator b a)).
           tr' = tr @ map (\<lambda>it. removed_StateNode (it_Path it))
                        (filter (absent_at_B diffPathsAtB)
                           (take n (it_steps (NewDifferenceIterator b a)))) \<and>
           (\<forall>diffAccountAtA. r = Inr diffAccountAtA
              \<longrightarrow> n = length (it_steps (NewDifferenceIterator b a)))"
proof -
  let ?steps = "it_steps (NewDifferenceIterator b a)"
  let ?g = "\<lambda>it. if absent_at_B diffPathsAtB it then [removed_StateNode (it_Path it)] else []"
  obtain t1 r1 where run:
    "for_each_out (deletedOrUpdatedState_body sdb diffPathsAtB output) ?steps [] tr = (t1, r1)"
    by (cases "for_each_out (deletedOrUpdatedState_body sdb diffPathsAtB output) ?steps [] tr")
  have bt: "\<forall>x s tr. fst (deletedOrUpdatedState_body sdb diffPathsAtB output x s tr) = tr @ ?g x"
    by (simp add: deletedOrUpdatedState_body_trace)
  from for_each_out_trace[OF bt run]
  obtain n where n: "n \<le> length ?steps"
    "t1 = tr @ map (\<lambda>it. removed_StateNode (it_Path it)) (filter (absent_at_B diffPathsAtB) (take n ?steps))"
    "\<forall>v. r1 = Inr v \<longrightarrow> n = length ?steps"
    by (auto simp: concat_map_if)
  have "tr' = t1" "\<forall>v. r = Inr v \<longrightarrow> (\<exists>w. r1 = Inr w)"
    using assms run unfolding deletedOrUpdatedState_def Let_def iterator_error_def
    by (auto split: sum.splits option.splits)
  with n show ?thesis by blast
qed

text \<open>
  Claim C1. In pass 2 (\<^verbatim>\<open>deletedOrUpdatedState\<close>), every step of the difference iterator of
  the new trie against the old one that the loop takes, that is not a value and whose hash
  is not the zero hash, gives exactly one \<open>Removed\<close> record with the step's path and an
  empty value when the path is not a key of \<^verbatim>\<open>diffPathsAtB\<close>, whatever the type of the node
  (the record is written before the node is read), and no record when the path is a key.
  The records are written in the order of the steps, and a run that returns without error
  has taken every step.
\<close>

theorem deletedOrUpdatedState_removed:
  assumes "deletedOrUpdatedState sdb a b diffPathsAtB output tr = (tr', r)"
  shows "\<exists>n\<le>length (it_steps (NewDifferenceIterator b a)).
           tr' = tr @ map (\<lambda>it. removed_StateNode (it_Path it))
                        (filter (absent_at_B diffPathsAtB)
                           (take n (it_steps (NewDifferenceIterator b a)))) \<and>
           (\<forall>diffAccountAtA. r = Inr diffAccountAtA
              \<longrightarrow> n = length (it_steps (NewDifferenceIterator b a)))"
  using deletedOrUpdatedState_writes[OF assms] .

subsection \<open>The old side of an incremental storage diff\<close>

lemma deletedOrUpdatedStorage_body_trace:
  "fst (deletedOrUpdatedStorage_body sdb P watchedKeys intermediateNodes output it u tr) =
     tr @ (if absent_at_B P it \<and> removal_reported sdb watchedKeys intermediateNodes it
           then [removed_StorageNode (it_Path it)] else [])"
  unfolding deletedOrUpdatedStorage_body_def absent_at_B_def structural_def Let_def
    removal_reported_def removed_StorageNode_def
  by (auto simp: emit_def split: if_splits prod.splits sum.splits option.splits)

text \<open>
  Claim C6. In the pass over the old side of an incremental storage diff
  (\<^verbatim>\<open>deletedOrUpdatedStorage\<close>), a step the loop takes, that is not a value, whose hash is not
  the zero hash and whose path is not a key of \<^verbatim>\<open>diffPathsAtB\<close>, gives a \<open>Removed\<close> storage
  record with an empty value exactly when its node is a leaf whose key passes the filter of
  the watched storage keys (every key passes an empty filter), or an extension or a branch
  and intermediate storage nodes are asked for; a step whose path is a key gives nothing.
  The records are in the order of the steps; a run that returns without error has taken
  every step.
\<close>

theorem deletedOrUpdatedStorage_removed:
  assumes "deletedOrUpdatedStorage sdb a b diffPathsAtB watchedKeys intermediateNodes output tr
             = (tr', r)"
  shows "\<exists>n\<le>length (it_steps (NewDifferenceIterator b a)).
           tr' = tr @ map (\<lambda>it. removed_StorageNode (it_Path it))
                        (filter (\<lambda>it. absent_at_B diffPathsAtB it \<and>
                                      removal_reported sdb watchedKeys intermediateNodes it)
                           (take n (it_steps (NewDifferenceIterator b a)))) \<and>
           (r = Inr () \<longrightarrow> n = length (it_steps (NewDifferenceIterator b a)))"
proof -
  let ?steps = "it_steps (NewDifferenceIterator b a)"
  let ?body = "deletedOrUpdatedStorage_body sdb diffPathsAtB watchedKeys intermediateNodes output"
  let ?P = "\<lambda>it. absent_at_B diffPathsAtB it \<and> removal_reported sdb watchedKeys intermediateNodes it"
  let ?g = "\<lambda>it. if ?P it then [removed_StorageNode (it_Path it)] else []"
  obtain t1 r1 where run: "for_each_out ?body ?steps () tr = (t1, r1)"
    by (cases "for_each_out ?body ?steps () tr")
  have bt: "\<forall>x s tr. fst (?body x s tr) = tr @ ?g x"
    by (simp add: deletedOrUpdatedStorage_body_trace)
  from for_each_out_trace[OF bt run]
  obtain n where n: "n \<le> length ?steps"
    "t1 = tr @ map (\<lambda>it. removed_StorageNode (it_Path it)) (filter ?P (take n ?steps))"
    "\<forall>v. r1 = Inr v \<longrightarrow> n = length ?steps"
    by (auto simp: concat_map_if)
  have "tr' = t1" "r = Inr () \<longrightarrow> (\<exists>w. r1 = Inr w)"
    using assms run unfolding deletedOrUpdatedStorage_def Let_def iterator_error_def
    by (auto split: sum.splits option.splits)
  with n show ?thesis by blast
qed

subsection \<open>Pass 1 records every path\<close>

lemma createdAndUpdatedState_body_paths:
  assumes "createdAndUpdatedState_body sdb w it s = Inr s'"
  shows "(\<forall>k. map_of (snd s) k = Some True \<longrightarrow> map_of (snd s') k = Some True) \<and>
         (structural it \<longrightarrow> map_of (snd s') (Bytes2Hex (it_Path it)) = Some True)"
  using assms
  unfolding createdAndUpdatedState_body_def structural_def Let_def
  by (auto simp: update_conv' split: if_splits prod.splits sum.splits)

lemma createdAndUpdatedState_loop_paths:
  "for_each (createdAndUpdatedState_body sdb w) xs s = Inr s' \<Longrightarrow>
     (\<forall>k. map_of (snd s) k = Some True \<longrightarrow> map_of (snd s') k = Some True) \<and>
     (\<forall>it\<in>set xs. structural it \<longrightarrow> map_of (snd s') (Bytes2Hex (it_Path it)) = Some True)"
proof (induction xs arbitrary: s)
  case Nil
  then show ?case by simp
next
  case (Cons x xs)
  from Cons.prems obtain s1 where b: "createdAndUpdatedState_body sdb w x s = Inr s1"
    and rest: "for_each (createdAndUpdatedState_body sdb w) xs s1 = Inr s'"
    by (auto split: sum.splits)
  from createdAndUpdatedState_body_paths[OF b] Cons.IH[OF rest]
  show ?case by auto
qed

text \<open>
  Claim C10. When pass 1 without intermediate nodes (\<^verbatim>\<open>createdAndUpdatedState\<close>) returns,
  whatever the list of watched addresses, the path of every step that is not a value and
  whose hash is not the zero hash is a key of \<^verbatim>\<open>diffPathsAtB\<close>, also the path of a leaf that
  the watch filter kept out of \<^verbatim>\<open>diffAccountsAtB\<close>. Hence pass 2, run with these paths,
  writes only \<open>Removed\<close> records, and none for a path at which the new trie holds a changed
  node.
\<close>

theorem watch_filter_keeps_paths:
  assumes "createdAndUpdatedState sdb a b watchedAddresses = Inr (diffAccountsAtB, diffPathsAtB)"
  shows "(\<forall>it\<in>set (it_steps (NewDifferenceIterator a b)).
            structural it \<longrightarrow> map_of diffPathsAtB (Bytes2Hex (it_Path it)) = Some True) \<and>
         (\<forall>output tr.
            \<forall>n\<in>set (drop (length tr)
                         (fst (deletedOrUpdatedState sdb a b diffPathsAtB output tr))).
              StateNode.NodeType n = Removed \<and>
              \<not> (\<exists>it\<in>set (it_steps (NewDifferenceIterator a b)).
                    structural it \<and> it_Path it = StateNode.Path n))"
proof -
  let ?steps = "it_steps (NewDifferenceIterator a b)"
  from assms obtain s' where
    loop: "for_each (createdAndUpdatedState_body sdb watchedAddresses) ?steps ([], []) = Inr s'"
    and s': "s' = (diffAccountsAtB, diffPathsAtB)"
    unfolding createdAndUpdatedState_def Let_def iterator_error_def
    by (auto split: sum.splits option.splits)
  from createdAndUpdatedState_loop_paths[OF loop] s'
  have paths: "\<forall>it\<in>set ?steps. structural it \<longrightarrow>
                 map_of diffPathsAtB (Bytes2Hex (it_Path it)) = Some True"
    by simp
  have "StateNode.NodeType n = Removed \<and>
        \<not> (\<exists>it\<in>set ?steps. structural it \<and> it_Path it = StateNode.Path n)"
    if n: "n \<in> set (drop (length tr) (fst (deletedOrUpdatedState sdb a b diffPathsAtB out tr)))"
    for out tr n
  proof -
    obtain tr' r where run: "deletedOrUpdatedState sdb a b diffPathsAtB out tr = (tr', r)"
      by (cases "deletedOrUpdatedState sdb a b diffPathsAtB out tr")
    from deletedOrUpdatedState_writes[OF run] obtain k where
      "tr' = tr @ map (\<lambda>it. removed_StateNode (it_Path it))
                   (filter (absent_at_B diffPathsAtB) (take k (it_steps (NewDifferenceIterator b a))))"
      by blast
    with n run obtain it where it: "absent_at_B diffPathsAtB it" "n = removed_StateNode (it_Path it)"
      by auto
    then have "map_of diffPathsAtB (Bytes2Hex (StateNode.Path n)) = None"
      by (simp add: absent_at_B_def removed_StateNode_def)
    with paths it show ?thesis by (auto simp: removed_StateNode_def)
  qed
  with paths show ?thesis by blast
qed


subsection \<open>An error comes with the zero object\<close>

text \<open>
  Claim C8. When \<^verbatim>\<open>BuildStateDiffObject\<close> returns an error, whatever its kind, the
  \<^verbatim>\<open>StateObject\<close> it returns with it is the zero value: no nodes, no code and code hash
  entries, no block number and the zero block hash.
\<close>

theorem BuildStateDiffObject_error_is_empty:
  assumes "BuildStateDiffObject sdb args params = Inr (obj, Some err)"
  shows "obj = zero_StateObject \<and> Nodes obj = [] \<and> CodeAndCodeHashes obj = [] \<and>
         StateObject.BlockNumber obj = None \<and> StateObject.BlockHash obj = zero_Hash"
  using assms
  unfolding BuildStateDiffObject_def zero_StateObject_def
  by (auto split: prod.splits sum.splits failure.splits)

subsection \<open>Equal roots\<close>

lemma difference_of_equal_iterators [simp]: "it_steps (NewDifferenceIterator a a) = []"
proof -
  have "same_node n n" for n by (simp add: same_node_def)
  then have "list_ex (\<lambda>m. same_node m n) (it_steps a)" if "n \<in> set (it_steps a)" for n
    using that by (auto simp: list_ex_iff)
  then show ?thesis
    by (simp add: NewDifferenceIterator_def filter_empty_conv)
qed

lemma difference_of_equal_iterators_error [simp]:
  "it_Error (NewDifferenceIterator a a) = it_Error a"
  by (simp add: NewDifferenceIterator_def split: option.splits)

lemma reconcile_empty:
  "reconcile sdb params [] [] output tr = (tr, Inr [])"
  by (simp add: reconcile_def sortKeys_def findIntersection_def buildAccountUpdates_def
      buildAccountCreations_def map_range_def)

lemma createdAndUpdatedState_equal:
  "createdAndUpdatedState sdb a a w = Inr s \<Longrightarrow> s = ([], [])"
  "createdAndUpdatedState sdb a a w = Inl f \<Longrightarrow> \<exists>e. f = Err e"
  "it_Error a = None \<Longrightarrow> createdAndUpdatedState sdb a a w = Inr ([], [])"
  by (auto simp: createdAndUpdatedState_def iterator_error_def Let_def
      split: option.splits)

lemma createdAndUpdatedStateWithIntermediateNodes_equal:
  "createdAndUpdatedStateWithIntermediateNodes sdb a a output tr =
     (tr, case it_Error a of Some e \<Rightarrow> Inl (Err e) | None \<Rightarrow> Inr ([], []))"
  by (auto simp: createdAndUpdatedStateWithIntermediateNodes_def iterator_error_def
      Let_def split: option.splits)

lemma deletedOrUpdatedState_equal:
  "deletedOrUpdatedState sdb a a P output tr =
     (tr, case it_Error a of Some e \<Rightarrow> Inl (Err e) | None \<Rightarrow> Inr [])"
  by (auto simp: deletedOrUpdatedState_def iterator_error_def
      Let_def split: option.splits)

lemma buildStateDiffWithout_equal:
  "buildStateDiffWithoutIntermediateStateNodes sdb
      \<lparr>StateRoots.OldStateRoot = R, NewStateRoot = R\<rparr> params output tr =
   (tr, case OpenTrie sdb R of
          Inl e \<Rightarrow> Inl (Err (Errorf ''error creating trie for oldStateRoot: '' e))
        | Inr it \<Rightarrow>
            (case it_Error it of
               Some e \<Rightarrow> Inl (Err (Errorf ''error collecting createdAndUpdatedNodes: '' e))
             | None \<Rightarrow> Inr []))"
  by (auto simp: buildStateDiffWithoutIntermediateStateNodes_def createdAndUpdatedState_def
      iterator_error_def Let_def deletedOrUpdatedState_equal reconcile_empty
      split: sum.splits option.splits)

lemma buildStateDiffWith_equal:
  "buildStateDiffWithIntermediateStateNodes sdb
      \<lparr>StateRoots.OldStateRoot = R, NewStateRoot = R\<rparr> params output tr =
   (tr, case OpenTrie sdb R of
          Inl e \<Rightarrow> Inl (Err (Errorf ''error creating trie for oldStateRoot: '' e))
        | Inr it \<Rightarrow>
            (case it_Error it of
               Some e \<Rightarrow> Inl (Err (Errorf ''error collecting createdAndUpdatedNodes: '' e))
             | None \<Rightarrow> Inr []))"
  by (auto simp: buildStateDiffWithIntermediateStateNodes_def
      createdAndUpdatedStateWithIntermediateNodes_equal
      deletedOrUpdatedState_equal reconcile_empty
      split: sum.splits option.splits)

text \<open>
  Claim C5. For every root \<open>R\<close> and every \<open>params\<close>, \<^verbatim>\<open>WriteStateDiffObject\<close> with the old
  and the new root both \<open>R\<close> gives no record to the sink, and returns either the empty list
  of code and code hash entries, or an error (with which Go returns the nil list); it
  returns the empty list without error when the trie at \<open>R\<close> opens and its iterator ends
  without error.
\<close>

theorem equal_roots_no_diff:
  "fst (WriteStateDiffObject sdb \<lparr>StateRoots.OldStateRoot = R, NewStateRoot = R\<rparr>
          params output) = [] \<and>
   (snd (WriteStateDiffObject sdb \<lparr>StateRoots.OldStateRoot = R, NewStateRoot = R\<rparr>
           params output) = Inr [] \<or>
    (\<exists>e. snd (WriteStateDiffObject sdb \<lparr>StateRoots.OldStateRoot = R, NewStateRoot = R\<rparr>
                params output) = Inl (Err e))) \<and>
   (\<forall>it. OpenTrie sdb R = Inr it \<and> it_Error it = None \<longrightarrow>
      snd (WriteStateDiffObject sdb \<lparr>StateRoots.OldStateRoot = R, NewStateRoot = R\<rparr>
             params output) = Inr [])"
  unfolding WriteStateDiffObject_def
  by (auto simp: buildStateDiffWithout_equal buildStateDiffWith_equal
      split: sum.splits option.splits)


subsection \<open>How the passes treat the sink\<close>

lemma accepted_append:
  "accepted output tr (xs @ ys) \<longleftrightarrow> accepted output tr xs \<and> accepted output (tr @ xs) ys"
  by (induction xs arbitrary: tr) auto

lemma sink_run_same: "sink_run Q output tr tr r"
  unfolding sink_run_def by (intro exI[of _ "[]"]) simp

lemma sink_run_accept: "output tr n = None \<Longrightarrow> sink_run Q output tr (tr @ [n]) r"
  unfolding sink_run_def by (intro exI[of _ "[n]"]) simp

lemma sink_run_reject:
  "output tr n = Some e \<Longrightarrow> Q e r \<Longrightarrow> sink_run Q output tr (tr @ [n]) r"
  unfolding sink_run_def
  by (intro exI[of _ "[n]"] conjI disjI2 exI[of _ "[]"] exI[of _ n] exI[of _ e]) simp_all

lemma sink_run_emit:
  "emit output n tr = (tr', r) \<Longrightarrow> sink_run returned_as_is output tr tr' r"
  by (auto simp: emit_def returned_as_is_def split: option.splits
      intro: sink_run_accept sink_run_reject)

lemma sink_run_Inr:
  assumes "sink_run Q output tr tr' (Inr v)" and "\<And>e. \<not> Q e (Inr v)"
  shows "\<exists>ns. tr' = tr @ ns \<and> accepted output tr ns"
  using assms unfolding sink_run_def by blast

lemma sink_run_Inr_any:
  assumes "sink_run Q output tr tr' (Inr v)" and "\<And>e. \<not> Q e (Inr v)"
  shows "sink_run Q' output tr tr' r'"
  using sink_run_Inr[OF assms] unfolding sink_run_def by blast

lemma sink_run_trans:
  assumes 1: "sink_run Q output tr t1 (Inr v)" and nq: "\<And>e. \<not> Q e (Inr v)"
    and 2: "sink_run Q' output t1 t2 r"
  shows "sink_run Q' output tr t2 r"
proof -
  from sink_run_Inr[OF 1 nq] obtain ns1 where ns1: "t1 = tr @ ns1" "accepted output tr ns1"
    by blast
  from 2 obtain ns2 where ns2: "t2 = t1 @ ns2"
    and alt: "accepted output t1 ns2 \<or>
         (\<exists>ms n e. ns2 = ms @ [n] \<and> accepted output t1 ms \<and> output (t1 @ ms) n = Some e \<and> Q' e r)"
    unfolding sink_run_def by blast
  from alt show ?thesis
  proof
    assume "accepted output t1 ns2"
    with ns1 ns2 have "t2 = tr @ (ns1 @ ns2)" "accepted output tr (ns1 @ ns2)"
      by (simp_all add: accepted_append)
    then show ?thesis unfolding sink_run_def by blast
  next
    assume "\<exists>ms n e. ns2 = ms @ [n] \<and> accepted output t1 ms \<and> output (t1 @ ms) n = Some e \<and> Q' e r"
    then obtain ms n e where r: "ns2 = ms @ [n]" "accepted output t1 ms"
      "output (t1 @ ms) n = Some e" "Q' e r" by blast
    with ns1 ns2 have "t2 = tr @ ((ns1 @ ms) @ [n])" "accepted output tr (ns1 @ ms)"
      "output (tr @ (ns1 @ ms)) n = Some e"
      by (simp_all add: accepted_append)
    with r(4) show ?thesis unfolding sink_run_def by blast
  qed
qed

lemma not_as_is_Inr [simp]: "\<not> returned_as_is e (Inr v)"
  by (simp add: returned_as_is_def)

lemma not_wrapped_Inr [simp]: "\<not> returned_wrapped ps e (Inr v)"
  by (simp add: returned_wrapped_def)

lemma sink_run_wrap:
  assumes "sink_run returned_as_is output tr tr' (Inl f)" and "p \<in> ps"
  shows "sink_run (returned_wrapped ps) output tr tr' (Inl (wrapf p f))"
  using assms unfolding sink_run_def returned_as_is_def returned_wrapped_def
  by (elim exE conjE disjE) (fastforce+)

lemma for_each_out_sink_run:
  assumes body: "\<forall>x s tr. sink_run returned_as_is output tr (fst (body x s tr)) (snd (body x s tr))"
  shows "sink_run returned_as_is output tr (fst (for_each_out body xs s tr))
           (snd (for_each_out body xs s tr))"
proof (induction xs arbitrary: s tr)
  case Nil
  show ?case by (simp add: sink_run_same)
next
  case (Cons x xs)
  obtain t1 r1 where b: "body x s tr = (t1, r1)" by (cases "body x s tr")
  from body b have 1: "sink_run returned_as_is output tr t1 r1" by (metis fst_conv snd_conv)
  show ?case
  proof (cases r1)
    case (Inl f)
    with b 1 show ?thesis by simp
  next
    case (Inr s1)
    with b have eq: "for_each_out body (x # xs) s tr = for_each_out body xs s1 t1" by simp
    from 1 Inr have "sink_run returned_as_is output tr t1 (Inr s1)" by simp
    from sink_run_trans[OF this _ Cons.IH[of t1 s1]]
    have "sink_run returned_as_is output tr (fst (for_each_out body xs s1 t1))
           (snd (for_each_out body xs s1 t1))"
      by simp
    then show ?thesis
      unfolding eq .
  qed
qed

lemma sink_run_first_error:
  assumes run: "sink_run Q output [] tr r"
    and tr: "tr = pre @ n # post" and e: "output pre n = Some e"
  shows "post = [] \<and> Q e r"
proof -
  have none: "output pre n = None" if "accepted output [] (pre @ n # rest)" for rest
    using that by (simp add: accepted_append)
  from run obtain ns where ns: "tr = ns"
    and alt: "accepted output [] ns \<or>
         (\<exists>ms m e'. ns = ms @ [m] \<and> accepted output [] ms \<and> output ([] @ ms) m = Some e' \<and> Q e' r)"
    unfolding sink_run_def by auto
  from alt show ?thesis
  proof
    assume "accepted output [] ns"
    with ns tr none e show ?thesis by auto
  next
    assume "\<exists>ms m e'. ns = ms @ [m] \<and> accepted output [] ms \<and> output ([] @ ms) m = Some e' \<and> Q e' r"
    then obtain ms m e' where r: "ns = ms @ [m]" "accepted output [] ms"
      "output ms m = Some e'" "Q e' r" by auto
    show ?thesis
    proof (cases post rule: rev_cases)
      case Nil
      with r ns tr have "ms = pre" "m = n" by auto
      with r e Nil show ?thesis by simp
    next
      case (snoc post' l)
      with r ns tr have "ms = pre @ n # post'" by auto
      with r(2) none e show ?thesis by auto
    qed
  qed
qed


lemma sink_run_emit':
  "sink_run returned_as_is output tr (fst (emit output n tr)) (snd (emit output n tr))"
  by (rule sink_run_emit) simp

lemma sink_run_emit_then:
  "sink_run returned_as_is output tr
     (fst (case emit output n tr of (tr', Inl f) \<Rightarrow> (tr', Inl f) | (tr', Inr u) \<Rightarrow> (tr', g tr' u)))
     (snd (case emit output n tr of (tr', Inl f) \<Rightarrow> (tr', Inl f) | (tr', Inr u) \<Rightarrow> (tr', g tr' u)))"
  by (auto simp: emit_def returned_as_is_def split: option.splits
      intro: sink_run_accept sink_run_reject)

lemma body1_sink:
  "sink_run returned_as_is output tr
     (fst (createdAndUpdatedStateWithIntermediateNodes_body sdb output it s tr))
     (snd (createdAndUpdatedStateWithIntermediateNodes_body sdb output it s tr))"
  unfolding createdAndUpdatedStateWithIntermediateNodes_body_def Let_def
  by (auto simp: emit_def returned_as_is_def split: option.splits sum.splits prod.splits
      intro: sink_run_accept sink_run_reject sink_run_same)

lemma body2_sink:
  "sink_run returned_as_is output tr
     (fst (deletedOrUpdatedState_body sdb P output it s tr))
     (snd (deletedOrUpdatedState_body sdb P output it s tr))"
  unfolding deletedOrUpdatedState_body_def Let_def
  by (auto simp: emit_def returned_as_is_def split: option.splits sum.splits prod.splits
      intro: sink_run_accept sink_run_reject sink_run_same)

lemma body3_sink:
  "sink_run returned_as_is output tr
     (fst (buildAccountUpdates_body sdb wk im output key s tr))
     (snd (buildAccountUpdates_body sdb wk im output key s tr))"
  unfolding buildAccountUpdates_body_def Let_def
  by (auto simp: emit_def returned_as_is_def split: option.splits sum.splits prod.splits
      intro: sink_run_accept sink_run_reject sink_run_same)

lemma body4_sink:
  "sink_run returned_as_is output tr
     (fst (buildAccountCreations_body sdb wk im output val s tr))
     (snd (buildAccountCreations_body sdb wk im output val s tr))"
  unfolding buildAccountCreations_body_def Let_def
  by (auto simp: emit_def returned_as_is_def split: option.splits sum.splits prod.splits if_splits
      intro: sink_run_accept sink_run_reject sink_run_same)


lemma sink_run_Inl_retype:
  assumes "sink_run returned_as_is output tr tr' (Inl f :: failure + 'a)"
  shows "sink_run returned_as_is output tr tr' (Inl f :: failure + 'b)"
  using assms unfolding sink_run_def returned_as_is_def by auto

lemma sink_run_then:
  assumes "sink_run returned_as_is output tr (fst L) (snd L)"
  shows "sink_run returned_as_is output tr
           (fst (case L of (tr', Inl f) \<Rightarrow> (tr', Inl f) | (tr', Inr s) \<Rightarrow> (tr', h s)))
           (snd (case L of (tr', Inl f) \<Rightarrow> (tr', Inl f) | (tr', Inr s) \<Rightarrow> (tr', h s)))"
proof (cases L)
  case (Pair t1 r1)
  show ?thesis
  proof (cases r1)
    case (Inl f)
    with Pair assms show ?thesis by (auto intro: sink_run_Inl_retype)
  next
    case (Inr s1)
    with Pair assms have "sink_run returned_as_is output tr t1 (Inr s1)" by simp
    from sink_run_Inr_any[OF this] Pair Inr show ?thesis by simp
  qed
qed

lemma pass1_sink:
  assumes "createdAndUpdatedStateWithIntermediateNodes sdb a b output tr = (tr', r)"
  shows "sink_run returned_as_is output tr tr' r"
proof -
  let ?L = "for_each_out (createdAndUpdatedStateWithIntermediateNodes_body sdb output)
              (it_steps (NewDifferenceIterator a b)) ([], []) tr"
  have "sink_run returned_as_is output tr (fst ?L) (snd ?L)"
    by (rule for_each_out_sink_run) (simp add: body1_sink)
  from sink_run_then[OF this, of "iterator_error (NewDifferenceIterator a b)"] assms
  show ?thesis
    by (simp add: createdAndUpdatedStateWithIntermediateNodes_def Let_def)
qed

lemma pass2_sink:
  assumes "deletedOrUpdatedState sdb a b P output tr = (tr', r)"
  shows "sink_run returned_as_is output tr tr' r"
proof -
  let ?L = "for_each_out (deletedOrUpdatedState_body sdb P output)
              (it_steps (NewDifferenceIterator b a)) [] tr"
  have "sink_run returned_as_is output tr (fst ?L) (snd ?L)"
    by (rule for_each_out_sink_run) (simp add: body2_sink)
  from sink_run_then[OF this, of "iterator_error (NewDifferenceIterator b a)"] assms
  show ?thesis
    by (simp add: deletedOrUpdatedState_def Let_def)
qed

lemma updates_sink:
  assumes "buildAccountUpdates sdb c d ks wk im output tr = (tr', r)"
  shows "sink_run returned_as_is output tr tr' r"
proof -
  let ?L = "for_each_out (buildAccountUpdates_body sdb wk im output) ks (c, d) tr"
  have "sink_run returned_as_is output tr (fst ?L) (snd ?L)"
    by (rule for_each_out_sink_run) (simp add: body3_sink)
  with assms show ?thesis by (simp add: buildAccountUpdates_def)
qed

lemma creations_sink:
  assumes "buildAccountCreations sdb accounts wk im output tr = (tr', r)"
  shows "sink_run returned_as_is output tr tr' r"
proof -
  let ?L = "for_each_out (buildAccountCreations_body sdb wk im output)
              (map snd (map_range sdb accounts)) [] tr"
  have "sink_run returned_as_is output tr (fst ?L) (snd ?L)"
    by (rule for_each_out_sink_run) (simp add: body4_sink)
  with assms show ?thesis by (simp add: buildAccountCreations_def)
qed

lemma prefixes [simp]:
  "''error collecting createdAndUpdatedNodes: '' \<in> pass_prefixes"
  "''error collecting deletedOrUpdatedNodes: '' \<in> pass_prefixes"
  "''error building diff for updated accounts: '' \<in> pass_prefixes"
  "''error building diff for created accounts: '' \<in> pass_prefixes"
  by (simp_all add: pass_prefixes_def)

lemma reconcile_sink:
  assumes "reconcile sdb params accB accA output tr = (tr', r)"
  shows "sink_run (returned_wrapped pass_prefixes) output tr tr' r"
proof -
  let ?ks = "findIntersection (sortKeys accB) (sortKeys accA)"
  obtain t1 r1 where u: "buildAccountUpdates sdb accB accA ?ks (WatchedStorageSlots params)
      (IntermediateStorageNodes params) output tr = (t1, r1)"
    by (cases "buildAccountUpdates sdb accB accA ?ks (WatchedStorageSlots params)
      (IntermediateStorageNodes params) output tr")
  note s1 = updates_sink[OF u]
  show ?thesis
  proof (cases r1)
    case (Inl f)
    with assms u have "tr' = t1" "r = Inl (wrapf ''error building diff for updated accounts: '' f)"
      by (simp_all add: reconcile_def Let_def)
    with s1 Inl show ?thesis by (simp add: sink_run_wrap)
  next
    case (Inr cd)
    obtain c d where cd: "cd = (c, d)" by (cases cd)
    obtain t2 r2 where cr: "buildAccountCreations sdb c (WatchedStorageSlots params)
        (IntermediateStorageNodes params) output t1 = (t2, r2)"
      by (cases "buildAccountCreations sdb c (WatchedStorageSlots params)
        (IntermediateStorageNodes params) output t1")
    note s2 = creations_sink[OF cr]
    from s1 Inr have s1': "sink_run returned_as_is output tr t1 (Inr cd)" by simp
    show ?thesis
    proof (cases r2)
      case (Inl f)
      with assms u cr Inr cd have "tr' = t2"
        "r = Inl (wrapf ''error building diff for created accounts: '' f)"
        by (simp_all add: reconcile_def Let_def)
      moreover from s2 Inl have "sink_run (returned_wrapped pass_prefixes) output t1 t2
          (Inl (wrapf ''error building diff for created accounts: '' f))"
        by (simp add: sink_run_wrap)
      ultimately show ?thesis using sink_run_trans[OF s1'] by simp
    next
      case (Inr codes)
      with assms u cr \<open>r1 = Inr cd\<close> cd have "tr' = t2" "r = Inr codes"
        by (simp_all add: reconcile_def Let_def)
      moreover from s2 Inr have "sink_run (returned_wrapped pass_prefixes) output t1 t2 (Inr codes)"
        by (auto intro: sink_run_Inr_any)
      ultimately show ?thesis using sink_run_trans[OF s1'] by simp
    qed
  qed
qed


lemma with_intermediate_sink:
  assumes "buildStateDiffWithIntermediateStateNodes sdb args params output tr = (tr', r)"
  shows "sink_run (returned_wrapped pass_prefixes) output tr tr' r"
proof (cases "OpenTrie sdb (StateRoots.OldStateRoot args)")
  case (Inl e)
  with assms show ?thesis
    by (simp add: buildStateDiffWithIntermediateStateNodes_def sink_run_same)
next
  case old: (Inr oldTrie)
  show ?thesis
  proof (cases "OpenTrie sdb (StateRoots.NewStateRoot args)")
    case (Inl e)
    with assms old show ?thesis
      by (simp add: buildStateDiffWithIntermediateStateNodes_def sink_run_same)
  next
    case new: (Inr newTrie)
    obtain t1 r1 where p1:
      "createdAndUpdatedStateWithIntermediateNodes sdb oldTrie newTrie output tr = (t1, r1)"
      by (cases "createdAndUpdatedStateWithIntermediateNodes sdb oldTrie newTrie output tr")
    note s1 = pass1_sink[OF p1]
    show ?thesis
    proof (cases r1)
      case (Inl f)
      with assms old new p1 have "tr' = t1"
        "r = Inl (wrapf ''error collecting createdAndUpdatedNodes: '' f)"
        by (simp_all add: buildStateDiffWithIntermediateStateNodes_def)
      with s1 Inl show ?thesis by (simp add: sink_run_wrap)
    next
      case r1: (Inr s)
      obtain accB pathsB where s: "s = (accB, pathsB)" by (cases s)
      from s1 r1 have s1': "sink_run returned_as_is output tr t1 (Inr s)" by simp
      obtain t2 r2 where p2: "deletedOrUpdatedState sdb oldTrie newTrie pathsB output t1 = (t2, r2)"
        by (cases "deletedOrUpdatedState sdb oldTrie newTrie pathsB output t1")
      note s2 = pass2_sink[OF p2]
      show ?thesis
      proof (cases r2)
        case (Inl f)
        with assms old new p1 r1 s p2 have "tr' = t2"
          "r = Inl (wrapf ''error collecting deletedOrUpdatedNodes: '' f)"
          by (simp_all add: buildStateDiffWithIntermediateStateNodes_def)
        moreover from s2 Inl have "sink_run (returned_wrapped pass_prefixes) output t1 t2
            (Inl (wrapf ''error collecting deletedOrUpdatedNodes: '' f))"
          by (simp add: sink_run_wrap)
        ultimately show ?thesis using sink_run_trans[OF s1'] by simp
      next
        case r2: (Inr accA)
        from s2 r2 have s2': "sink_run returned_as_is output t1 t2 (Inr accA)" by simp
        from assms old new p1 r1 s p2 r2
        have "reconcile sdb params accB accA output t2 = (tr', r)"
          by (simp add: buildStateDiffWithIntermediateStateNodes_def)
        from reconcile_sink[OF this] have "sink_run (returned_wrapped pass_prefixes) output t1 tr' r"
          using sink_run_trans[OF s2'] by simp
        then show ?thesis using sink_run_trans[OF s1'] by simp
      qed
    qed
  qed
qed

lemma without_intermediate_sink:
  assumes "buildStateDiffWithoutIntermediateStateNodes sdb args params output tr = (tr', r)"
  shows "sink_run (returned_wrapped pass_prefixes) output tr tr' r"
proof (cases "OpenTrie sdb (StateRoots.OldStateRoot args)")
  case (Inl e)
  with assms show ?thesis
    by (simp add: buildStateDiffWithoutIntermediateStateNodes_def sink_run_same)
next
  case old: (Inr oldTrie)
  show ?thesis
  proof (cases "OpenTrie sdb (StateRoots.NewStateRoot args)")
    case (Inl e)
    with assms old show ?thesis
      by (simp add: buildStateDiffWithoutIntermediateStateNodes_def sink_run_same)
  next
    case new: (Inr newTrie)
    show ?thesis
    proof (cases "createdAndUpdatedState sdb oldTrie newTrie (WatchedAddresses params)")
      case (Inl f)
      with assms old new show ?thesis
        by (simp add: buildStateDiffWithoutIntermediateStateNodes_def sink_run_same)
    next
      case r1: (Inr s)
      obtain accB pathsB where s: "s = (accB, pathsB)" by (cases s)
      obtain t2 r2 where p2: "deletedOrUpdatedState sdb oldTrie newTrie pathsB output tr = (t2, r2)"
        by (cases "deletedOrUpdatedState sdb oldTrie newTrie pathsB output tr")
      note s2 = pass2_sink[OF p2]
      show ?thesis
      proof (cases r2)
        case (Inl f)
        with assms old new r1 s p2 have "tr' = t2"
          "r = Inl (wrapf ''error collecting deletedOrUpdatedNodes: '' f)"
          by (simp_all add: buildStateDiffWithoutIntermediateStateNodes_def)
        with s2 Inl show ?thesis by (simp add: sink_run_wrap)
      next
        case r2: (Inr accA)
        from s2 r2 have s2': "sink_run returned_as_is output tr t2 (Inr accA)" by simp
        from assms old new r1 s p2 r2
        have "reconcile sdb params accB accA output t2 = (tr', r)"
          by (simp add: buildStateDiffWithoutIntermediateStateNodes_def)
        from reconcile_sink[OF this] show ?thesis
          using sink_run_trans[OF s2'] by simp
      qed
    qed
  qed
qed

lemma WriteStateDiffObject_sink:
  assumes "WriteStateDiffObject sdb args params output = (tr, r)"
  shows "sink_run (returned_wrapped pass_prefixes) output [] tr r"
  using assms unfolding WriteStateDiffObject_def
  by (auto split: if_splits intro: with_intermediate_sink without_intermediate_sink)

text \<open>
  Claim C7, as the code has it. In every run of \<^verbatim>\<open>WriteStateDiffObject\<close>, when the sink
  answers a record with an error, that record is the last one the run gives to the sink,
  and the run returns an error made by \<^verbatim>\<open>fmt.Errorf\<close> from the prefix of the pass that was
  writing and the text of the sink's error: a new error value, never the sink's own.
\<close>

theorem sink_error_aborts_wrapped:
  assumes "WriteStateDiffObject sdb args params output = (tr, r)"
    and "tr = pre @ n # post" and "output pre n = Some e"
  shows "post = [] \<and> (\<exists>p\<in>pass_prefixes. r = Inl (Err (Errorf p e))) \<and> r \<noteq> Inl (Err e)"
proof -
  from sink_run_first_error[OF WriteStateDiffObject_sink[OF assms(1)] assms(2,3)]
  have "post = []" "returned_wrapped pass_prefixes e r" by simp_all
  then show ?thesis by (auto simp: returned_wrapped_def)
qed


subsection \<open>Watched addresses\<close>

lemma for_each_invariant:
  assumes "\<forall>x s s'. I s \<and> body x s = Inr s' \<longrightarrow> I s'"
  shows "I s \<Longrightarrow> for_each body xs s = Inr s' \<Longrightarrow> I s'"
proof (induction xs arbitrary: s)
  case Nil
  then show ?case by simp
next
  case (Cons x xs)
  from Cons.prems(2) obtain s1 where b: "body x s = Inr s1" and rest: "for_each body xs s1 = Inr s'"
    by (auto split: sum.splits)
  from assms Cons.prems(1) b have "I s1" by blast
  from Cons.IH[OF this rest] show ?case .
qed

lemma for_each_out_emitted:
  assumes body: "\<forall>x\<in>set xs. \<forall>s tr. I s \<longrightarrow>
            (\<exists>ns. fst (body x s tr) = tr @ ns \<and> (\<forall>n\<in>set ns. Q n)) \<and>
            (\<forall>s'. snd (body x s tr) = Inr s' \<longrightarrow> I s')"
  shows "I s \<Longrightarrow>
         (\<exists>ns. fst (for_each_out body xs s tr) = tr @ ns \<and> (\<forall>n\<in>set ns. Q n)) \<and>
         (\<forall>s'. snd (for_each_out body xs s tr) = Inr s' \<longrightarrow> I s')"
  using body
proof (induction xs arbitrary: s tr)
  case Nil
  then show ?case by simp
next
  case (Cons x xs)
  obtain t1 r1 where b: "body x s tr = (t1, r1)" by (cases "body x s tr")
  have x_in: "x \<in> set (x # xs)" by simp
  note hd = bspec[OF Cons.prems(2) x_in]
  have tl: "\<forall>y\<in>set xs. \<forall>s tr. I s \<longrightarrow>
            (\<exists>ns. fst (body y s tr) = tr @ ns \<and> (\<forall>n\<in>set ns. Q n)) \<and>
            (\<forall>s'. snd (body y s tr) = Inr s' \<longrightarrow> I s')"
  proof (rule ballI)
    fix y assume "y \<in> set xs"
    then have "y \<in> set (x # xs)" by simp
    from bspec[OF Cons.prems(2) this]
    show "\<forall>s tr. I s \<longrightarrow>
            (\<exists>ns. fst (body y s tr) = tr @ ns \<and> (\<forall>n\<in>set ns. Q n)) \<and>
            (\<forall>s'. snd (body y s tr) = Inr s' \<longrightarrow> I s')" .
  qed
  have "(\<exists>ns. fst (body x s tr) = tr @ ns \<and> (\<forall>n\<in>set ns. Q n)) \<and>
            (\<forall>s'. snd (body x s tr) = Inr s' \<longrightarrow> I s')"
    by (rule hd[rule_format, OF Cons.prems(1)])
  then have "(\<exists>ns. t1 = tr @ ns \<and> (\<forall>n\<in>set ns. Q n)) \<and> (\<forall>s'. r1 = Inr s' \<longrightarrow> I s')"
    unfolding b fst_conv snd_conv .
  then obtain ns1 where ns1: "t1 = tr @ ns1" "\<forall>n\<in>set ns1. Q n"
    and inv: "\<forall>s'. r1 = Inr s' \<longrightarrow> I s'"
    by (elim conjE exE)
  show ?case
  proof (cases r1)
    case (Inl f)
    then have eq: "for_each_out body (x # xs) s tr = (t1, Inl f)"
      using b by simp
    show ?thesis unfolding eq using ns1 by simp
  next
    case (Inr s1)
    with inv have "I s1" by simp
    from Cons.IH[OF this tl, of t1]
    obtain ns2 where ns2: "fst (for_each_out body xs s1 t1) = t1 @ ns2" "\<forall>n\<in>set ns2. Q n"
      and inv2: "\<forall>s'. snd (for_each_out body xs s1 t1) = Inr s' \<longrightarrow> I s'"
      by (elim conjE exE)
    have eq: "for_each_out body (x # xs) s tr = for_each_out body xs s1 t1"
      using b Inr by simp
    have "fst (for_each_out body xs s1 t1) = tr @ (ns1 @ ns2)"
      using ns1 ns2 by simp
    moreover have "\<forall>n\<in>set (ns1 @ ns2). Q n"
      using ns1 ns2 by auto
    ultimately have "\<exists>ns. fst (for_each_out body xs s1 t1) = tr @ ns \<and> (\<forall>n\<in>set ns. Q n)"
      by (intro exI[of _ "ns1 @ ns2"] conjI)
    with inv2 show ?thesis unfolding eq by (intro conjI)
  qed
qed

lemma set_update_entries:
  "kv \<in> set (AList.update k v al) \<Longrightarrow> kv = (k, v) \<or> kv \<in> set al"
  by (induction al) (auto split: if_splits)

lemma set_delete_entries: "set (AList.delete k al) \<subseteq> set al"
  by (auto simp: AList.delete_eq)

lemma isWatchedAddress_loop_iff:
  "isWatchedAddress_loop sdb w key \<longleftrightarrow> (\<exists>addr\<in>set w. Keccak256 sdb addr = key)"
  by (induction w) auto

lemma isWatchedAddress_nonempty:
  "w \<noteq> [] \<Longrightarrow> isWatchedAddress sdb w key \<longleftrightarrow> (\<exists>addr\<in>set w. key = Keccak256 sdb addr)"
  by (auto simp: isWatchedAddress_def isWatchedAddress_loop_iff)

lemma createdAndUpdatedState_body_accounts:
  assumes "createdAndUpdatedState_body sdb w it s = Inr s'"
  shows "fst s' = fst s \<or>
         (\<exists>leafKey node account. isWatchedAddress sdb w leafKey \<and>
            fst s' = AList.update (Bytes2Hex leafKey)
                       (leaf_wrapper (it_Path it) node leafKey account) (fst s))"
proof (cases "it_Leaf it \<or> nullHashBytes = it_Hash it")
  case True
  with assms show ?thesis
    by (auto simp: createdAndUpdatedState_body_def Let_def split: if_splits)
next
  case False
  with assms obtain node nodeElements ty where rn:
    "read_node sdb (it_Hash it) = Inr (node, nodeElements, ty)"
    by (auto simp: createdAndUpdatedState_body_def Let_def split: sum.splits)
  show ?thesis
  proof (cases "ty = Leaf")
    case ty: True
    with assms False rn obtain account leafKey where
      "decode_account sdb (it_Path it) nodeElements = Inr account"
      "leaf_key sdb (it_Path it) nodeElements = Inr leafKey"
      by (auto simp: createdAndUpdatedState_body_def Let_def split: sum.splits)
    with assms False rn ty have s': "fst s' =
        (if isWatchedAddress sdb w leafKey
         then AList.update (Bytes2Hex leafKey) (leaf_wrapper (it_Path it) node leafKey account) (fst s)
         else fst s)"
      by (auto simp: createdAndUpdatedState_body_def Let_def)
    show ?thesis
    proof (cases "isWatchedAddress sdb w leafKey")
      case True
      with s' show ?thesis by (intro disjI2 exI[of _ leafKey] exI[of _ node] exI[of _ account]) simp
    next
      case False
      with s' show ?thesis by simp
    qed
  next
    case ty: False
    with assms False rn show ?thesis
      by (auto simp: createdAndUpdatedState_body_def Let_def)
  qed
qed

lemma createdAndUpdatedState_body_watched:
  assumes inv: "\<forall>kv\<in>set (fst s). watched_leaf sdb w (snd kv)"
    and body: "createdAndUpdatedState_body sdb w it s = Inr s'"
  shows "\<forall>kv\<in>set (fst s'). watched_leaf sdb w (snd kv)"
proof
  fix kv assume kv: "kv \<in> set (fst s')"
  from createdAndUpdatedState_body_accounts[OF body]
  show "watched_leaf sdb w (snd kv)"
  proof
    assume "fst s' = fst s"
    with kv inv show ?thesis by simp
  next
    assume "\<exists>leafKey node account. isWatchedAddress sdb w leafKey \<and>
            fst s' = AList.update (Bytes2Hex leafKey)
                       (leaf_wrapper (it_Path it) node leafKey account) (fst s)"
    then obtain k v where "fst s' = AList.update k v (fst s)" "watched_leaf sdb w v"
      by (auto simp: watched_leaf_def leaf_wrapper_def)
    with kv set_update_entries[of kv k v "fst s"] inv show ?thesis by auto
  qed
qed

lemma createdAndUpdatedState_watched:
  assumes "createdAndUpdatedState sdb a b w = Inr (accB, paths)"
  shows "\<forall>kv\<in>set accB. watched_leaf sdb w (snd kv)"
proof -
  let ?I = "\<lambda>s. \<forall>kv\<in>set (fst s). watched_leaf sdb w (snd kv)"
  from assms have loop: "for_each (createdAndUpdatedState_body sdb w)
      (it_steps (NewDifferenceIterator a b)) ([], []) = Inr (accB, paths)"
    unfolding createdAndUpdatedState_def Let_def iterator_error_def
    by (auto split: sum.splits option.splits)
  have step: "\<forall>x s s'. ?I s \<and> createdAndUpdatedState_body sdb w x s = Inr s' \<longrightarrow> ?I s'"
    using createdAndUpdatedState_body_watched by blast
  have "?I ([], [])" by simp
  from for_each_invariant[of ?I, OF step this loop] show ?thesis by simp
qed


lemma am_get_cases: "am_get m k = zero_accountWrapper \<or> (k, am_get m k) \<in> set m"
  by (auto simp: am_get_def split: option.splits dest: map_of_SomeD)

lemma buildAccountUpdates_body_shape:
  "(fst (buildAccountUpdates_body sdb wk im out key s tr) = tr \<or>
    (\<exists>sd. fst (buildAccountUpdates_body sdb wk im out key s tr) =
            tr @ [leaf_record (am_get (fst s) key) sd])) \<and>
   (\<forall>s'. snd (buildAccountUpdates_body sdb wk im out key s tr) = Inr s' \<longrightarrow>
      s' = (AList.delete key (fst s), AList.delete key (snd s)) \<and>
      (\<exists>sd. fst (buildAccountUpdates_body sdb wk im out key s tr) =
            tr @ [leaf_record (am_get (fst s) key) sd]))"
  unfolding buildAccountUpdates_body_def Let_def leaf_record_def emit_def
  by (auto split: option.splits sum.splits prod.splits)

lemma buildAccountCreations_body_shape:
  "(fst (buildAccountCreations_body sdb wk im out val s tr) = tr \<or>
    (\<exists>sd. fst (buildAccountCreations_body sdb wk im out val s tr) =
            tr @ [leaf_record val sd])) \<and>
   (\<forall>s'. snd (buildAccountCreations_body sdb wk im out val s tr) = Inr s' \<longrightarrow>
      (\<exists>sd. fst (buildAccountCreations_body sdb wk im out val s tr) =
            tr @ [leaf_record val sd]))"
  unfolding buildAccountCreations_body_def Let_def leaf_record_def emit_def
  by (auto split: option.splits sum.splits prod.splits if_splits)

lemma watched_record_leaf:
  "watched_leaf sdb w v \<Longrightarrow> watched_record sdb w (leaf_record v sd)"
  by (simp add: watched_leaf_def watched_record_def leaf_record_def)

lemma watched_record_zero:
  "watched_record sdb w (leaf_record zero_accountWrapper sd)"
  by (simp add: watched_record_def leaf_record_def zero_accountWrapper_def)

lemma watched_record_removed:
  "watched_record sdb w (removed_StateNode p)"
  by (simp add: watched_record_def removed_StateNode_def)

lemma buildAccountUpdates_watched:
  assumes inv: "\<forall>kv\<in>set c. watched_leaf sdb w (snd kv)"
  shows "(\<exists>ns. fst (buildAccountUpdates sdb c d ks wk im out tr) = tr @ ns \<and>
              (\<forall>n\<in>set ns. watched_record sdb w n)) \<and>
         (\<forall>c' d'. snd (buildAccountUpdates sdb c d ks wk im out tr) = Inr (c', d') \<longrightarrow>
            (\<forall>kv\<in>set c'. watched_leaf sdb w (snd kv)))"
proof -
  let ?I = "\<lambda>s. \<forall>kv\<in>set (fst s). watched_leaf sdb w (snd kv)"
  let ?body = "buildAccountUpdates_body sdb wk im out"
  have step: "\<forall>key\<in>set ks. \<forall>s tr. ?I s \<longrightarrow>
            (\<exists>ns. fst (?body key s tr) = tr @ ns \<and> (\<forall>n\<in>set ns. watched_record sdb w n)) \<and>
            (\<forall>s'. snd (?body key s tr) = Inr s' \<longrightarrow> ?I s')"
  proof (rule ballI, intro allI impI)
    fix key and s :: "AccountMap \<times> AccountMap" and tr :: "StateNode list"
    assume I: "?I s"
    have rec: "watched_record sdb w (leaf_record (am_get (fst s) key) sd)" for sd
    proof -
      from am_get_cases[of "fst s" key] show ?thesis
      proof
        assume "am_get (fst s) key = zero_accountWrapper"
        then show ?thesis by (simp add: watched_record_zero)
      next
        assume "(key, am_get (fst s) key) \<in> set (fst s)"
        with I have "watched_leaf sdb w (snd (key, am_get (fst s) key))" by (rule bspec)
        then show ?thesis by (simp add: watched_record_leaf)
      qed
    qed
    from buildAccountUpdates_body_shape[of sdb wk im out key s tr]
    have emitted: "\<exists>ns. fst (?body key s tr) = tr @ ns \<and> (\<forall>n\<in>set ns. watched_record sdb w n)"
    proof (elim conjE disjE exE)
      assume "fst (?body key s tr) = tr"
      then show ?thesis by (intro exI[of _ "[]"]) simp
    next
      fix sd assume "fst (?body key s tr) = tr @ [leaf_record (am_get (fst s) key) sd]"
      with rec show ?thesis by (intro exI[of _ "[leaf_record (am_get (fst s) key) sd]"]) simp
    qed
    have kept: "?I s'" if "snd (?body key s tr) = Inr s'" for s'
    proof -
      from that buildAccountUpdates_body_shape[of sdb wk im out key s tr]
      have "fst s' = AList.delete key (fst s)" by auto
      with I set_delete_entries[of key "fst s"] show ?thesis by auto
    qed
    from emitted kept
    show "(\<exists>ns. fst (?body key s tr) = tr @ ns \<and> (\<forall>n\<in>set ns. watched_record sdb w n)) \<and>
            (\<forall>s'. snd (?body key s tr) = Inr s' \<longrightarrow> ?I s')"
      by blast
  qed
  have "?I (c, d)" using inv by simp
  from for_each_out_emitted[of ks ?I ?body "watched_record sdb w", OF step this, of tr]
  show ?thesis by (auto simp: buildAccountUpdates_def)
qed

lemma set_map_range [simp]: "set (map_range sdb m) = set m"
  by (simp add: map_range_def)

lemma buildAccountCreations_watched:
  assumes inv: "\<forall>kv\<in>set c. watched_leaf sdb w (snd kv)"
  shows "\<exists>ns. fst (buildAccountCreations sdb c wk im out tr) = tr @ ns \<and>
              (\<forall>n\<in>set ns. watched_record sdb w n)"
proof -
  let ?body = "buildAccountCreations_body sdb wk im out"
  let ?vals = "map snd (map_range sdb c)"
  have step: "\<forall>val\<in>set ?vals. \<forall>s tr. True \<longrightarrow>
            (\<exists>ns. fst (?body val s tr) = tr @ ns \<and> (\<forall>n\<in>set ns. watched_record sdb w n)) \<and>
            (\<forall>s'. snd (?body val s tr) = Inr s' \<longrightarrow> True)"
  proof (rule ballI, intro allI impI)
    fix val and s :: "CodeAndCodeHash list" and tr :: "StateNode list"
    assume "val \<in> set ?vals"
    with inv have "watched_leaf sdb w val" by auto
    then have rec: "watched_record sdb w (leaf_record val sd)" for sd
      by (rule watched_record_leaf)
    from buildAccountCreations_body_shape[of sdb wk im out val s tr]
    have "\<exists>ns. fst (?body val s tr) = tr @ ns \<and> (\<forall>n\<in>set ns. watched_record sdb w n)"
    proof (elim conjE disjE exE)
      assume "fst (?body val s tr) = tr"
      then show ?thesis by (intro exI[of _ "[]"]) simp
    next
      fix sd assume "fst (?body val s tr) = tr @ [leaf_record val sd]"
      with rec show ?thesis by (intro exI[of _ "[leaf_record val sd]"]) simp
    qed
    then show "(\<exists>ns. fst (?body val s tr) = tr @ ns \<and> (\<forall>n\<in>set ns. watched_record sdb w n)) \<and>
            (\<forall>s'. snd (?body val s tr) = Inr s' \<longrightarrow> True)"
      by simp
  qed
  from for_each_out_emitted[of ?vals "\<lambda>s. True" ?body "watched_record sdb w", OF step TrueI, of "[]" tr]
  show ?thesis by (simp add: buildAccountCreations_def)
qed


lemma reconcile_watched:
  assumes inv: "\<forall>kv\<in>set accB. watched_leaf sdb w (snd kv)"
  shows "\<exists>ns. fst (reconcile sdb params accB accA out tr) = tr @ ns \<and>
              (\<forall>n\<in>set ns. watched_record sdb w n)"
proof -
  let ?ks = "findIntersection (sortKeys accB) (sortKeys accA)"
  let ?U = "buildAccountUpdates sdb accB accA ?ks (WatchedStorageSlots params)
              (IntermediateStorageNodes params) out tr"
  from buildAccountUpdates_watched[OF inv, of accA ?ks "WatchedStorageSlots params"
      "IntermediateStorageNodes params" out tr]
  obtain ns1 where ns1: "fst ?U = tr @ ns1" "\<forall>n\<in>set ns1. watched_record sdb w n"
    and kept: "\<forall>c' d'. snd ?U = Inr (c', d') \<longrightarrow> (\<forall>kv\<in>set c'. watched_leaf sdb w (snd kv))"
    by blast
  obtain t1 r1 where u: "?U = (t1, r1)" by (cases ?U)
  show ?thesis
  proof (cases r1)
    case (Inl f)
    with u ns1 show ?thesis by (auto simp: reconcile_def Let_def)
  next
    case (Inr cd)
    obtain c' d' where cd: "cd = (c', d')" by (cases cd)
    with kept u Inr have "\<forall>kv\<in>set c'. watched_leaf sdb w (snd kv)" by simp
    from buildAccountCreations_watched[OF this, of "WatchedStorageSlots params"
      "IntermediateStorageNodes params" out t1]
    obtain ns2 where ns2: "fst (buildAccountCreations sdb c' (WatchedStorageSlots params)
      (IntermediateStorageNodes params) out t1) = t1 @ ns2" "\<forall>n\<in>set ns2. watched_record sdb w n"
      by blast
    have "fst (reconcile sdb params accB accA out tr) =
          fst (buildAccountCreations sdb c' (WatchedStorageSlots params)
                 (IntermediateStorageNodes params) out t1)"
      using u Inr cd by (auto simp: reconcile_def Let_def split: prod.splits sum.splits)
    with ns1 ns2 u have "fst (reconcile sdb params accB accA out tr) = tr @ (ns1 @ ns2)"
      "\<forall>n\<in>set (ns1 @ ns2). watched_record sdb w n"
      by auto
    then show ?thesis by blast
  qed
qed

lemma without_intermediate_watched:
  "\<exists>ns. fst (buildStateDiffWithoutIntermediateStateNodes sdb args params out tr) = tr @ ns \<and>
        (\<forall>n\<in>set ns. watched_record sdb (WatchedAddresses params) n)"
proof -
  let ?w = "WatchedAddresses params"
  let ?F = "buildStateDiffWithoutIntermediateStateNodes sdb args params out tr"
  have same: "fst ?F = tr \<Longrightarrow> ?thesis" by (intro exI[of _ "[]"]) simp
  show ?thesis
  proof (cases "OpenTrie sdb (StateRoots.OldStateRoot args)")
    case (Inl e)
    then show ?thesis by (intro same) (simp add: buildStateDiffWithoutIntermediateStateNodes_def)
  next
    case old: (Inr oldTrie)
    show ?thesis
    proof (cases "OpenTrie sdb (StateRoots.NewStateRoot args)")
      case (Inl e)
      with old show ?thesis
        by (intro same) (simp add: buildStateDiffWithoutIntermediateStateNodes_def)
    next
      case new: (Inr newTrie)
      show ?thesis
      proof (cases "createdAndUpdatedState sdb oldTrie newTrie ?w")
        case (Inl f)
        with old new show ?thesis
          by (intro same) (simp add: buildStateDiffWithoutIntermediateStateNodes_def)
      next
        case r1: (Inr s)
        obtain accB pathsB where s: "s = (accB, pathsB)" by (cases s)
        from createdAndUpdatedState_watched[OF r1[unfolded s]]
        have inv: "\<forall>kv\<in>set accB. watched_leaf sdb ?w (snd kv)" .
        obtain t2 r2 where p2: "deletedOrUpdatedState sdb oldTrie newTrie pathsB out tr = (t2, r2)"
          by (cases "deletedOrUpdatedState sdb oldTrie newTrie pathsB out tr")
        from deletedOrUpdatedState_writes[OF p2] obtain ns1 where
          ns1: "t2 = tr @ ns1" "\<forall>n\<in>set ns1. watched_record sdb ?w n"
          by (auto simp: watched_record_removed)
        show ?thesis
        proof (cases r2)
          case (Inl f)
          with old new r1 s p2 have "fst ?F = t2"
            by (simp add: buildStateDiffWithoutIntermediateStateNodes_def)
          with ns1 show ?thesis by blast
        next
          case (Inr accA)
          with old new r1 s p2 have F: "fst ?F = fst (reconcile sdb params accB accA out t2)"
            by (simp add: buildStateDiffWithoutIntermediateStateNodes_def)
          from reconcile_watched[OF inv, of params accA out t2] obtain ns2 where
            "fst (reconcile sdb params accB accA out t2) = t2 @ ns2"
            "\<forall>n\<in>set ns2. watched_record sdb ?w n" by blast
          with F ns1 have "fst ?F = tr @ (ns1 @ ns2)" "\<forall>n\<in>set (ns1 @ ns2). watched_record sdb ?w n"
            by auto
          then show ?thesis by blast
        qed
      qed
    qed
  qed
qed

text \<open>
  Claim C2. In every run of \<^verbatim>\<open>WriteStateDiffObject\<close> with a list of watched addresses that
  is not empty, the function without intermediate state nodes runs, also when
  \<^verbatim>\<open>IntermediateStateNodes\<close> is set; no record of type \<open>Extension\<close> or \<open>Branch\<close> is given to
  the sink, and the leaf key of every record of type \<open>Leaf\<close> is the Keccak-256 hash of one
  of the watched addresses.
\<close>

theorem watched_addresses_only:
  assumes "WatchedAddresses params \<noteq> []"
  shows "WriteStateDiffObject sdb args params out =
           buildStateDiffWithoutIntermediateStateNodes sdb args params out [] \<and>
         (\<forall>n\<in>set (fst (WriteStateDiffObject sdb args params out)).
            StateNode.NodeType n \<noteq> Extension \<and> StateNode.NodeType n \<noteq> Branch \<and>
            (StateNode.NodeType n = Leaf \<longrightarrow>
               (\<exists>addr\<in>set (WatchedAddresses params).
                  StateNode.LeafKey n = Keccak256 sdb addr)))"
proof -
  from assms have path: "WriteStateDiffObject sdb args params out =
           buildStateDiffWithoutIntermediateStateNodes sdb args params out []"
    by (simp add: WriteStateDiffObject_def)
  from without_intermediate_watched[of sdb args params out "[]"]
  have "\<forall>n\<in>set (fst (WriteStateDiffObject sdb args params out)).
          watched_record sdb (WatchedAddresses params) n"
    unfolding path by auto
  with path assms show ?thesis
    by (auto simp: watched_record_def isWatchedAddress_nonempty)
qed


subsection \<open>Updated and created leaves\<close>

lemma keyed_update:
  "keyed_by_leaf_key m \<Longrightarrow> k = Bytes2Hex (accountWrapper.LeafKey v) \<Longrightarrow>
   keyed_by_leaf_key (AList.update k v m)"
  unfolding keyed_by_leaf_key_def
  by (auto dest!: set_update_entries)

lemma keyed_delete: "keyed_by_leaf_key m \<Longrightarrow> keyed_by_leaf_key (AList.delete k m)"
  unfolding keyed_by_leaf_key_def using set_delete_entries[of k m] by auto

lemma well_keyed_update:
  "well_keyed m \<Longrightarrow> well_keyed (AList.update (Bytes2Hex leafKey) (leaf_wrapper p node leafKey acc) m)"
  by (simp add: well_keyed_def keyed_update leaf_wrapper_def distinct_update)

lemma createdAndUpdatedState_well_keyed:
  assumes "createdAndUpdatedState sdb a b w = Inr (accB, paths)"
  shows "well_keyed accB"
proof -
  let ?I = "\<lambda>s :: AccountMap \<times> PathMap. well_keyed (fst s)"
  from assms have loop: "for_each (createdAndUpdatedState_body sdb w)
      (it_steps (NewDifferenceIterator a b)) ([], []) = Inr (accB, paths)"
    unfolding createdAndUpdatedState_def Let_def iterator_error_def
    by (auto split: sum.splits option.splits)
  have step: "\<forall>x s s'. ?I s \<and> createdAndUpdatedState_body sdb w x s = Inr s' \<longrightarrow> ?I s'"
  proof (intro allI impI, elim conjE)
    fix x and s s' :: "AccountMap \<times> PathMap"
    assume I: "well_keyed (fst s)" and b: "createdAndUpdatedState_body sdb w x s = Inr s'"
    from createdAndUpdatedState_body_accounts[OF b] I
    show "well_keyed (fst s')" by (auto simp: well_keyed_update)
  qed
  have "?I ([], [])" by (simp add: well_keyed_def keyed_by_leaf_key_def)
  from for_each_invariant[of ?I, OF step this loop] show ?thesis by simp
qed

lemma for_each_out_invariant:
  assumes "\<forall>x s tr s'. I s \<and> snd (body x s tr) = Inr s' \<longrightarrow> I s'"
  shows "I s \<Longrightarrow> snd (for_each_out body xs s tr) = Inr s' \<Longrightarrow> I s'"
proof (induction xs arbitrary: s tr)
  case Nil
  then show ?case by simp
next
  case (Cons x xs)
  obtain t1 r1 where b: "body x s tr = (t1, r1)" by (cases "body x s tr")
  show ?case
  proof (cases r1)
    case (Inl f)
    with b Cons.prems(2) show ?thesis by simp
  next
    case (Inr s1)
    with b have "snd (body x s tr) = Inr s1" by simp
    with assms Cons.prems(1) have "I s1" by blast
    moreover from b Inr Cons.prems(2) have "snd (for_each_out body xs s1 t1) = Inr s'" by simp
    ultimately show ?thesis by (rule Cons.IH)
  qed
qed

lemma with_intermediate_body_accounts:
  assumes "snd (createdAndUpdatedStateWithIntermediateNodes_body sdb out it s tr) = Inr s'"
  shows "fst s' = fst s \<or>
         (\<exists>leafKey node account.
            fst s' = AList.update (Bytes2Hex leafKey)
                       (leaf_wrapper (it_Path it) node leafKey account) (fst s))"
  using assms
  unfolding createdAndUpdatedStateWithIntermediateNodes_body_def Let_def emit_def
  by (auto split: if_splits sum.splits prod.splits option.splits) blast

lemma createdAndUpdatedStateWithIntermediateNodes_well_keyed:
  assumes "createdAndUpdatedStateWithIntermediateNodes sdb a b out tr = (tr', Inr (accB, paths))"
  shows "well_keyed accB"
proof -
  let ?I = "\<lambda>s :: AccountMap \<times> PathMap. well_keyed (fst s)"
  let ?body = "createdAndUpdatedStateWithIntermediateNodes_body sdb out"
  from assms have loop: "snd (for_each_out ?body
      (it_steps (NewDifferenceIterator a b)) ([], []) tr) = Inr (accB, paths)"
    unfolding createdAndUpdatedStateWithIntermediateNodes_def Let_def iterator_error_def
    by (auto split: sum.splits option.splits prod.splits)
  have step: "\<forall>x s tr s'. ?I s \<and> snd (?body x s tr) = Inr s' \<longrightarrow> ?I s'"
  proof (intro allI impI, elim conjE)
    fix x and s s' :: "AccountMap \<times> PathMap" and tr :: "StateNode list"
    assume I: "well_keyed (fst s)" and b: "snd (?body x s tr) = Inr s'"
    from with_intermediate_body_accounts[OF b] I
    show "well_keyed (fst s')" by (auto simp: well_keyed_update)
  qed
  have "?I ([], [])" by (simp add: well_keyed_def keyed_by_leaf_key_def)
  from for_each_out_invariant[of ?I ?body, OF step this loop] show ?thesis by simp
qed


lemma am_get_keyed:
  assumes "keyed_by_leaf_key c" and "k \<in> fst ` set c"
  shows "Bytes2Hex (accountWrapper.LeafKey (am_get c k)) = k"
proof -
  from assms(2) obtain v where v: "map_of c k = Some v"
    by (cases "map_of c k") (auto simp: map_of_eq_None_iff)
  then have "(k, v) \<in> set c" by (rule map_of_SomeD)
  with assms(1) have "k = Bytes2Hex (accountWrapper.LeafKey v)"
    unfolding keyed_by_leaf_key_def by fastforce
  with v show ?thesis by (simp add: am_get_def)
qed

lemma keys_delete: "fst ` set (AList.delete k c) = fst ` set c - {k}"
  by (auto simp: AList.delete_eq)

lemma hex_leaf_key_record [simp]:
  "hex_leaf_key (leaf_record v sd) = Bytes2Hex (accountWrapper.LeafKey v)"
  by (simp add: hex_leaf_key_def leaf_record_def)

lemma updates_in_order:
  assumes "keyed_by_leaf_key c" and "distinct ks" and "set ks \<subseteq> fst ` set c"
    and "for_each_out (buildAccountUpdates_body sdb wk im out) ks (c, d) tr = (tr', r)"
  shows "\<exists>ns n. n \<le> length ks \<and> tr' = tr @ ns \<and> map hex_leaf_key ns = take n ks \<and>
               (\<forall>s'. r = Inr s' \<longrightarrow> n = length ks)"
  using assms
proof (induction ks arbitrary: c d tr)
  case Nil
  then show ?case by simp
next
  case (Cons k ks)
  let ?body = "buildAccountUpdates_body sdb wk im out"
  obtain t1 r1 where b: "?body k (c, d) tr = (t1, r1)" by (cases "?body k (c, d) tr")
  from Cons.prems(1,3) have key: "Bytes2Hex (accountWrapper.LeafKey (am_get c k)) = k"
    by (intro am_get_keyed) auto
  from buildAccountUpdates_body_shape[of sdb wk im out k "(c, d)" tr] b
  have shape: "t1 = tr \<or> (\<exists>sd. t1 = tr @ [leaf_record (am_get c k) sd])"
    and ok: "\<forall>s'. r1 = Inr s' \<longrightarrow> s' = (AList.delete k c, AList.delete k d) \<and>
                (\<exists>sd. t1 = tr @ [leaf_record (am_get c k) sd])"
    by simp_all
  show ?case
  proof (cases r1)
    case (Inl f)
    with b Cons.prems(4) have res: "tr' = t1" "r = Inl f" by simp_all
    from shape show ?thesis
    proof
      assume "t1 = tr"
      with res show ?thesis by (intro exI[of _ "[]"] exI[of _ 0]) simp
    next
      assume "\<exists>sd. t1 = tr @ [leaf_record (am_get c k) sd]"
      then obtain sd where "t1 = tr @ [leaf_record (am_get c k) sd]" by blast
      with res key show ?thesis
        by (intro exI[of _ "[leaf_record (am_get c k) sd]"] exI[of _ 1]) simp
    qed
  next
    case (Inr s1)
    with ok obtain sd where s1: "s1 = (AList.delete k c, AList.delete k d)"
      and t1: "t1 = tr @ [leaf_record (am_get c k) sd]" by blast
    from b Inr s1 Cons.prems(4)
    have rest: "for_each_out ?body ks (AList.delete k c, AList.delete k d) t1 = (tr', r)" by simp
    have "keyed_by_leaf_key (AList.delete k c)" using Cons.prems(1) by (rule keyed_delete)
    moreover have "distinct ks" using Cons.prems(2) by simp
    moreover have "set ks \<subseteq> fst ` set (AList.delete k c)"
      using Cons.prems(2,3) by (auto simp: keys_delete)
    ultimately obtain ns n where n: "n \<le> length ks" "tr' = t1 @ ns"
      "map hex_leaf_key ns = take n ks" "\<forall>s'. r = Inr s' \<longrightarrow> n = length ks"
      using Cons.IH[OF _ _ _ rest] by blast
    with t1 key show ?thesis
      by (intro exI[of _ "leaf_record (am_get c k) sd # ns"] exI[of _ "Suc n"]) simp
  qed
qed

lemma sorted_findIntersection:
  "sorted (findIntersection (sortKeys accB) (sortKeys accA))"
  by (simp add: findIntersection_def sortKeys_def sorted_wrt_filter)

lemma distinct_findIntersection:
  "distinct (map fst accB) \<Longrightarrow> distinct (findIntersection (sortKeys accB) (sortKeys accA))"
  by (simp add: findIntersection_def sortKeys_def)

lemma set_findIntersection:
  "set (findIntersection (sortKeys accB) (sortKeys accA)) = fst ` set accB \<inter> fst ` set accA"
  by (auto simp: findIntersection_def sortKeys_def)

lemma updated_in_order:
  assumes wk: "well_keyed accB"
    and run: "buildAccountUpdates sdb accB accA
                (findIntersection (sortKeys accB) (sortKeys accA)) wk im out tr = (tr', r)"
  shows "\<exists>ups n. n \<le> length (findIntersection (sortKeys accB) (sortKeys accA)) \<and>
           tr' = tr @ ups \<and>
           map hex_leaf_key ups = take n (findIntersection (sortKeys accB) (sortKeys accA)) \<and>
           (\<forall>maps. r = Inr maps \<longrightarrow>
              n = length (findIntersection (sortKeys accB) (sortKeys accA))) \<and>
           sorted (map hex_leaf_key ups) \<and> distinct (map hex_leaf_key ups)"
proof -
  let ?ks = "findIntersection (sortKeys accB) (sortKeys accA)"
  from wk have k: "keyed_by_leaf_key accB" and d: "distinct ?ks"
    by (simp_all add: well_keyed_def distinct_findIntersection)
  have sub: "set ?ks \<subseteq> fst ` set accB" by (simp add: set_findIntersection)
  from updates_in_order[OF k d sub run[unfolded buildAccountUpdates_def]]
  obtain ns n where n: "n \<le> length ?ks" "tr' = tr @ ns" "map hex_leaf_key ns = take n ?ks"
    "\<forall>s'. r = Inr s' \<longrightarrow> n = length ?ks" by blast
  have "sorted (take n ?ks)" "distinct (take n ?ks)"
    using sorted_findIntersection[of accB accA] d by (simp_all add: sorted_wrt_take)
  with n show ?thesis by auto
qed


lemma updates_final_maps:
  "snd (for_each_out (buildAccountUpdates_body sdb wk im out) ks (c, d) tr) = Inr (c', d') \<Longrightarrow>
   c' = filter (\<lambda>kv. fst kv \<notin> set ks) c \<and> d' = filter (\<lambda>kv. fst kv \<notin> set ks) d"
proof (induction ks arbitrary: c d tr)
  case Nil
  then show ?case by simp
next
  case (Cons k ks)
  let ?body = "buildAccountUpdates_body sdb wk im out"
  obtain t1 r1 where b: "?body k (c, d) tr = (t1, r1)" by (cases "?body k (c, d) tr")
  show ?case
  proof (cases r1)
    case (Inl f)
    with b Cons.prems show ?thesis by simp
  next
    case (Inr s1)
    with buildAccountUpdates_body_shape[of sdb wk im out k "(c, d)" tr] b
    have s1: "s1 = (AList.delete k c, AList.delete k d)" by simp
    with b Inr Cons.prems
    have "snd (for_each_out ?body ks (AList.delete k c, AList.delete k d) t1) = Inr (c', d')"
      by simp
    from Cons.IH[OF this] show ?thesis
      by (auto simp: AList.delete_eq intro!: filter_cong)
  qed
qed

lemma updates_leaf_keys:
  assumes keyed: "keyed_by_leaf_key c"
  shows "\<exists>ns. fst (buildAccountUpdates sdb c d ks wk im out tr) = tr @ ns \<and>
              (\<forall>n\<in>set ns. StateNode.NodeType n = Leaf \<longrightarrow> hex_leaf_key n \<in> set ks)"
proof -
  let ?I = "\<lambda>s :: AccountMap \<times> AccountMap. keyed_by_leaf_key (fst s)"
  let ?Q = "\<lambda>n. StateNode.NodeType n = Leaf \<longrightarrow> hex_leaf_key n \<in> set ks"
  let ?body = "buildAccountUpdates_body sdb wk im out"
  have step: "\<forall>key\<in>set ks. \<forall>s tr. ?I s \<longrightarrow>
            (\<exists>ns. fst (?body key s tr) = tr @ ns \<and> (\<forall>n\<in>set ns. ?Q n)) \<and>
            (\<forall>s'. snd (?body key s tr) = Inr s' \<longrightarrow> ?I s')"
  proof (rule ballI, intro allI impI)
    fix key and s :: "AccountMap \<times> AccountMap" and tr :: "StateNode list"
    assume key: "key \<in> set ks" and I: "?I s"
    have rec: "?Q (leaf_record (am_get (fst s) key) sd)" for sd
    proof -
      from am_get_cases[of "fst s" key] show ?thesis
      proof
        assume "am_get (fst s) key = zero_accountWrapper"
        then show ?thesis by (simp add: leaf_record_def zero_accountWrapper_def)
      next
        assume "(key, am_get (fst s) key) \<in> set (fst s)"
        then have "key \<in> fst ` set (fst s)" by force
        from am_get_keyed[OF I this] key show ?thesis by simp
      qed
    qed
    from buildAccountUpdates_body_shape[of sdb wk im out key s tr]
    have emitted: "\<exists>ns. fst (?body key s tr) = tr @ ns \<and> (\<forall>n\<in>set ns. ?Q n)"
    proof (elim conjE disjE exE)
      assume "fst (?body key s tr) = tr"
      then show ?thesis by (intro exI[of _ "[]"]) simp
    next
      fix sd assume "fst (?body key s tr) = tr @ [leaf_record (am_get (fst s) key) sd]"
      with rec[of sd] show ?thesis
        by (intro exI[of _ "[leaf_record (am_get (fst s) key) sd]"]) simp
    qed
    have kept: "?I s'" if "snd (?body key s tr) = Inr s'" for s'
    proof -
      from that buildAccountUpdates_body_shape[of sdb wk im out key s tr]
      have "fst s' = AList.delete key (fst s)" by auto
      with I show ?thesis by (simp add: keyed_delete)
    qed
    from emitted kept
    show "(\<exists>ns. fst (?body key s tr) = tr @ ns \<and> (\<forall>n\<in>set ns. ?Q n)) \<and>
            (\<forall>s'. snd (?body key s tr) = Inr s' \<longrightarrow> ?I s')"
      by blast
  qed
  have "?I (c, d)" using keyed by simp
  from for_each_out_emitted[of ks ?I ?body ?Q, OF step this, of tr]
  show ?thesis by (simp add: buildAccountUpdates_def)
qed

lemma creations_keys:
  assumes keyed: "keyed_by_leaf_key c"
  shows "\<exists>ns. fst (buildAccountCreations sdb c wk im out tr) = tr @ ns \<and>
              (\<forall>n\<in>set ns. hex_leaf_key n \<in> fst ` set c)"
proof -
  let ?body = "buildAccountCreations_body sdb wk im out"
  let ?vals = "map snd (map_range sdb c)"
  let ?Q = "\<lambda>n. hex_leaf_key n \<in> fst ` set c"
  have step: "\<forall>val\<in>set ?vals. \<forall>s tr. True \<longrightarrow>
            (\<exists>ns. fst (?body val s tr) = tr @ ns \<and> (\<forall>n\<in>set ns. ?Q n)) \<and>
            (\<forall>s'. snd (?body val s tr) = Inr s' \<longrightarrow> True)"
  proof (rule ballI, intro allI impI)
    fix val and s :: "CodeAndCodeHash list" and tr :: "StateNode list"
    assume "val \<in> set ?vals"
    then obtain k where kv: "(k, val) \<in> set c" by auto
    with keyed have "k = Bytes2Hex (accountWrapper.LeafKey val)"
      unfolding keyed_by_leaf_key_def by fastforce
    with kv have rec: "?Q (leaf_record val sd)" for sd by force
    from buildAccountCreations_body_shape[of sdb wk im out val s tr]
    have "\<exists>ns. fst (?body val s tr) = tr @ ns \<and> (\<forall>n\<in>set ns. ?Q n)"
    proof (elim conjE disjE exE)
      assume "fst (?body val s tr) = tr"
      then show ?thesis by (intro exI[of _ "[]"]) simp
    next
      fix sd assume "fst (?body val s tr) = tr @ [leaf_record val sd]"
      with rec[of sd] show ?thesis by (intro exI[of _ "[leaf_record val sd]"]) simp
    qed
    then show "(\<exists>ns. fst (?body val s tr) = tr @ ns \<and> (\<forall>n\<in>set ns. ?Q n)) \<and>
            (\<forall>s'. snd (?body val s tr) = Inr s' \<longrightarrow> True)"
      by simp
  qed
  from for_each_out_emitted[of ?vals "\<lambda>s. True" ?body ?Q, OF step TrueI, of "[]" tr]
  show ?thesis by (simp add: buildAccountCreations_def)
qed

lemma pass1_well_keyed:
  assumes "createdAndUpdatedState sdb a b w = Inr (accB, pathsB) \<or>
           createdAndUpdatedStateWithIntermediateNodes sdb a b out tr0 = (tr1, Inr (accB, pathsB))"
  shows "well_keyed accB"
  using assms createdAndUpdatedState_well_keyed
    createdAndUpdatedStateWithIntermediateNodes_well_keyed by blast

text \<open>
  Claim C3, as the code has it. Pass 3, run on the account maps of the two passes, writes
  first the updated leaves, whose keys are in both maps, in ascending order of
  \<open>hex(leaf_key)\<close> and each once (all of them when it returns without error), and then the
  created leaves, whose keys are in the map of the new side only. The created leaves come
  in the order in which \<^verbatim>\<open>range\<close> visits the map, which need not be ascending.
\<close>

theorem updated_then_created:
  assumes pass1: "createdAndUpdatedState sdb a b w = Inr (accB, pathsB) \<or>
           createdAndUpdatedStateWithIntermediateNodes sdb a b out tr0 = (tr1, Inr (accB, pathsB))"
    and run: "reconcile sdb params accB accA out tr = (tr', r)"
  shows "\<exists>ups crs. tr' = tr @ ups @ crs \<and>
           sorted (map hex_leaf_key ups) \<and> distinct (map hex_leaf_key ups) \<and>
           set (map hex_leaf_key ups) \<subseteq> fst ` set accB \<inter> fst ` set accA \<and>
           set (map hex_leaf_key crs) \<subseteq> fst ` set accB - fst ` set accA \<and>
           (\<forall>codes. r = Inr codes \<longrightarrow>
              map hex_leaf_key ups = findIntersection (sortKeys accB) (sortKeys accA))"
proof -
  let ?ks = "findIntersection (sortKeys accB) (sortKeys accA)"
  let ?wk = "WatchedStorageSlots params" and ?im = "IntermediateStorageNodes params"
  note wkd = pass1_well_keyed[OF pass1]
  obtain t1 r1 where u: "buildAccountUpdates sdb accB accA ?ks ?wk ?im out tr = (t1, r1)"
    by (cases "buildAccountUpdates sdb accB accA ?ks ?wk ?im out tr")
  from updated_in_order[OF wkd u] obtain ups n where ups: "n \<le> length ?ks" "t1 = tr @ ups"
    "map hex_leaf_key ups = take n ?ks" "\<forall>maps. r1 = Inr maps \<longrightarrow> n = length ?ks"
    "sorted (map hex_leaf_key ups)" "distinct (map hex_leaf_key ups)" by blast
  have sub: "set (map hex_leaf_key ups) \<subseteq> fst ` set accB \<inter> fst ` set accA"
    unfolding ups(3) using set_take_subset[of n ?ks] by (simp add: set_findIntersection)
  show ?thesis
  proof (cases r1)
    case (Inl f)
    with run u have "tr' = t1" "\<forall>codes. r \<noteq> Inr codes"
      by (auto simp: reconcile_def Let_def)
    with ups sub show ?thesis
      by (intro exI[of _ ups] exI[of _ "[]"]) simp
  next
    case (Inr cd)
    obtain c' d' where cd: "cd = (c', d')" by (cases cd)
    from u Inr cd have "snd (for_each_out (buildAccountUpdates_body sdb ?wk ?im out) ?ks
                          (accB, accA) tr) = Inr (c', d')"
      by (simp add: buildAccountUpdates_def)
    from updates_final_maps[OF this] have c': "c' = filter (\<lambda>kv. fst kv \<notin> set ?ks) accB" by simp
    then have keys: "fst ` set c' \<subseteq> fst ` set accB - fst ` set accA"
      by (auto simp: set_findIntersection)
    from wkd c' have "keyed_by_leaf_key c'"
      by (auto simp: well_keyed_def keyed_by_leaf_key_def)
    from creations_keys[OF this, of sdb ?wk ?im out t1] obtain crs where
      crs: "fst (buildAccountCreations sdb c' ?wk ?im out t1) = t1 @ crs"
      "\<forall>n\<in>set crs. hex_leaf_key n \<in> fst ` set c'" by blast
    from run u Inr cd have "tr' = fst (buildAccountCreations sdb c' ?wk ?im out t1)"
      by (auto simp: reconcile_def Let_def split: prod.splits sum.splits)
    with crs ups have tr': "tr' = tr @ ups @ crs" by simp
    from crs(2) keys have "set (map hex_leaf_key crs) \<subseteq> fst ` set accB - fst ` set accA"
      by auto
    moreover from ups(3,4) Inr have "map hex_leaf_key ups = ?ks" by simp
    ultimately show ?thesis using tr' ups sub
      by (intro exI[of _ ups] exI[of _ crs]) simp
  qed
qed

text \<open>
  Claim C9. In one state diff, once \<^verbatim>\<open>buildAccountUpdates\<close> has returned, every updated key
  is gone from both account maps, and \<^verbatim>\<open>buildAccountCreations\<close> runs on what is left of the
  map of the new side: no leaf key is the key of a leaf written as updated and of a record
  written as created.
\<close>

theorem updated_and_created_disjoint:
  assumes pass1: "createdAndUpdatedState sdb a b w = Inr (accB, pathsB) \<or>
           createdAndUpdatedStateWithIntermediateNodes sdb a b out tr0 = (tr1, Inr (accB, pathsB))"
    and updates: "buildAccountUpdates sdb accB accA updatedKeys wk im out tr = (tr2, Inr (c', d'))"
    and creations: "buildAccountCreations sdb c' wk im out tr2 = (tr3, r)"
  shows "c' = filter (\<lambda>kv. fst kv \<notin> set updatedKeys) accB \<and>
         d' = filter (\<lambda>kv. fst kv \<notin> set updatedKeys) accA \<and>
         (\<exists>ups crs. tr2 = tr @ ups \<and> tr3 = tr2 @ crs \<and>
            StateNode.LeafKey ` {n \<in> set ups. StateNode.NodeType n = Leaf} \<inter>
            StateNode.LeafKey ` set crs = {})"
proof -
  from pass1_well_keyed[OF pass1] have keyed: "keyed_by_leaf_key accB"
    by (simp add: well_keyed_def)
  from updates have "snd (for_each_out (buildAccountUpdates_body sdb wk im out) updatedKeys
                          (accB, accA) tr) = Inr (c', d')"
    by (simp add: buildAccountUpdates_def)
  from updates_final_maps[OF this]
  have maps: "c' = filter (\<lambda>kv. fst kv \<notin> set updatedKeys) accB"
    "d' = filter (\<lambda>kv. fst kv \<notin> set updatedKeys) accA" by simp_all
  from updates_leaf_keys[OF keyed, of sdb accA updatedKeys wk im out tr] updates
  obtain ups where ups: "tr2 = tr @ ups"
    "\<forall>n\<in>set ups. StateNode.NodeType n = Leaf \<longrightarrow> hex_leaf_key n \<in> set updatedKeys"
    by auto
  from keyed maps have "keyed_by_leaf_key c'"
    by (auto simp: keyed_by_leaf_key_def)
  from creations_keys[OF this, of sdb wk im out tr2] creations
  obtain crs where crs: "tr3 = tr2 @ crs" "\<forall>n\<in>set crs. hex_leaf_key n \<in> fst ` set c'"
    by auto
  have "StateNode.LeafKey ` {n \<in> set ups. StateNode.NodeType n = Leaf} \<inter>
            StateNode.LeafKey ` set crs = {}"
  proof (rule ccontr)
    assume "\<not> ?thesis"
    then obtain n m where n: "n \<in> set ups" "StateNode.NodeType n = Leaf"
      and m: "m \<in> set crs" and eq: "StateNode.LeafKey n = StateNode.LeafKey m"
      by auto
    from ups(2) n have "hex_leaf_key n \<in> set updatedKeys" by blast
    moreover from crs(2) m maps(1) have "hex_leaf_key m \<notin> set updatedKeys" by auto
    ultimately show False using eq by (simp add: hex_leaf_key_def)
  qed
  with maps ups(1) crs(1) show ?thesis by blast
qed


subsection \<open>Created accounts\<close>

lemma buildAccountCreations_body_result:
  assumes "snd (buildAccountCreations_body sdb wk im out val codes tr) = Inr codes'"
  shows "fst (buildAccountCreations_body sdb wk im out val codes tr) =
           tr @ [created_record sdb wk im val] \<and>
         codes' = codes @ created_code sdb val \<and>
         (\<exists>account. accountWrapper.Account val = Some account \<and>
            (created_code sdb val = [] \<longleftrightarrow> CodeHash account = nullCodeHash sdb))"
  using assms
  unfolding buildAccountCreations_body_def created_record_def created_storage_def
    created_code_def leaf_record_def emit_def Let_def
  by (auto split: option.splits sum.splits prod.splits if_splits)

lemma buildAccountCreations_loop_result:
  "for_each_out (buildAccountCreations_body sdb wk im out) vals codes tr = (tr', Inr codes') \<Longrightarrow>
   tr' = tr @ map (created_record sdb wk im) vals \<and>
   codes' = codes @ concat (map (created_code sdb) vals) \<and>
   (\<forall>val\<in>set vals. \<exists>account. accountWrapper.Account val = Some account \<and>
      (created_code sdb val = [] \<longleftrightarrow> CodeHash account = nullCodeHash sdb))"
proof (induction vals arbitrary: codes tr)
  case Nil
  then show ?case by simp
next
  case (Cons val vals)
  let ?body = "buildAccountCreations_body sdb wk im out"
  obtain t1 r1 where b: "?body val codes tr = (t1, r1)" by (cases "?body val codes tr")
  show ?case
  proof (cases r1)
    case (Inl f)
    with b Cons.prems show ?thesis by simp
  next
    case (Inr codes1)
    with b have "snd (?body val codes tr) = Inr codes1" by simp
    from buildAccountCreations_body_result[OF this] b
    have t1: "t1 = tr @ [created_record sdb wk im val]"
      and c1: "codes1 = codes @ created_code sdb val"
      and acc: "\<exists>account. accountWrapper.Account val = Some account \<and>
            (created_code sdb val = [] \<longleftrightarrow> CodeHash account = nullCodeHash sdb)"
      by simp_all
    from b Inr Cons.prems have "for_each_out ?body vals codes1 t1 = (tr', Inr codes')" by simp
    from Cons.IH[OF this] t1 c1 acc show ?thesis by simp
  qed
qed

lemma length_map_range [simp]: "length (map_range sdb m) = length m"
  by (simp add: map_range_def)

text \<open>
  Claim C4, as the code has it. When \<^verbatim>\<open>buildAccountCreations\<close> returns without error, it
  has written one \<open>Leaf\<close> record for every entry left in the map, in the order of the
  \<^verbatim>\<open>range\<close>. For an account whose code hash is not the hash of the empty code, the record
  carries the storage nodes of the walk over the whole storage trie at the account's
  storage root, and one pair of code hash and code is appended to the list returned; for
  an account whose code hash is the hash of the empty code, no walk is made, the record
  carries no storage nodes, and no pair is appended.
\<close>

theorem created_account_records:
  assumes "buildAccountCreations sdb accounts wk im out tr = (tr', Inr codeAndCodeHashes)"
  shows "tr' = tr @ map (created_record sdb wk im) (map snd (map_range sdb accounts)) \<and>
         codeAndCodeHashes = concat (map (created_code sdb) (map snd (map_range sdb accounts))) \<and>
         set (map_range sdb accounts) = set accounts \<and>
         length (map_range sdb accounts) = length accounts \<and>
         (\<forall>val\<in>snd ` set accounts.
            \<exists>account. accountWrapper.Account val = Some account \<and>
              (created_code sdb val = [] \<longleftrightarrow> CodeHash account = nullCodeHash sdb) \<and>
              (CodeHash account = nullCodeHash sdb \<longrightarrow>
                 StorageNodes (created_record sdb wk im val) = []) \<and>
              (CodeHash account \<noteq> nullCodeHash sdb \<longrightarrow>
                 StorageNodes (created_record sdb wk im val) =
                   fst (buildStorageNodesEventual sdb (Root account) wk im
                          storageNodeAppender [])))"
proof -
  from buildAccountCreations_loop_result[OF assms[unfolded buildAccountCreations_def]]
  have 1: "tr' = tr @ map (created_record sdb wk im) (map snd (map_range sdb accounts))"
    and 2: "codeAndCodeHashes = concat (map (created_code sdb) (map snd (map_range sdb accounts)))"
    and 3: "\<forall>val\<in>set (map snd (map_range sdb accounts)).
              \<exists>account. accountWrapper.Account val = Some account \<and>
                (created_code sdb val = [] \<longleftrightarrow> CodeHash account = nullCodeHash sdb)"
    by simp_all
  have 4: "\<exists>account. accountWrapper.Account val = Some account \<and>
              (created_code sdb val = [] \<longleftrightarrow> CodeHash account = nullCodeHash sdb) \<and>
              (CodeHash account = nullCodeHash sdb \<longrightarrow>
                 StorageNodes (created_record sdb wk im val) = []) \<and>
              (CodeHash account \<noteq> nullCodeHash sdb \<longrightarrow>
                 StorageNodes (created_record sdb wk im val) =
                   fst (buildStorageNodesEventual sdb (Root account) wk im
                          storageNodeAppender []))"
    if "val \<in> snd ` set accounts" for val
  proof -
    from that have "val \<in> set (map snd (map_range sdb accounts))" by simp
    with 3 obtain account where a: "accountWrapper.Account val = Some account"
      "created_code sdb val = [] \<longleftrightarrow> CodeHash account = nullCodeHash sdb" by blast
    then show ?thesis
      by (intro exI[of _ account])
         (simp add: created_record_def created_storage_def leaf_record_def)
  qed
  from 1 2 4 show ?thesis by simp
qed


section \<open>The properties on the example state\<close>

theorem deletedOrUpdatedState_removed_witness:
  "fst (deletedOrUpdatedState example_db trie_stateA trie_stateB example_pathsAtB
          stateNodeAppender []) = [removed_StateNode [13]] \<and>
   (\<exists>n\<le>length (it_steps (NewDifferenceIterator trie_stateB trie_stateA)).
      [removed_StateNode [13]] =
        [] @ map (\<lambda>it. removed_StateNode (it_Path it))
               (filter (absent_at_B example_pathsAtB)
                  (take n (it_steps (NewDifferenceIterator trie_stateB trie_stateA)))))"
proof -
  have fst_run: "fst (deletedOrUpdatedState example_db trie_stateA trie_stateB example_pathsAtB
          stateNodeAppender []) = [removed_StateNode [13]]"
    by code_simp
  then have run: "deletedOrUpdatedState example_db trie_stateA trie_stateB example_pathsAtB
          stateNodeAppender [] =
        ([removed_StateNode [13]],
         snd (deletedOrUpdatedState example_db trie_stateA trie_stateB example_pathsAtB
                stateNodeAppender []))"
    by (metis prod.collapse)
  from deletedOrUpdatedState_removed[OF run] fst_run show ?thesis by blast
qed

theorem deletedOrUpdatedStorage_removed_witness:
  "fst (deletedOrUpdatedStorage example_db trie_storageA1 trie_storageB1 [('''', True)]
          [slotKey1] True storageNodeAppender []) =
     [removed_StorageNode [11], removed_StorageNode [11, 1]] \<and>
   (\<exists>n\<le>length (it_steps (NewDifferenceIterator trie_storageB1 trie_storageA1)).
      [removed_StorageNode [11], removed_StorageNode [11, 1]] =
        [] @ map (\<lambda>it. removed_StorageNode (it_Path it))
               (filter (\<lambda>it. absent_at_B [('''', True)] it \<and>
                             removal_reported example_db [slotKey1] True it)
                  (take n (it_steps (NewDifferenceIterator trie_storageB1 trie_storageA1)))))"
proof -
  have fst_run: "fst (deletedOrUpdatedStorage example_db trie_storageA1 trie_storageB1
          [('''', True)] [slotKey1] True storageNodeAppender []) =
     [removed_StorageNode [11], removed_StorageNode [11, 1]]"
    by code_simp
  then have run: "deletedOrUpdatedStorage example_db trie_storageA1 trie_storageB1
          [('''', True)] [slotKey1] True storageNodeAppender [] =
        ([removed_StorageNode [11], removed_StorageNode [11, 1]],
         snd (deletedOrUpdatedStorage example_db trie_storageA1 trie_storageB1
                [('''', True)] [slotKey1] True storageNodeAppender []))"
    by (metis prod.collapse)
  from deletedOrUpdatedStorage_removed[OF run] fst_run show ?thesis by blast
qed

theorem watch_filter_keeps_paths_witness:
  "createdAndUpdatedState example_db trie_stateA trie_stateB [address3] =
     Inr (example_watched_accounts, example_pathsAtB) \<and>
   example_step_4 \<in> set (it_steps (NewDifferenceIterator trie_stateA trie_stateB)) \<and>
   structural example_step_4 \<and>
   map_of example_pathsAtB (Bytes2Hex (it_Path example_step_4)) = Some True"
proof -
  have run: "createdAndUpdatedState example_db trie_stateA trie_stateB [address3] =
     Inr (example_watched_accounts, example_pathsAtB)"
    by code_simp
  have step: "example_step_4 \<in> set (it_steps (NewDifferenceIterator trie_stateA trie_stateB))"
    by code_simp
  have structural: "structural example_step_4"
    by code_simp
  from watch_filter_keeps_paths[OF run]
  have "\<forall>it\<in>set (it_steps (NewDifferenceIterator trie_stateA trie_stateB)).
          structural it \<longrightarrow> map_of example_pathsAtB (Bytes2Hex (it_Path it)) = Some True"
    by (rule conjunct1)
  from bspec[OF this step] structural
  have "map_of example_pathsAtB (Bytes2Hex (it_Path example_step_4)) = Some True"
    by blast
  with run step structural show ?thesis by (intro conjI)
qed

theorem BuildStateDiffObject_error_is_empty_witness:
  "BuildStateDiffObject example_db
     \<lparr>Args.OldStateRoot = zero_Hash, NewStateRoot = root_stateB, BlockHash = root_stateA,
      BlockNumber = Some 1\<rparr> example_params =
     Inr (zero_StateObject,
          Some (Errorf ''error creating trie for oldStateRoot: '' (Error ''missing trie node''))) \<and>
   Nodes zero_StateObject = []"
proof -
  have run: "BuildStateDiffObject example_db
     \<lparr>Args.OldStateRoot = zero_Hash, NewStateRoot = root_stateB, BlockHash = root_stateA,
      BlockNumber = Some 1\<rparr> example_params =
     Inr (zero_StateObject,
          Some (Errorf ''error creating trie for oldStateRoot: '' (Error ''missing trie node'')))"
    by code_simp
  from BuildStateDiffObject_error_is_empty[OF run] run show ?thesis by blast
qed

theorem equal_roots_no_diff_witness:
  "OpenTrie example_db root_stateB = Inr trie_stateB \<and> it_Error trie_stateB = None \<and>
   fst (WriteStateDiffObject example_db
          \<lparr>StateRoots.OldStateRoot = root_stateB, NewStateRoot = root_stateB\<rparr>
          example_params stateNodeAppender) = [] \<and>
   snd (WriteStateDiffObject example_db
          \<lparr>StateRoots.OldStateRoot = root_stateB, NewStateRoot = root_stateB\<rparr>
          example_params stateNodeAppender) = Inr []"
proof -
  have opens: "OpenTrie example_db root_stateB = Inr trie_stateB"
    by code_simp
  have ends: "it_Error trie_stateB = None"
    by (simp add: trie_stateB_def)
  from equal_roots_no_diff[of example_db root_stateB example_params stateNodeAppender]
    opens ends
  show ?thesis by blast
qed

theorem sink_error_aborts_wrapped_witness:
  "WriteStateDiffObject example_db example_roots_AB example_params full_sink =
     ([example_branch_B, removed_StateNode [13]],
      Inl (Err (Errorf ''error collecting deletedOrUpdatedNodes: '' (Error ''sink full'')))) \<and>
   full_sink [example_branch_B] (removed_StateNode [13]) = Some (Error ''sink full'') \<and>
   (\<exists>p\<in>pass_prefixes.
      (Inl (Err (Errorf ''error collecting deletedOrUpdatedNodes: '' (Error ''sink full'')))
         :: failure + CodeAndCodeHash list) = Inl (Err (Errorf p (Error ''sink full''))))"
proof -
  have run: "WriteStateDiffObject example_db example_roots_AB example_params full_sink =
     ([example_branch_B, removed_StateNode [13]],
      Inl (Err (Errorf ''error collecting deletedOrUpdatedNodes: '' (Error ''sink full''))))"
    by code_simp
  have rejected: "full_sink [example_branch_B] (removed_StateNode [13]) = Some (Error ''sink full'')"
    by (simp add: full_sink_def)
  from sink_error_aborts_wrapped[OF run _ rejected, of "[]"] run rejected
  show ?thesis by simp
qed

text \<open>Claim C7 as it is written fails: the caller does not get the sink's error value.\<close>

theorem sink_error_unchanged_counterexample:
  "full_sink [example_branch_B] (removed_StateNode [13]) = Some (Error ''sink full'') \<and>
   fst (WriteStateDiffObject example_db example_roots_AB example_params full_sink) =
     [example_branch_B, removed_StateNode [13]] \<and>
   snd (WriteStateDiffObject example_db example_roots_AB example_params full_sink) \<noteq>
     Inl (Err (Error ''sink full''))"
  by code_simp

theorem watched_addresses_only_witness:
  "WatchedAddresses example_params_watching \<noteq> [] \<and>
   map StateNode.NodeType
     (fst (WriteStateDiffObject example_db example_roots_AB example_params_watching
             stateNodeAppender)) = [Removed, Leaf] \<and>
   (\<exists>addr\<in>set (WatchedAddresses example_params_watching).
      StateNode.LeafKey
        (fst (WriteStateDiffObject example_db example_roots_AB example_params_watching
                stateNodeAppender) ! 1) = Keccak256 example_db addr)"
proof -
  let ?tr = "fst (WriteStateDiffObject example_db example_roots_AB example_params_watching
                    stateNodeAppender)"
  have watching: "WatchedAddresses example_params_watching \<noteq> []"
    by (simp add: example_params_watching_def)
  have types: "map StateNode.NodeType ?tr = [Removed, Leaf]"
    by code_simp
  then have "length (map StateNode.NodeType ?tr) = 2" by simp
  then have len: "1 < length ?tr" by simp
  then have mem: "?tr ! 1 \<in> set ?tr" by (rule nth_mem)
  from len have "StateNode.NodeType (?tr ! 1) = map StateNode.NodeType ?tr ! 1"
    by (rule nth_map[symmetric])
  with types have leaf: "StateNode.NodeType (?tr ! 1) = Leaf" by simp
  from watched_addresses_only[OF watching, of example_db example_roots_AB stateNodeAppender]
  have "\<forall>n\<in>set ?tr.
          StateNode.NodeType n \<noteq> Extension \<and> StateNode.NodeType n \<noteq> Branch \<and>
          (StateNode.NodeType n = Leaf \<longrightarrow>
             (\<exists>addr\<in>set (WatchedAddresses example_params_watching).
                StateNode.LeafKey n = Keccak256 example_db addr))"
    by (rule conjunct2)
  from bspec[OF this mem] leaf
  have "\<exists>addr\<in>set (WatchedAddresses example_params_watching).
          StateNode.LeafKey (?tr ! 1) = Keccak256 example_db addr"
    by blast
  with watching types show ?thesis by (intro conjI)
qed

lemma example_pass1:
  "createdAndUpdatedStateWithIntermediateNodes example_db trie_stateA trie_stateB
     stateNodeAppender [] = ([example_branch_B], Inr (example_accountsAtB, example_pathsAtB))"
  by code_simp

theorem updated_then_created_witness:
  "createdAndUpdatedStateWithIntermediateNodes example_db trie_stateA trie_stateB
     stateNodeAppender [] = ([example_branch_B], Inr (example_accountsAtB, example_pathsAtB)) \<and>
   (\<exists>ups crs.
      fst (reconcile example_db example_params example_accountsAtB example_accountsAtA
             stateNodeAppender []) = [] @ ups @ crs \<and>
      sorted (map hex_leaf_key ups) \<and> distinct (map hex_leaf_key ups) \<and>
      set (map hex_leaf_key ups) \<subseteq> fst ` set example_accountsAtB \<inter> fst ` set example_accountsAtA \<and>
      set (map hex_leaf_key crs) \<subseteq> fst ` set example_accountsAtB - fst ` set example_accountsAtA)"
proof -
  from updated_then_created[OF disjI2[OF example_pass1] surjective_pairing] example_pass1
  show ?thesis by blast
qed

text \<open>Claim C3 as it is written fails: of the two accounts created between A and B, the one
  with the greater key is written first.\<close>

theorem created_leaves_order_counterexample:
  "map fst example_accountsAtA = [Bytes2Hex leafKey1, Bytes2Hex leafKey2] \<and>
   map hex_leaf_key
     (fst (WriteStateDiffObject example_db example_roots_AB example_params stateNodeAppender)) =
     ['''', '''', Bytes2Hex leafKey1, Bytes2Hex leafKey4, Bytes2Hex leafKey3] \<and>
   Bytes2Hex leafKey3 < Bytes2Hex leafKey4 \<and>
   \<not> sorted [Bytes2Hex leafKey4, Bytes2Hex leafKey3]"
  by code_simp

theorem updated_and_created_disjoint_witness:
  "snd (buildAccountUpdates example_db example_accountsAtB example_accountsAtA
          [Bytes2Hex leafKey1] [] True stateNodeAppender []) =
     Inr (example_created, example_deleted) \<and>
   example_created = filter (\<lambda>kv. fst kv \<notin> set [Bytes2Hex leafKey1]) example_accountsAtB"
proof -
  have result: "snd (buildAccountUpdates example_db example_accountsAtB example_accountsAtA
          [Bytes2Hex leafKey1] [] True stateNodeAppender []) =
     Inr (example_created, example_deleted)"
    by code_simp
  have updates: "buildAccountUpdates example_db example_accountsAtB example_accountsAtA
          [Bytes2Hex leafKey1] [] True stateNodeAppender [] =
     (fst (buildAccountUpdates example_db example_accountsAtB example_accountsAtA
             [Bytes2Hex leafKey1] [] True stateNodeAppender []),
      Inr (example_created, example_deleted))"
    by (rule prod_eqI) (simp_all add: result)
  note disjoint =
    updated_and_created_disjoint[OF disjI2[OF example_pass1] updates surjective_pairing]
  from disjoint
  have "example_created = filter (\<lambda>kv. fst kv \<notin> set [Bytes2Hex leafKey1]) example_accountsAtB"
    by (rule conjunct1)
  with result show ?thesis by (rule conjI)
qed

theorem created_account_records_witness:
  "snd (buildAccountCreations example_db example_created [] True stateNodeAppender []) =
     Inr [\<lparr>Hash = codeHash4, Code = code4\<rparr>] \<and>
   fst (buildAccountCreations example_db example_created [] True stateNodeAppender []) =
     [] @ map (created_record example_db [] True) (map snd (map_range example_db example_created))"
proof -
  have result: "snd (buildAccountCreations example_db example_created [] True
                       stateNodeAppender []) = Inr [\<lparr>Hash = codeHash4, Code = code4\<rparr>]"
    by code_simp
  have run: "buildAccountCreations example_db example_created [] True stateNodeAppender [] =
     (fst (buildAccountCreations example_db example_created [] True stateNodeAppender []),
      Inr [\<lparr>Hash = codeHash4, Code = code4\<rparr>])"
    by (rule prod_eqI) (simp_all add: result)
  from created_account_records[OF run]
  have "fst (buildAccountCreations example_db example_created [] True stateNodeAppender []) =
     [] @ map (created_record example_db [] True) (map snd (map_range example_db example_created))"
    by (rule conjunct1)
  with result show ?thesis by (rule conjI)
qed

text \<open>Claim C4 as it is written fails: the account created at \<open>address6\<close> has a storage trie
  with one leaf, and its record carries no storage node.\<close>

theorem created_without_code_counterexample:
  "fst (WriteStateDiffObject example_db example_roots_BC example_params stateNodeAppender) =
     [example_branch_C, example_leaf6] \<and>
   rlp_DecodeAccount example_db accountRLP_6 = Inr example_account6 \<and>
   StorageNodes example_leaf6 = [] \<and>
   fst (buildStorageNodesEventual example_db (Root example_account6) [] True
          storageNodeAppender []) = [example_storage_leaf]"
  by code_simp

end
